theory Spec2Isabelle
  imports Main "HOL-Library.Monad_Syntax"
begin

section \<open>Tokens (compiler/lexer/token.h)\<close>

text \<open>
  The token kinds of the LAMC lexer, in the order of the C enumeration.
\<close>

datatype (plugins only: code size) TokenType =
    TOKEN_INT | TOKEN_FLOAT | TOKEN_STRING | TOKEN_CHAR | TOKEN_TRUE | TOKEN_FALSE
  | TOKEN_IDENTIFIER | TOKEN_FUNC | TOKEN_RETURN | TOKEN_IF | TOKEN_ELSE | TOKEN_WHILE
  | TOKEN_FOR | TOKEN_IN | TOKEN_LOOP | TOKEN_BREAK | TOKEN_CONTINUE | TOKEN_IMPORT
  | TOKEN_EXPORT | TOKEN_CLASS | TOKEN_THIS | TOKEN_TRY | TOKEN_CATCH | TOKEN_FINALLY
  | TOKEN_PLUS | TOKEN_MINUS | TOKEN_STAR | TOKEN_SLASH | TOKEN_PERCENT | TOKEN_EQUAL
  | TOKEN_EQUAL_EQUAL | TOKEN_NOT_EQUAL | TOKEN_LESS | TOKEN_GREATER | TOKEN_LESS_EQUAL
  | TOKEN_GREATER_EQUAL | TOKEN_AND | TOKEN_OR | TOKEN_NOT | TOKEN_AMPERSAND | TOKEN_PIPE
  | TOKEN_CARET | TOKEN_TILDE | TOKEN_DOT_DOT | TOKEN_DOT_DOT_EQUAL
  | TOKEN_LEFT_PAREN | TOKEN_RIGHT_PAREN | TOKEN_LEFT_BRACE | TOKEN_RIGHT_BRACE
  | TOKEN_LEFT_BRACKET | TOKEN_RIGHT_BRACKET | TOKEN_COMMA | TOKEN_COLON | TOKEN_DOT
  | TOKEN_ARROW
  | TOKEN_NEWLINE | TOKEN_EOF | TOKEN_ERROR

text \<open>
  A token: its kind, its lexeme (the C fields \<open>start\<close> and \<open>length\<close> together; for
  a \<open>TOKEN_ERROR\<close> token the lexeme is the message), line and column.
\<close>

record Token =
  type :: TokenType
  lexeme :: string
  line :: int
  column :: int

definition make_token :: "TokenType \<Rightarrow> string \<Rightarrow> int \<Rightarrow> int \<Rightarrow> Token" where
  "make_token ty s l c = \<lparr>type = ty, lexeme = s, line = l, column = c\<rparr>"

definition error_token :: "string \<Rightarrow> int \<Rightarrow> int \<Rightarrow> Token" where
  "error_token message l c = \<lparr>type = TOKEN_ERROR, lexeme = message, line = l, column = c\<rparr>"

section \<open>The token source (compiler/lexer/lexer.h)\<close>

text \<open>
  The parser reads its input only through \<open>lexer_next_token\<close>. A lexer is represented
  by the tokens it has still to deliver (\<open>pending\<close>) and the position it stops at; once
  the pending tokens are used up it answers every further request with \<open>TOKEN_EOF\<close>
  at that position, as the C lexer does at the terminating NUL of the source.
\<close>

record Lexer =
  pending :: "Token list"
  end_line :: int
  end_column :: int

definition lexer_next_token :: "Lexer \<Rightarrow> Token \<times> Lexer" where
  "lexer_next_token lx =
     (case pending lx of
        [] \<Rightarrow> (make_token TOKEN_EOF [] (end_line lx) (end_column lx), lx)
      | t # ts \<Rightarrow> (t, lx\<lparr>pending := ts\<rparr>))"

section \<open>The syntax tree (compiler/parser/ast.h, ast.c)\<close>

datatype BinaryOp =
    OP_ADD | OP_SUB | OP_MUL | OP_DIV | OP_MOD
  | OP_EQ | OP_NE | OP_LT | OP_GT | OP_LE | OP_GE
  | OP_AND | OP_OR
  | OP_BIT_AND | OP_BIT_OR | OP_BIT_XOR
  | OP_SHL | OP_SHR

datatype UnaryOp = OP_NEG | OP_NOT | OP_BIT_NOT

text \<open>
  A literal's payload. \<open>LIT_INT\<close> holds the C \<open>long\<close>; \<open>LIT_FLOAT\<close> holds the
  lexeme handed to \<open>strtod\<close> (the binary rounding of the double is not part of this
  development); \<open>LIT_STRING\<close> holds the characters between the quotes.
\<close>

datatype Literal =
    LIT_INT int
  | LIT_FLOAT string
  | LIT_STRING string
  | LIT_BOOL bool
  | LIT_NULL

text \<open>A function parameter: name, optional type name. The parser never builds a default value.\<close>

record Parameter =
  param_name :: string
  param_type_name :: "string option"

text \<open>
  A node is its payload (the C union, tagged by the node type) with the line and column
  it was created at. A C pointer to a node is an \<open>AstNode option\<close>, \<open>None\<close> being
  \<open>NULL\<close>; an \<open>AstList\<close> of nodes is a list of such pointers, since
  \<open>ast_list_append\<close> stores whatever pointer it is given.
\<close>

datatype AstNode = AstNode (payload: AstData) (node_line: int) (node_column: int)
and AstData =
    BinaryExpr BinaryOp "AstNode option" "AstNode option"
  | UnaryExpr UnaryOp "AstNode option"
  | LiteralExpr Literal
  | IdentifierExpr string
  | CallExpr "AstNode option" "AstNode option list"
  | IndexExpr "AstNode option" "AstNode option"
  | MemberExpr "AstNode option" string
  | ArrayExpr "AstNode option list"
  | VarDecl string "string option" "AstNode option"
  | ExprStmt "AstNode option"
  | IfStmt "AstNode option" "AstNode option" "AstNode option"
  | WhileStmt "AstNode option" "AstNode option"
  | ForStmt string "AstNode option" "AstNode option" "string option"
  | LoopStmt "AstNode option"
  | ReturnStmt "AstNode option"
  | BreakStmt
  | ContinueStmt
  | BlockStmt "AstNode option list"
  | FunctionDecl string "Parameter list" "AstNode option" "string option"
  | Program "AstNode option list"

type_synonym AstPtr = "AstNode option"

definition ast_create_binary :: "BinaryOp \<Rightarrow> AstPtr \<Rightarrow> AstPtr \<Rightarrow> int \<Rightarrow> int \<Rightarrow> AstPtr" where
  "ast_create_binary op left right l c = Some (AstNode (BinaryExpr op left right) l c)"

definition ast_create_unary :: "UnaryOp \<Rightarrow> AstPtr \<Rightarrow> int \<Rightarrow> int \<Rightarrow> AstPtr" where
  "ast_create_unary op operand l c = Some (AstNode (UnaryExpr op operand) l c)"

definition ast_create_literal_int :: "int \<Rightarrow> int \<Rightarrow> int \<Rightarrow> AstPtr" where
  "ast_create_literal_int v l c = Some (AstNode (LiteralExpr (LIT_INT v)) l c)"

definition ast_create_literal_float :: "string \<Rightarrow> int \<Rightarrow> int \<Rightarrow> AstPtr" where
  "ast_create_literal_float v l c = Some (AstNode (LiteralExpr (LIT_FLOAT v)) l c)"

definition ast_create_literal_string :: "string \<Rightarrow> int \<Rightarrow> int \<Rightarrow> AstPtr" where
  "ast_create_literal_string v l c = Some (AstNode (LiteralExpr (LIT_STRING v)) l c)"

definition ast_create_literal_bool :: "bool \<Rightarrow> int \<Rightarrow> int \<Rightarrow> AstPtr" where
  "ast_create_literal_bool v l c = Some (AstNode (LiteralExpr (LIT_BOOL v)) l c)"

definition ast_create_identifier :: "string \<Rightarrow> int \<Rightarrow> int \<Rightarrow> AstPtr" where
  "ast_create_identifier name l c = Some (AstNode (IdentifierExpr name) l c)"

definition ast_create_call :: "AstPtr \<Rightarrow> AstPtr list \<Rightarrow> int \<Rightarrow> int \<Rightarrow> AstPtr" where
  "ast_create_call callee args l c = Some (AstNode (CallExpr callee args) l c)"

definition ast_create_index :: "AstPtr \<Rightarrow> AstPtr \<Rightarrow> int \<Rightarrow> int \<Rightarrow> AstPtr" where
  "ast_create_index object index l c = Some (AstNode (IndexExpr object index) l c)"

definition ast_create_member :: "AstPtr \<Rightarrow> string \<Rightarrow> int \<Rightarrow> int \<Rightarrow> AstPtr" where
  "ast_create_member object member l c = Some (AstNode (MemberExpr object member) l c)"

definition ast_create_array :: "AstPtr list \<Rightarrow> int \<Rightarrow> int \<Rightarrow> AstPtr" where
  "ast_create_array elements l c = Some (AstNode (ArrayExpr elements) l c)"

definition ast_create_var_decl :: "string \<Rightarrow> string option \<Rightarrow> AstPtr \<Rightarrow> int \<Rightarrow> int \<Rightarrow> AstPtr" where
  "ast_create_var_decl name ty init l c = Some (AstNode (VarDecl name ty init) l c)"

definition ast_create_expr_stmt :: "AstPtr \<Rightarrow> int \<Rightarrow> int \<Rightarrow> AstPtr" where
  "ast_create_expr_stmt expr l c = Some (AstNode (ExprStmt expr) l c)"

definition ast_create_if :: "AstPtr \<Rightarrow> AstPtr \<Rightarrow> AstPtr \<Rightarrow> int \<Rightarrow> int \<Rightarrow> AstPtr" where
  "ast_create_if cond then_br else_br l c = Some (AstNode (IfStmt cond then_br else_br) l c)"

definition ast_create_while :: "AstPtr \<Rightarrow> AstPtr \<Rightarrow> int \<Rightarrow> int \<Rightarrow> AstPtr" where
  "ast_create_while cond body l c = Some (AstNode (WhileStmt cond body) l c)"

definition ast_create_for :: "string \<Rightarrow> AstPtr \<Rightarrow> AstPtr \<Rightarrow> string option \<Rightarrow> int \<Rightarrow> int \<Rightarrow> AstPtr" where
  "ast_create_for var iter body idx l c = Some (AstNode (ForStmt var iter body idx) l c)"

definition ast_create_loop :: "AstPtr \<Rightarrow> int \<Rightarrow> int \<Rightarrow> AstPtr" where
  "ast_create_loop body l c = Some (AstNode (LoopStmt body) l c)"

definition ast_create_return :: "AstPtr \<Rightarrow> int \<Rightarrow> int \<Rightarrow> AstPtr" where
  "ast_create_return v l c = Some (AstNode (ReturnStmt v) l c)"

definition ast_create_break :: "int \<Rightarrow> int \<Rightarrow> AstPtr" where
  "ast_create_break l c = Some (AstNode BreakStmt l c)"

definition ast_create_continue :: "int \<Rightarrow> int \<Rightarrow> AstPtr" where
  "ast_create_continue l c = Some (AstNode ContinueStmt l c)"

definition ast_create_block :: "AstPtr list \<Rightarrow> int \<Rightarrow> int \<Rightarrow> AstPtr" where
  "ast_create_block stmts l c = Some (AstNode (BlockStmt stmts) l c)"

definition ast_create_function ::
  "string \<Rightarrow> Parameter list \<Rightarrow> AstPtr \<Rightarrow> string option \<Rightarrow> int \<Rightarrow> int \<Rightarrow> AstPtr" where
  "ast_create_function name params body ret_type l c =
     Some (AstNode (FunctionDecl name params body ret_type) l c)"

definition ast_create_program :: "AstPtr list \<Rightarrow> AstPtr" where
  "ast_create_program decls = Some (AstNode (Program decls) 1 1)"

definition ast_create_parameter :: "string \<Rightarrow> string option \<Rightarrow> Parameter" where
  "ast_create_parameter name ty = \<lparr>param_name = name, param_type_name = ty\<rparr>"


section \<open>Parser state and helpers (compiler/parser/parser.h, parser.c)\<close>

text \<open>
  The parser state of the C struct, with one more field: \<open>reported\<close> lists, in order,
  the diagnostics \<open>parser_error_at\<close> has written to the error stream (the token the
  message is located at, and the message).
\<close>

record Parser =
  lexer :: Lexer
  current :: Token
  previous :: Token
  had_error :: bool
  panic_mode :: bool
  reported :: "(Token \<times> string) list"

text \<open>
  A parse function run with a bound on the depth of calls and loop iterations:
  \<open>None\<close> means the bound was reached before the function returned; \<open>Some (r, p)\<close>
  is a return with value \<open>r\<close> in parser state \<open>p\<close>.
\<close>

type_synonym 'a outcome = "('a \<times> Parser) option"

definition string_dup_n :: "string \<Rightarrow> nat \<Rightarrow> string" where
  "string_dup_n str len = take len str"

definition parser_error_at :: "Parser \<Rightarrow> Token \<Rightarrow> string \<Rightarrow> Parser" where
  "parser_error_at p token message =
     (if panic_mode p then p
      else p\<lparr>panic_mode := True, had_error := True,
             reported := reported p @ [(token, message)]\<rparr>)"

definition parser_error_at_current :: "Parser \<Rightarrow> string \<Rightarrow> Parser" where
  "parser_error_at_current p message = parser_error_at p (current p) message"

definition parser_error :: "Parser \<Rightarrow> string \<Rightarrow> Parser" where
  "parser_error p message = parser_error_at p (previous p) message"

text \<open>
  The loop of \<open>parser_advance\<close>: fetch tokens until one is not \<open>TOKEN_ERROR\<close>,
  reporting each error token with its own message. An error token is always a pending
  one, so the loop ends when the pending tokens do.
\<close>

function parser_advance_loop :: "Parser \<Rightarrow> Parser" where
  "parser_advance_loop p =
     (let (t, lx) = lexer_next_token (lexer p);
          p = p\<lparr>lexer := lx, current := t\<rparr>
      in if type (current p) \<noteq> TOKEN_ERROR then p
         else parser_advance_loop (parser_error_at_current p (lexeme (current p))))"
  by pat_completeness auto
termination
  by (relation "measure (\<lambda>p. length (pending (lexer p)))")
     (auto simp: lexer_next_token_def make_token_def parser_error_at_current_def
        parser_error_at_def split: list.splits)

declare parser_advance_loop.simps [simp del]

definition parser_advance :: "Parser \<Rightarrow> Parser" where
  "parser_advance p = parser_advance_loop (p\<lparr>previous := current p\<rparr>)"

definition parser_init :: "Parser \<Rightarrow> Lexer \<Rightarrow> Parser" where
  "parser_init p lx =
     parser_advance (p\<lparr>lexer := lx, had_error := False, panic_mode := False\<rparr>)"

definition parser_check :: "Parser \<Rightarrow> TokenType \<Rightarrow> bool" where
  "parser_check p ty = (type (current p) = ty)"

definition parser_match :: "Parser \<Rightarrow> TokenType \<Rightarrow> bool \<times> Parser" where
  "parser_match p ty = (if \<not> parser_check p ty then (False, p) else (True, parser_advance p))"

text \<open>\<open>parser_match(p, t1) || parser_match(p, t2) || ...\<close>, evaluated left to right.\<close>

fun parser_match_any :: "Parser \<Rightarrow> TokenType list \<Rightarrow> bool \<times> Parser" where
  "parser_match_any p [] = (False, p)"
| "parser_match_any p (ty # tys) =
     (let (m, p) = parser_match p ty in if m then (True, p) else parser_match_any p tys)"

definition parser_expect :: "Parser \<Rightarrow> TokenType \<Rightarrow> string \<Rightarrow> Token \<times> Parser" where
  "parser_expect p ty message =
     (if type (current p) = ty then (current p, parser_advance p)
      else (let p = parser_error_at_current p message in (current p, p)))"

definition parser_is_at_end :: "Parser \<Rightarrow> bool" where
  "parser_is_at_end p = (type (current p) = TOKEN_EOF)"

section \<open>Numeric literals\<close>

text \<open>
  \<open>strtol(s, NULL, 10)\<close>: optional white space, an optional sign, then decimal digits
  up to the first other character; the value saturates at the bounds of \<open>long\<close>
  (64 bits wide on the LP64 platforms the compiler is built for).
\<close>

definition isspace :: "char \<Rightarrow> bool" where
  "isspace c = (of_char c \<in> {9, 10, 11, 12, 13, 32 :: nat})"

definition isdigit :: "char \<Rightarrow> bool" where
  "isdigit c = (48 \<le> (of_char c :: nat) \<and> (of_char c :: nat) \<le> 57)"

definition LONG_MAX :: int where
  "LONG_MAX = 2 ^ 63 - 1"

definition LONG_MIN :: int where
  "LONG_MIN = - (2 ^ 63)"

definition digits_value :: "string \<Rightarrow> int" where
  "digits_value ds = foldl (\<lambda>acc c. 10 * acc + (of_char c - 48)) 0 ds"

definition strtol :: "string \<Rightarrow> int" where
  "strtol s =
     (let s = dropWhile isspace s;
          neg = (s \<noteq> [] \<and> hd s = CHR ''-'');
          s = (if s \<noteq> [] \<and> (hd s = CHR ''-'' \<or> hd s = CHR ''+'') then tl s else s);
          v = digits_value (takeWhile isdigit s);
          v = (if neg then - v else v)
      in max LONG_MIN (min LONG_MAX v))"




section \<open>Expressions\<close>

text \<open>
  The expression functions of parser.c call each other in a cycle that closes at
  \<open>parser_parse_expression\<close> (from a parenthesised expression, an array element, a
  call argument and an index). Each function below is the C function of the same name;
  its first argument \<open>pe\<close> stands for the call back into
  \<open>parser_parse_expression\<close>, and its \<open>nat\<close> argument bounds the iterations of its
  loop (and of the loops it calls). \<open>parser_parse_expression\<close> closes the cycle, its
  bound counting the nesting of such calls.
\<close>

type_synonym expr_parser = "Parser \<Rightarrow> AstPtr outcome"

text \<open>The \<open>do ... while (parser_match(parser, TOKEN_COMMA))\<close> loop of an array literal.\<close>

primrec parse_array_elements ::
  "expr_parser \<Rightarrow> nat \<Rightarrow> Parser \<Rightarrow> AstPtr list \<Rightarrow> (AstPtr list) outcome" where
  "parse_array_elements pe 0 p elements = None"
| "parse_array_elements pe (Suc n) p elements =
     do {
       (element, p) \<leftarrow> pe p;
       let elements = elements @ [element];
       let (m, p) = parser_match p TOKEN_COMMA;
       if m then parse_array_elements pe n p elements else Some (elements, p)
     }"

definition parser_parse_primary :: "expr_parser \<Rightarrow> nat \<Rightarrow> Parser \<Rightarrow> AstPtr outcome" where
  "parser_parse_primary pe n p =
     (if type (current p) = TOKEN_RIGHT_PAREN \<or>
         type (current p) = TOKEN_RIGHT_BRACKET \<or>
         type (current p) = TOKEN_EOF
      then Some (None, p)
      else
      let (m, p) = parser_match p TOKEN_INT in
      if m then
        (let token = previous p;
             num_str = string_dup_n (lexeme token) (length (lexeme token));
             v = strtol num_str
         in Some (ast_create_literal_int v (line token) (column token), p))
      else
      let (m, p) = parser_match p TOKEN_FLOAT in
      if m then
        (let token = previous p;
             num_str = string_dup_n (lexeme token) (length (lexeme token))
         in Some (ast_create_literal_float num_str (line token) (column token), p))
      else
      let (m, p) = parser_match p TOKEN_STRING in
      if m then
        (let token = previous p;
             str_value = string_dup_n (drop 1 (lexeme token)) (length (lexeme token) - 2)
         in Some (ast_create_literal_string str_value (line token) (column token), p))
      else
      let (m, p) = parser_match p TOKEN_TRUE in
      if m then
        (let token = previous p
         in Some (ast_create_literal_bool True (line token) (column token), p))
      else
      let (m, p) = parser_match p TOKEN_FALSE in
      if m then
        (let token = previous p
         in Some (ast_create_literal_bool False (line token) (column token), p))
      else
      let (m, p) = parser_match p TOKEN_IDENTIFIER in
      if m then
        (let token = previous p;
             name = string_dup_n (lexeme token) (length (lexeme token))
         in Some (ast_create_identifier name (line token) (column token), p))
      else
      let (m, p) = parser_match p TOKEN_LEFT_PAREN in
      if m then
        do {
          (expr, p) \<leftarrow> pe p;
          if expr = None
          then Some (None, parser_error p (''Expected expression after '('' @ [CHR 0x27]))
          else
            (let (_, p) = parser_expect p TOKEN_RIGHT_PAREN ''Expected ')' after expression''
             in Some (expr, p))
        }
      else
      let (m, p) = parser_match p TOKEN_LEFT_BRACKET in
      if m then
        (let start_token = previous p in
         do {
           (elements, p) \<leftarrow>
             (if \<not> parser_check p TOKEN_RIGHT_BRACKET then parse_array_elements pe n p []
              else Some ([], p));
           let (_, p) = parser_expect p TOKEN_RIGHT_BRACKET ''Expected ']' after array elements'';
           Some (ast_create_array elements (line start_token) (column start_token), p)
         })
      else Some (None, parser_error_at_current p ''Expected expression''))"

text \<open>The \<open>do ... while\<close> loop over the arguments of a call.\<close>

primrec parse_call_arguments ::
  "expr_parser \<Rightarrow> nat \<Rightarrow> Parser \<Rightarrow> AstPtr list \<Rightarrow> (AstPtr list) outcome" where
  "parse_call_arguments pe 0 p args = None"
| "parse_call_arguments pe (Suc n) p args =
     do {
       (arg, p) \<leftarrow> pe p;
       let args = args @ [arg];
       let (m, p) = parser_match p TOKEN_COMMA;
       if m then parse_call_arguments pe n p args else Some (args, p)
     }"

text \<open>
  \<open>parse_postfix_continue\<close>: the \<open>for (;;)\<close> loop over calls, indexing and member
  access, on an expression that has been parsed already.
\<close>

primrec parse_postfix_continue ::
  "expr_parser \<Rightarrow> nat \<Rightarrow> Parser \<Rightarrow> AstPtr \<Rightarrow> AstPtr outcome" where
  "parse_postfix_continue pe 0 p expr = None"
| "parse_postfix_continue pe (Suc n) p expr =
     (let (m, p) = parser_match p TOKEN_LEFT_PAREN in
      if m then
        do {
          (args, p) \<leftarrow>
            (if \<not> parser_check p TOKEN_RIGHT_PAREN then parse_call_arguments pe n p []
             else Some ([], p));
          let (paren, p) = parser_expect p TOKEN_RIGHT_PAREN ''Expected ')' after arguments'';
          parse_postfix_continue pe n p (ast_create_call expr args (line paren) (column paren))
        }
      else
      let (m, p) = parser_match p TOKEN_LEFT_BRACKET in
      if m then
        do {
          (index, p) \<leftarrow> pe p;
          let (bracket, p) = parser_expect p TOKEN_RIGHT_BRACKET ''Expected ']' after index'';
          parse_postfix_continue pe n p
            (ast_create_index expr index (line bracket) (column bracket))
        }
      else
      let (m, p) = parser_match p TOKEN_DOT in
      if m then
        (let (member, p) =
               parser_expect p TOKEN_IDENTIFIER (''Expected property name after '.'' @ [CHR 0x27]);
             member_name = string_dup_n (lexeme member) (length (lexeme member))
         in parse_postfix_continue pe n p
              (ast_create_member expr member_name (line member) (column member)))
      else Some (expr, p))"

text \<open>
  \<open>parse_postfix\<close>: a primary expression, then the same loop; in parser.c the loop is
  written out a second time, statement for statement as in \<open>parse_postfix_continue\<close>.
\<close>

definition parse_postfix :: "expr_parser \<Rightarrow> nat \<Rightarrow> Parser \<Rightarrow> AstPtr outcome" where
  "parse_postfix pe n p =
     do {
       (expr, p) \<leftarrow> parser_parse_primary pe n p;
       parse_postfix_continue pe n p expr
     }"

primrec parse_unary :: "expr_parser \<Rightarrow> nat \<Rightarrow> Parser \<Rightarrow> AstPtr outcome" where
  "parse_unary pe 0 p = None"
| "parse_unary pe (Suc n) p =
     (let (m, p) = parser_match p TOKEN_MINUS in
      if m then
        (let op = previous p in
         do {
           (operand, p) \<leftarrow> parse_unary pe n p;
           Some (ast_create_unary OP_NEG operand (line op) (column op), p)
         })
      else
      let (m, p) = parser_match p TOKEN_NOT in
      if m then
        (let op = previous p in
         do {
           (operand, p) \<leftarrow> parse_unary pe n p;
           Some (ast_create_unary OP_NOT operand (line op) (column op), p)
         })
      else
      let (m, p) = parser_match p TOKEN_TILDE in
      if m then
        (let op = previous p in
         do {
           (operand, p) \<leftarrow> parse_unary pe n p;
           Some (ast_create_unary OP_BIT_NOT operand (line op) (column op), p)
         })
      else parse_postfix pe n p)"

primrec parse_factor_loop :: "expr_parser \<Rightarrow> nat \<Rightarrow> Parser \<Rightarrow> AstPtr \<Rightarrow> AstPtr outcome" where
  "parse_factor_loop pe 0 p expr = None"
| "parse_factor_loop pe (Suc n) p expr =
     (let (m, p) = parser_match_any p [TOKEN_STAR, TOKEN_SLASH, TOKEN_PERCENT] in
      if m then
        (let op = previous p in
         do {
           (right, p) \<leftarrow> parse_unary pe n p;
           let bin_op = (if type op = TOKEN_STAR then OP_MUL
                         else if type op = TOKEN_SLASH then OP_DIV
                         else OP_MOD);
           parse_factor_loop pe n p (ast_create_binary bin_op expr right (line op) (column op))
         })
      else Some (expr, p))"

definition parse_factor :: "expr_parser \<Rightarrow> nat \<Rightarrow> Parser \<Rightarrow> AstPtr outcome" where
  "parse_factor pe n p =
     do {
       (expr, p) \<leftarrow> parse_unary pe n p;
       parse_factor_loop pe n p expr
     }"

primrec parse_term_loop :: "expr_parser \<Rightarrow> nat \<Rightarrow> Parser \<Rightarrow> AstPtr \<Rightarrow> AstPtr outcome" where
  "parse_term_loop pe 0 p expr = None"
| "parse_term_loop pe (Suc n) p expr =
     (let (m, p) = parser_match_any p [TOKEN_PLUS, TOKEN_MINUS] in
      if m then
        (let op = previous p in
         do {
           (right, p) \<leftarrow> parse_factor pe n p;
           let bin_op = (if type op = TOKEN_PLUS then OP_ADD else OP_SUB);
           parse_term_loop pe n p (ast_create_binary bin_op expr right (line op) (column op))
         })
      else Some (expr, p))"

definition parse_term :: "expr_parser \<Rightarrow> nat \<Rightarrow> Parser \<Rightarrow> AstPtr outcome" where
  "parse_term pe n p =
     do {
       (expr, p) \<leftarrow> parse_factor pe n p;
       parse_term_loop pe n p expr
     }"

primrec parse_comparison_loop :: "expr_parser \<Rightarrow> nat \<Rightarrow> Parser \<Rightarrow> AstPtr \<Rightarrow> AstPtr outcome" where
  "parse_comparison_loop pe 0 p expr = None"
| "parse_comparison_loop pe (Suc n) p expr =
     (let (m, p) = parser_match_any p
            [TOKEN_LESS, TOKEN_GREATER, TOKEN_LESS_EQUAL, TOKEN_GREATER_EQUAL] in
      if m then
        (let op = previous p in
         do {
           (right, p) \<leftarrow> parse_term pe n p;
           let bin_op = (if type op = TOKEN_LESS then OP_LT
                         else if type op = TOKEN_GREATER then OP_GT
                         else if type op = TOKEN_LESS_EQUAL then OP_LE
                         else if type op = TOKEN_GREATER_EQUAL then OP_GE
                         else OP_LT);
           parse_comparison_loop pe n p
             (ast_create_binary bin_op expr right (line op) (column op))
         })
      else Some (expr, p))"

definition parse_comparison :: "expr_parser \<Rightarrow> nat \<Rightarrow> Parser \<Rightarrow> AstPtr outcome" where
  "parse_comparison pe n p =
     do {
       (expr, p) \<leftarrow> parse_term pe n p;
       parse_comparison_loop pe n p expr
     }"

primrec parse_equality_loop :: "expr_parser \<Rightarrow> nat \<Rightarrow> Parser \<Rightarrow> AstPtr \<Rightarrow> AstPtr outcome" where
  "parse_equality_loop pe 0 p expr = None"
| "parse_equality_loop pe (Suc n) p expr =
     (let (m, p) = parser_match_any p [TOKEN_EQUAL_EQUAL, TOKEN_NOT_EQUAL] in
      if m then
        (let op = previous p in
         do {
           (right, p) \<leftarrow> parse_comparison pe n p;
           let bin_op = (if type op = TOKEN_EQUAL_EQUAL then OP_EQ else OP_NE);
           parse_equality_loop pe n p (ast_create_binary bin_op expr right (line op) (column op))
         })
      else Some (expr, p))"

definition parse_equality :: "expr_parser \<Rightarrow> nat \<Rightarrow> Parser \<Rightarrow> AstPtr outcome" where
  "parse_equality pe n p =
     do {
       (expr, p) \<leftarrow> parse_comparison pe n p;
       parse_equality_loop pe n p expr
     }"

primrec parse_logical_and_loop :: "expr_parser \<Rightarrow> nat \<Rightarrow> Parser \<Rightarrow> AstPtr \<Rightarrow> AstPtr outcome" where
  "parse_logical_and_loop pe 0 p expr = None"
| "parse_logical_and_loop pe (Suc n) p expr =
     (let (m, p) = parser_match p TOKEN_AND in
      if m then
        (let op = previous p in
         do {
           (right, p) \<leftarrow> parse_equality pe n p;
           parse_logical_and_loop pe n p
             (ast_create_binary OP_AND expr right (line op) (column op))
         })
      else Some (expr, p))"

definition parse_logical_and :: "expr_parser \<Rightarrow> nat \<Rightarrow> Parser \<Rightarrow> AstPtr outcome" where
  "parse_logical_and pe n p =
     do {
       (expr, p) \<leftarrow> parse_equality pe n p;
       parse_logical_and_loop pe n p expr
     }"

primrec parse_logical_or_loop :: "expr_parser \<Rightarrow> nat \<Rightarrow> Parser \<Rightarrow> AstPtr \<Rightarrow> AstPtr outcome" where
  "parse_logical_or_loop pe 0 p expr = None"
| "parse_logical_or_loop pe (Suc n) p expr =
     (let (m, p) = parser_match p TOKEN_OR in
      if m then
        (let op = previous p in
         do {
           (right, p) \<leftarrow> parse_logical_and pe n p;
           parse_logical_or_loop pe n p
             (ast_create_binary OP_OR expr right (line op) (column op))
         })
      else Some (expr, p))"

definition parse_logical_or :: "expr_parser \<Rightarrow> nat \<Rightarrow> Parser \<Rightarrow> AstPtr outcome" where
  "parse_logical_or pe n p =
     do {
       (expr, p) \<leftarrow> parse_logical_and pe n p;
       parse_logical_or_loop pe n p expr
     }"

primrec parser_parse_expression :: "nat \<Rightarrow> Parser \<Rightarrow> AstPtr outcome" where
  "parser_parse_expression 0 p = None"
| "parser_parse_expression (Suc n) p = parse_logical_or (parser_parse_expression n) n p"



section \<open>Error recovery\<close>

text \<open>
  The loop of \<open>parser_synchronize\<close>. Each round either returns or advances past the
  current token, which is not \<open>TOKEN_EOF\<close>; the tokens still to come bound the rounds.
\<close>

function synchronize_loop :: "Parser \<Rightarrow> Parser" where
  "synchronize_loop p =
     (if type (current p) \<noteq> TOKEN_EOF then
        (if type (previous p) = TOKEN_NEWLINE then p
         else if type (current p) \<in>
                   {TOKEN_FUNC, TOKEN_IF, TOKEN_WHILE, TOKEN_FOR, TOKEN_LOOP,
                    TOKEN_RETURN, TOKEN_IMPORT, TOKEN_CLASS} then p
         else synchronize_loop (parser_advance p))
      else p)"
  by pat_completeness auto
termination
proof (relation "measure (\<lambda>p. length (pending (lexer p)) +
                              (if type (current p) = TOKEN_EOF then 0 else 1))")
  show "wf (measure (\<lambda>p. length (pending (lexer p)) +
                              (if type (current p) = TOKEN_EOF then 0 else 1)))"
    by simp
next
  fix p :: Parser
  assume ne: "type (current p) \<noteq> TOKEN_EOF"
  have shrink: "length (pending (lexer (parser_advance_loop q))) +
                  (if type (current (parser_advance_loop q)) = TOKEN_EOF then 0 else 1)
                \<le> length (pending (lexer q))" for q
  proof (induction q rule: parser_advance_loop.induct)
    case (1 q)
    show ?case
    proof (cases "pending (lexer q)")
      case Nil
      then show ?thesis
        by (subst (1 2) parser_advance_loop.simps)
           (simp add: lexer_next_token_def make_token_def)
    next
      case (Cons t ts)
      show ?thesis
      proof (cases "type t = TOKEN_ERROR")
        case False
        with Cons show ?thesis
          by (subst (1 2) parser_advance_loop.simps) (simp add: lexer_next_token_def)
      next
        case True
        have "length (pending (lexer (parser_advance_loop
                 (parser_error_at_current (q\<lparr>lexer := (lexer q)\<lparr>pending := ts\<rparr>, current := t\<rparr>)
                    (lexeme t))))) +
              (if type (current (parser_advance_loop
                 (parser_error_at_current (q\<lparr>lexer := (lexer q)\<lparr>pending := ts\<rparr>, current := t\<rparr>)
                    (lexeme t)))) = TOKEN_EOF then 0 else 1)
              \<le> length ts"
          using "1.IH"[of "(t, (lexer q)\<lparr>pending := ts\<rparr>)" t "(lexer q)\<lparr>pending := ts\<rparr>"
                          "q\<lparr>lexer := (lexer q)\<lparr>pending := ts\<rparr>, current := t\<rparr>"]
                Cons True
          by (cases "panic_mode q")
             (simp_all add: lexer_next_token_def parser_error_at_current_def parser_error_at_def)
        with Cons True show ?thesis
          by (subst (1 2) parser_advance_loop.simps) (simp add: lexer_next_token_def)
      qed
    qed
  qed
  show "(parser_advance p, p) \<in> measure (\<lambda>p. length (pending (lexer p)) +
                              (if type (current p) = TOKEN_EOF then 0 else 1))"
    using shrink[of "p\<lparr>previous := current p\<rparr>"] ne
    by (simp add: parser_advance_def)
qed

declare synchronize_loop.simps [simp del]

definition parser_synchronize :: "Parser \<Rightarrow> Parser" where
  "parser_synchronize p = synchronize_loop (p\<lparr>panic_mode := False\<rparr>)"


section \<open>Statements\<close>

text \<open>
  The statement functions call each other in a cycle that closes at
  \<open>parser_parse_statement\<close>. As for expressions, the argument \<open>ps\<close> of a function
  stands for the call back into \<open>parser_parse_statement\<close>; the \<open>nat\<close> argument
  bounds loop iterations and is handed on to the expression parser.
\<close>

type_synonym stmt_parser = "Parser \<Rightarrow> AstPtr outcome"

text \<open>The \<open>while\<close> loop of \<open>parse_block_statement\<close>.\<close>

primrec parse_block_loop ::
  "stmt_parser \<Rightarrow> nat \<Rightarrow> Parser \<Rightarrow> AstPtr list \<Rightarrow> (AstPtr list) outcome" where
  "parse_block_loop ps 0 p statements = None"
| "parse_block_loop ps (Suc n) p statements =
     (if \<not> parser_check p TOKEN_RIGHT_BRACE \<and> \<not> parser_is_at_end p then
        do {
          (stmt, p) \<leftarrow> ps p;
          let statements = (if stmt \<noteq> None then statements @ [stmt] else statements);
          parse_block_loop ps n p statements
        }
      else Some (statements, p))"

definition parse_block_statement :: "stmt_parser \<Rightarrow> nat \<Rightarrow> Parser \<Rightarrow> AstPtr outcome" where
  "parse_block_statement ps n p =
     (let (brace, p) = parser_expect p TOKEN_LEFT_BRACE ''Expected '{' to begin block'' in
      do {
        (statements, p) \<leftarrow> parse_block_loop ps n p [];
        let (_, p) = parser_expect p TOKEN_RIGHT_BRACE ''Expected '}' after block'';
        Some (ast_create_block statements (line brace) (column brace), p)
      })"

primrec parse_if_statement :: "stmt_parser \<Rightarrow> nat \<Rightarrow> Parser \<Rightarrow> AstPtr outcome" where
  "parse_if_statement ps 0 p = None"
| "parse_if_statement ps (Suc n) p =
     (let if_token = previous p in
      do {
        (condition, p) \<leftarrow> parser_parse_expression n p;
        if condition = None
        then Some (None, parser_error p ''Expected condition in if statement'')
        else
          do {
            (then_branch, p) \<leftarrow>
              (if parser_check p TOKEN_LEFT_BRACE then parse_block_statement ps n p
               else ps p);
            let (m, p) = parser_match p TOKEN_ELSE;
            (else_branch, p) \<leftarrow>
              (if m then
                 (if parser_check p TOKEN_IF then parse_if_statement ps n (parser_advance p)
                  else if parser_check p TOKEN_LEFT_BRACE then parse_block_statement ps n p
                  else ps p)
               else Some (None, p));
            Some (ast_create_if condition then_branch else_branch
                    (line if_token) (column if_token), p)
          }
      })"

definition parse_while_statement :: "stmt_parser \<Rightarrow> nat \<Rightarrow> Parser \<Rightarrow> AstPtr outcome" where
  "parse_while_statement ps n p =
     (let while_token = previous p in
      do {
        (condition, p) \<leftarrow> parser_parse_expression n p;
        if condition = None
        then Some (None, parser_error p ''Expected condition in while statement'')
        else
          do {
            (body, p) \<leftarrow>
              (if parser_check p TOKEN_LEFT_BRACE then parse_block_statement ps n p
               else ps p);
            Some (ast_create_while condition body (line while_token) (column while_token), p)
          }
      })"

definition parse_for_statement :: "stmt_parser \<Rightarrow> nat \<Rightarrow> Parser \<Rightarrow> AstPtr outcome" where
  "parse_for_statement ps n p =
     (let for_token = previous p;
          (var, p) = parser_expect p TOKEN_IDENTIFIER ''Expected variable name in for loop'';
          var_name = string_dup_n (lexeme var) (length (lexeme var));
          index_var = None;
          (m, p) = parser_match p TOKEN_COMMA;
          (var_name, index_var, p) =
            (if m then
               (let index_var = Some var_name;
                    (value_var, p) =
                      parser_expect p TOKEN_IDENTIFIER
                        (''Expected value variable after ','' @ [CHR 0x27]);
                    var_name = string_dup_n (lexeme value_var) (length (lexeme value_var))
                in (var_name, index_var, p))
             else (var_name, index_var, p));
          (_, p) = parser_expect p TOKEN_IN ''Expected 'in' in for loop''
      in
      do {
        (iterable, p) \<leftarrow> parser_parse_expression n p;
        if iterable = None
        then Some (None, parser_error p ''Expected iterable expression in for loop'')
        else
          do {
            (body, p) \<leftarrow>
              (if parser_check p TOKEN_LEFT_BRACE then parse_block_statement ps n p
               else ps p);
            Some (ast_create_for var_name iterable body index_var
                    (line for_token) (column for_token), p)
          }
      })"

definition parse_loop_statement :: "stmt_parser \<Rightarrow> nat \<Rightarrow> Parser \<Rightarrow> AstPtr outcome" where
  "parse_loop_statement ps n p =
     (let loop_token = previous p in
      do {
        (body, p) \<leftarrow>
          (if parser_check p TOKEN_LEFT_BRACE then parse_block_statement ps n p
           else ps p);
        Some (ast_create_loop body (line loop_token) (column loop_token), p)
      })"

definition parse_return_statement :: "nat \<Rightarrow> Parser \<Rightarrow> AstPtr outcome" where
  "parse_return_statement n p =
     (let return_token = previous p in
      do {
        (v, p) \<leftarrow>
          (if \<not> parser_check p TOKEN_RIGHT_BRACE \<and> \<not> parser_check p TOKEN_EOF \<and>
              \<not> parser_is_at_end p
           then parser_parse_expression n p
           else Some (None, p));
        Some (ast_create_return v (line return_token) (column return_token), p)
      })"

text \<open>
  \<open>parser_parse_statement\<close>. Where the C code reads \<open>expr->line\<close> the pointer is
  dereferenced with \<open>the\<close>: in the identifier branch \<open>parse_postfix_continue\<close> hands
  back a node whenever it is given one, and the last branch tests the pointer first.
\<close>

primrec parser_parse_statement :: "nat \<Rightarrow> Parser \<Rightarrow> AstPtr outcome" where
  "parser_parse_statement 0 p = None"
| "parser_parse_statement (Suc n) p =
     (if parser_check p TOKEN_IDENTIFIER then
        (let name_token = current p;
             p = parser_advance p
         in
         if parser_check p TOKEN_COLON then
           (let p = parser_advance p;
                (type_token, p) = parser_expect p TOKEN_IDENTIFIER ''Expected type name'';
                type_name = string_dup_n (lexeme type_token) (length (lexeme type_token));
                (_, p) = parser_expect p TOKEN_EQUAL ''Expected '=' after type''
            in
            do {
              (init, p) \<leftarrow> parser_parse_expression n p;
              let var_name = string_dup_n (lexeme name_token) (length (lexeme name_token));
              Some (ast_create_var_decl var_name (Some type_name) init
                      (line name_token) (column name_token), p)
            })
         else if parser_check p TOKEN_EQUAL then
           (let p = parser_advance p in
            do {
              (v, p) \<leftarrow> parser_parse_expression n p;
              let var_name = string_dup_n (lexeme name_token) (length (lexeme name_token));
              Some (ast_create_var_decl var_name None v
                      (line name_token) (column name_token), p)
            })
         else
           (let id_name = string_dup_n (lexeme name_token) (length (lexeme name_token));
                expr = ast_create_identifier id_name (line name_token) (column name_token)
            in
            do {
              (expr, p) \<leftarrow> parse_postfix_continue (parser_parse_expression n) n p expr;
              Some (ast_create_expr_stmt expr (node_line (the expr)) (node_column (the expr)), p)
            }))
      else
      let (m, p) = parser_match p TOKEN_IF in
      if m then parse_if_statement (parser_parse_statement n) n p
      else
      let (m, p) = parser_match p TOKEN_WHILE in
      if m then parse_while_statement (parser_parse_statement n) n p
      else
      let (m, p) = parser_match p TOKEN_FOR in
      if m then parse_for_statement (parser_parse_statement n) n p
      else
      let (m, p) = parser_match p TOKEN_LOOP in
      if m then parse_loop_statement (parser_parse_statement n) n p
      else
      let (m, p) = parser_match p TOKEN_RETURN in
      if m then parse_return_statement n p
      else
      let (m, p) = parser_match p TOKEN_BREAK in
      if m then (let tok = previous p in Some (ast_create_break (line tok) (column tok), p))
      else
      let (m, p) = parser_match p TOKEN_CONTINUE in
      if m then (let tok = previous p in Some (ast_create_continue (line tok) (column tok), p))
      else
        do {
          (expr, p) \<leftarrow> parser_parse_expression n p;
          if expr = None then Some (None, p)
          else Some (ast_create_expr_stmt expr (node_line (the expr)) (node_column (the expr)), p)
        })"

section \<open>Declarations and the program\<close>

text \<open>The \<open>do ... while\<close> loop over the parameters of a function declaration.\<close>

primrec parse_parameters :: "nat \<Rightarrow> Parser \<Rightarrow> Parameter list \<Rightarrow> (Parameter list) outcome" where
  "parse_parameters 0 p params = None"
| "parse_parameters (Suc n) p params =
     (let (param, p) = parser_expect p TOKEN_IDENTIFIER ''Expected parameter name'';
          param_name = string_dup_n (lexeme param) (length (lexeme param));
          (m, p) = parser_match p TOKEN_COLON;
          (param_type, p) =
            (if m then
               (let (type_token, p) =
                      parser_expect p TOKEN_IDENTIFIER ''Expected parameter type''
                in (Some (string_dup_n (lexeme type_token) (length (lexeme type_token))), p))
             else (None, p));
          param_obj = ast_create_parameter param_name param_type;
          params = params @ [param_obj];
          (m, p) = parser_match p TOKEN_COMMA
      in if m then parse_parameters n p params else Some (params, p))"

definition parse_function_declaration :: "nat \<Rightarrow> Parser \<Rightarrow> AstPtr outcome" where
  "parse_function_declaration n p =
     (let func_token = previous p;
          (name_token, p) = parser_expect p TOKEN_IDENTIFIER ''Expected function name'';
          func_name = string_dup_n (lexeme name_token) (length (lexeme name_token));
          (_, p) = parser_expect p TOKEN_LEFT_PAREN ''Expected '(' after function name''
      in
      do {
        (params, p) \<leftarrow>
          (if \<not> parser_check p TOKEN_RIGHT_PAREN then parse_parameters n p []
           else Some ([], p));
        let (_, p) = parser_expect p TOKEN_RIGHT_PAREN ''Expected ')' after parameters'';
        let (m, p) = parser_match p TOKEN_ARROW;
        let (return_type, p) =
          (if m then
             (let (type_token, p) = parser_expect p TOKEN_IDENTIFIER ''Expected return type''
              in (Some (string_dup_n (lexeme type_token) (length (lexeme type_token))), p))
           else (None, p));
        (body, p) \<leftarrow> parse_block_statement (parser_parse_statement n) n p;
        Some (ast_create_function func_name params body return_type
                (line func_token) (column func_token), p)
      })"

definition parser_parse_declaration :: "nat \<Rightarrow> Parser \<Rightarrow> AstPtr outcome" where
  "parser_parse_declaration n p =
     (let (m, p) = parser_match p TOKEN_FUNC in
      if m then parse_function_declaration n p
      else parser_parse_statement n p)"

text \<open>
  The \<open>while\<close> loop of \<open>parser_parse\<close>, which gathers the top-level declarations, and
  \<open>parser_parse\<close> itself: with \<open>had_error\<close> set the gathered declarations are freed
  and the result is \<open>NULL\<close>.
\<close>

primrec parse_declarations ::
  "nat \<Rightarrow> Parser \<Rightarrow> AstPtr list \<Rightarrow> (AstPtr list) outcome" where
  "parse_declarations 0 p declarations = None"
| "parse_declarations (Suc n) p declarations =
     (if \<not> parser_is_at_end p then
        do {
          (decl, p) \<leftarrow> parser_parse_declaration n p;
          let declarations = (if decl \<noteq> None then declarations @ [decl] else declarations);
          let p = (if panic_mode p then parser_synchronize p else p);
          parse_declarations n p declarations
        }
      else Some (declarations, p))"

definition parser_parse :: "nat \<Rightarrow> Parser \<Rightarrow> AstPtr outcome" where
  "parser_parse n p =
     do {
       (declarations, p) \<leftarrow> parse_declarations n p [];
       if had_error p then Some (None, p)
       else Some (ast_create_program declarations, p)
     }"


text \<open>
  A parser as the driver sets it up: \<open>parser_init\<close> on a parser struct whose former
  contents are \<open>unset\<close>, reading the given tokens and then end-of-input at the given
  line and column.
\<close>

definition unset :: Parser where
  "unset = \<lparr>lexer = \<lparr>pending = [], end_line = 0, end_column = 0\<rparr>,
            current = make_token TOKEN_EOF [] 0 0, previous = make_token TOKEN_EOF [] 0 0,
            had_error = False, panic_mode = False, reported = []\<rparr>"

definition parser_on :: "Token list \<Rightarrow> int \<Rightarrow> int \<Rightarrow> Parser" where
  "parser_on ts l c = parser_init unset \<lparr>pending = ts, end_line = l, end_column = c\<rparr>"

section \<open>Vocabulary for the properties\<close>

text \<open>
  \<open>follows p q\<close>: \<open>q\<close> is a state of the same parse as \<open>p\<close>, at the same time or
  later, as far as error reporting goes. A set \<open>had_error\<close> stays set; the diagnostics
  written so far are still there, with more after them perhaps; \<open>had_error\<close> is not set
  without a diagnostic being written; and panic mode is never on without \<open>had_error\<close>,
  if that was so before.
\<close>

definition follows :: "Parser \<Rightarrow> Parser \<Rightarrow> bool" where
  "follows p q \<longleftrightarrow>
     (had_error p \<longrightarrow> had_error q) \<and>
     (\<exists>extra. reported q = reported p @ extra) \<and>
     (had_error q \<longrightarrow> had_error p \<or> reported q \<noteq> reported p) \<and>
     ((panic_mode p \<longrightarrow> had_error p) \<longrightarrow> (panic_mode q \<longrightarrow> had_error q))"

text \<open>
  \<open>sound f\<close>: whenever the parse function \<open>f\<close> returns, the state it returns follows
  the one it was called in. \<open>keeps p0 m\<close>: the same for one run \<open>m\<close> and a given
  earlier state \<open>p0\<close>.
\<close>

definition keeps :: "Parser \<Rightarrow> 'a outcome \<Rightarrow> bool" where
  "keeps p0 m \<longleftrightarrow> (\<forall>r q. m = Some (r, q) \<longrightarrow> follows p0 q)"

definition sound :: "(Parser \<Rightarrow> 'a outcome) \<Rightarrow> bool" where
  "sound f \<longleftrightarrow> (\<forall>p r q. f p = Some (r, q) \<longrightarrow> follows p q)"

text \<open>
  Token kinds by their role at the start of an expression: those a primary expression
  begins with; those on which \<open>parser_parse_primary\<close> returns \<open>NULL\<close> through its
  first test; and those that a unary, postfix or binary level of the expression parser
  matches.
\<close>

definition primary_tokens :: "TokenType set" where
  "primary_tokens =
     {TOKEN_INT, TOKEN_FLOAT, TOKEN_STRING, TOKEN_TRUE, TOKEN_FALSE, TOKEN_IDENTIFIER,
      TOKEN_LEFT_PAREN, TOKEN_LEFT_BRACKET}"

definition silent_tokens :: "TokenType set" where
  "silent_tokens = {TOKEN_RIGHT_PAREN, TOKEN_RIGHT_BRACKET, TOKEN_EOF}"

definition operator_tokens :: "TokenType set" where
  "operator_tokens =
     {TOKEN_MINUS, TOKEN_NOT, TOKEN_TILDE, TOKEN_DOT,
      TOKEN_STAR, TOKEN_SLASH, TOKEN_PERCENT, TOKEN_PLUS,
      TOKEN_LESS, TOKEN_GREATER, TOKEN_LESS_EQUAL, TOKEN_GREATER_EQUAL,
      TOKEN_EQUAL_EQUAL, TOKEN_NOT_EQUAL, TOKEN_AND, TOKEN_OR}"

text \<open>
  The expression a chain of calls, indexings and member accesses is built on: the callee
  of a call, the object of an indexing or of a member access, and so on inwards.
\<close>

fun postfix_base :: "AstNode \<Rightarrow> AstNode" where
  "postfix_base (AstNode (CallExpr (Some callee) args) l c) = postfix_base callee"
| "postfix_base (AstNode (IndexExpr (Some object) index) l c) = postfix_base object"
| "postfix_base (AstNode (MemberExpr (Some object) member) l c) = postfix_base object"
| "postfix_base e = e"

text \<open>
  The operator tokens of each binary level of the expression parser, with the operator
  of the node built for them, and the prefix operators of the unary level.
\<close>

definition logical_or_op :: "TokenType \<Rightarrow> BinaryOp option" where
  "logical_or_op ty = (if ty = TOKEN_OR then Some OP_OR else None)"

definition logical_and_op :: "TokenType \<Rightarrow> BinaryOp option" where
  "logical_and_op ty = (if ty = TOKEN_AND then Some OP_AND else None)"

definition equality_op :: "TokenType \<Rightarrow> BinaryOp option" where
  "equality_op ty =
     (if ty = TOKEN_EQUAL_EQUAL then Some OP_EQ
      else if ty = TOKEN_NOT_EQUAL then Some OP_NE
      else None)"

definition comparison_op :: "TokenType \<Rightarrow> BinaryOp option" where
  "comparison_op ty =
     (if ty = TOKEN_LESS then Some OP_LT
      else if ty = TOKEN_GREATER then Some OP_GT
      else if ty = TOKEN_LESS_EQUAL then Some OP_LE
      else if ty = TOKEN_GREATER_EQUAL then Some OP_GE
      else None)"

definition additive_op :: "TokenType \<Rightarrow> BinaryOp option" where
  "additive_op ty =
     (if ty = TOKEN_PLUS then Some OP_ADD
      else if ty = TOKEN_MINUS then Some OP_SUB
      else None)"

definition multiplicative_op :: "TokenType \<Rightarrow> BinaryOp option" where
  "multiplicative_op ty =
     (if ty = TOKEN_STAR then Some OP_MUL
      else if ty = TOKEN_SLASH then Some OP_DIV
      else if ty = TOKEN_PERCENT then Some OP_MOD
      else None)"

definition unary_op :: "TokenType \<Rightarrow> UnaryOp option" where
  "unary_op ty =
     (if ty = TOKEN_MINUS then Some OP_NEG
      else if ty = TOKEN_NOT then Some OP_NOT
      else if ty = TOKEN_TILDE then Some OP_BIT_NOT
      else None)"

text \<open>
  One turn of the loop of a binary level, in state \<open>p\<close> with the left operand
  \<open>left\<close> parsed already. If the current token is no operator of the level, the loop
  ends: \<open>left\<close> is the result and the state is unchanged. Otherwise the operator is
  consumed, \<open>operand\<close> parses the right operand, and the loop goes on (\<open>continue\<close>)
  with the binary node of the operator, located at the operator token, as the new left
  operand.
\<close>

definition binary_step ::
  "(TokenType \<Rightarrow> BinaryOp option) \<Rightarrow> (Parser \<Rightarrow> AstPtr outcome) \<Rightarrow>
   (Parser \<Rightarrow> AstPtr \<Rightarrow> AstPtr outcome) \<Rightarrow> Parser \<Rightarrow> AstPtr \<Rightarrow> AstPtr outcome" where
  "binary_step op_of operand continue p left =
     (case op_of (type (current p)) of
        None \<Rightarrow> Some (left, p)
      | Some op \<Rightarrow>
          (case operand (parser_advance p) of
             None \<Rightarrow> None
           | Some (right, q) \<Rightarrow>
               continue q (Some (AstNode (BinaryExpr op left right)
                                   (line (current p)) (column (current p))))))"

section \<open>Example inputs\<close>

text \<open>
  The parser, started on the tokens of some inputs. Each token has the line and the
  column that the lexer gives it: those of the position just after its last character.
\<close>

text \<open>The state \<open>k\<close> tokens further on.\<close>

primrec advance_by :: "nat \<Rightarrow> Parser \<Rightarrow> Parser" where
  "advance_by 0 p = p"
| "advance_by (Suc k) p = parser_advance (advance_by k p)"

text \<open>\<^verbatim>\<open>2 + 3 * 4\<close>\<close>

definition input_2_plus_3_times_4 :: Parser where
  "input_2_plus_3_times_4 =
     parser_on
       [make_token TOKEN_INT ''2'' 1 2,
        make_token TOKEN_PLUS ''+'' 1 4,
        make_token TOKEN_INT ''3'' 1 6,
        make_token TOKEN_STAR ''*'' 1 8,
        make_token TOKEN_INT ''4'' 1 10] 1 10"

text \<open>\<^verbatim>\<open>(2 + 3) * 4\<close>\<close>

definition input_paren_2_plus_3_times_4 :: Parser where
  "input_paren_2_plus_3_times_4 =
     parser_on
       [make_token TOKEN_LEFT_PAREN ''('' 1 2,
        make_token TOKEN_INT ''2'' 1 3,
        make_token TOKEN_PLUS ''+'' 1 5,
        make_token TOKEN_INT ''3'' 1 7,
        make_token TOKEN_RIGHT_PAREN '')'' 1 8,
        make_token TOKEN_STAR ''*'' 1 10,
        make_token TOKEN_INT ''4'' 1 12] 1 12"

text \<open>\<^verbatim>\<open>2 * 3 + 4\<close>\<close>

definition input_2_times_3_plus_4 :: Parser where
  "input_2_times_3_plus_4 =
     parser_on
       [make_token TOKEN_INT ''2'' 1 2,
        make_token TOKEN_STAR ''*'' 1 4,
        make_token TOKEN_INT ''3'' 1 6,
        make_token TOKEN_PLUS ''+'' 1 8,
        make_token TOKEN_INT ''4'' 1 10] 1 10"

text \<open>\<^verbatim>\<open>2 * (3 + 4)\<close>\<close>

definition input_2_times_paren_3_plus_4 :: Parser where
  "input_2_times_paren_3_plus_4 =
     parser_on
       [make_token TOKEN_INT ''2'' 1 2,
        make_token TOKEN_STAR ''*'' 1 4,
        make_token TOKEN_LEFT_PAREN ''('' 1 6,
        make_token TOKEN_INT ''3'' 1 7,
        make_token TOKEN_PLUS ''+'' 1 9,
        make_token TOKEN_INT ''4'' 1 11,
        make_token TOKEN_RIGHT_PAREN '')'' 1 12] 1 12"

text \<open>\<^verbatim>\<open>a + b\<close>\<close>

definition input_a_plus_b :: Parser where
  "input_a_plus_b =
     parser_on
       [make_token TOKEN_IDENTIFIER ''a'' 1 2,
        make_token TOKEN_PLUS ''+'' 1 4,
        make_token TOKEN_IDENTIFIER ''b'' 1 6] 1 6"

text \<open>\<^verbatim>\<open>a[0] + b\<close>\<close>

definition input_a_index_0_plus_b :: Parser where
  "input_a_index_0_plus_b =
     parser_on
       [make_token TOKEN_IDENTIFIER ''a'' 1 2,
        make_token TOKEN_LEFT_BRACKET ''['' 1 3,
        make_token TOKEN_INT ''0'' 1 4,
        make_token TOKEN_RIGHT_BRACKET '']'' 1 5,
        make_token TOKEN_PLUS ''+'' 1 7,
        make_token TOKEN_IDENTIFIER ''b'' 1 9] 1 9"

text \<open>\<^verbatim>\<open>f(x) * 2\<close>\<close>

definition input_f_of_x_times_2 :: Parser where
  "input_f_of_x_times_2 =
     parser_on
       [make_token TOKEN_IDENTIFIER ''f'' 1 2,
        make_token TOKEN_LEFT_PAREN ''('' 1 3,
        make_token TOKEN_IDENTIFIER ''x'' 1 4,
        make_token TOKEN_RIGHT_PAREN '')'' 1 5,
        make_token TOKEN_STAR ''*'' 1 7,
        make_token TOKEN_INT ''2'' 1 9] 1 9"

text \<open>\<^verbatim>\<open>a.m - 1\<close>\<close>

definition input_a_dot_m_minus_1 :: Parser where
  "input_a_dot_m_minus_1 =
     parser_on
       [make_token TOKEN_IDENTIFIER ''a'' 1 2,
        make_token TOKEN_DOT ''.'' 1 3,
        make_token TOKEN_IDENTIFIER ''m'' 1 4,
        make_token TOKEN_MINUS ''-'' 1 6,
        make_token TOKEN_INT ''1'' 1 8] 1 8"

text \<open>\<^verbatim>\<open>a.b(x)[0] + 1\<close>\<close>

definition input_chain_plus_1 :: Parser where
  "input_chain_plus_1 =
     parser_on
       [make_token TOKEN_IDENTIFIER ''a'' 1 2,
        make_token TOKEN_DOT ''.'' 1 3,
        make_token TOKEN_IDENTIFIER ''b'' 1 4,
        make_token TOKEN_LEFT_PAREN ''('' 1 5,
        make_token TOKEN_IDENTIFIER ''x'' 1 6,
        make_token TOKEN_RIGHT_PAREN '')'' 1 7,
        make_token TOKEN_LEFT_BRACKET ''['' 1 8,
        make_token TOKEN_INT ''0'' 1 9,
        make_token TOKEN_RIGHT_BRACKET '']'' 1 10,
        make_token TOKEN_PLUS ''+'' 1 12,
        make_token TOKEN_INT ''1'' 1 14] 1 14"

text \<open>\<^verbatim>\<open>1 + b\<close>\<close>

definition input_1_plus_b :: Parser where
  "input_1_plus_b =
     parser_on
       [make_token TOKEN_INT ''1'' 1 2,
        make_token TOKEN_PLUS ''+'' 1 4,
        make_token TOKEN_IDENTIFIER ''b'' 1 6] 1 6"

text \<open>\<^verbatim>\<open>)\<close>\<close>

definition input_right_paren :: Parser where
  "input_right_paren =
     parser_on
       [make_token TOKEN_RIGHT_PAREN '')'' 1 2] 1 2"

text \<open>\<^verbatim>\<open>x = 1\<close>\<close>

definition input_x_is_1 :: Parser where
  "input_x_is_1 =
     parser_on
       [make_token TOKEN_IDENTIFIER ''x'' 1 2,
        make_token TOKEN_EQUAL ''='' 1 4,
        make_token TOKEN_INT ''1'' 1 6] 1 6"

text \<open>\<^verbatim>\<open>x = (\<close>\<close>

definition input_x_is_left_paren :: Parser where
  "input_x_is_left_paren =
     parser_on
       [make_token TOKEN_IDENTIFIER ''x'' 1 2,
        make_token TOKEN_EQUAL ''='' 1 4,
        make_token TOKEN_LEFT_PAREN ''('' 1 6] 1 6"

text \<open>\<^verbatim>\<open>) if y { z = 1 }\<close>\<close>

definition input_right_paren_then_if :: Parser where
  "input_right_paren_then_if =
     parser_on
       [make_token TOKEN_RIGHT_PAREN '')'' 1 2,
        make_token TOKEN_IF ''if'' 1 5,
        make_token TOKEN_IDENTIFIER ''y'' 1 7,
        make_token TOKEN_LEFT_BRACE ''{'' 1 9,
        make_token TOKEN_IDENTIFIER ''z'' 1 11,
        make_token TOKEN_EQUAL ''='' 1 13,
        make_token TOKEN_INT ''1'' 1 15,
        make_token TOKEN_RIGHT_BRACE ''}'' 1 17] 1 17"

text \<open>\<^verbatim>\<open>foo(1 2) if y { z = 1 }\<close>\<close>

definition input_unclosed_call_then_if :: Parser where
  "input_unclosed_call_then_if =
     parser_on
       [make_token TOKEN_IDENTIFIER ''foo'' 1 4,
        make_token TOKEN_LEFT_PAREN ''('' 1 5,
        make_token TOKEN_INT ''1'' 1 6,
        make_token TOKEN_INT ''2'' 1 8,
        make_token TOKEN_RIGHT_PAREN '')'' 1 9,
        make_token TOKEN_IF ''if'' 1 12,
        make_token TOKEN_IDENTIFIER ''y'' 1 14,
        make_token TOKEN_LEFT_BRACE ''{'' 1 16,
        make_token TOKEN_IDENTIFIER ''z'' 1 18,
        make_token TOKEN_EQUAL ''='' 1 20,
        make_token TOKEN_INT ''1'' 1 22,
        make_token TOKEN_RIGHT_BRACE ''}'' 1 24] 1 24"

text \<open>\<^verbatim>\<open>loop { ) }\<close>\<close>

definition input_loop_right_paren :: Parser where
  "input_loop_right_paren =
     parser_on
       [make_token TOKEN_LOOP ''loop'' 1 5,
        make_token TOKEN_LEFT_BRACE ''{'' 1 7,
        make_token TOKEN_RIGHT_PAREN '')'' 1 9,
        make_token TOKEN_RIGHT_BRACE ''}'' 1 11] 1 11"

text \<open>\<^verbatim>\<open>loop { x = 1 }\<close>\<close>

definition input_loop_block :: Parser where
  "input_loop_block =
     parser_on
       [make_token TOKEN_LOOP ''loop'' 1 5,
        make_token TOKEN_LEFT_BRACE ''{'' 1 7,
        make_token TOKEN_IDENTIFIER ''x'' 1 9,
        make_token TOKEN_EQUAL ''='' 1 11,
        make_token TOKEN_INT ''1'' 1 13,
        make_token TOKEN_RIGHT_BRACE ''}'' 1 15] 1 15"

text \<open>\<^verbatim>\<open>loop { x = 1\<close>\<close>

definition input_loop_unclosed :: Parser where
  "input_loop_unclosed =
     parser_on
       [make_token TOKEN_LOOP ''loop'' 1 5,
        make_token TOKEN_LEFT_BRACE ''{'' 1 7,
        make_token TOKEN_IDENTIFIER ''x'' 1 9,
        make_token TOKEN_EQUAL ''='' 1 11,
        make_token TOKEN_INT ''1'' 1 13] 1 13"

text \<open>\<^verbatim>\<open>loop { }\<close>\<close>

definition input_loop_empty :: Parser where
  "input_loop_empty =
     parser_on
       [make_token TOKEN_LOOP ''loop'' 1 5,
        make_token TOKEN_LEFT_BRACE ''{'' 1 7,
        make_token TOKEN_RIGHT_BRACE ''}'' 1 9] 1 9"

section \<open>Error state along a parse\<close>

lemma follows_refl [simp, intro!]: "follows p p"
  by (simp add: follows_def)

lemma follows_trans: "follows p q \<Longrightarrow> follows q r \<Longrightarrow> follows p r"
  unfolding follows_def by (elim conjE exE) (intro conjI; force)

lemma follows_error_at: "follows p (parser_error_at p t msg)"
  by (simp add: follows_def parser_error_at_def)

lemma parser_advance_loop_Nil:
  "pending (lexer p) = [] \<Longrightarrow>
   parser_advance_loop p =
     p\<lparr>current := make_token TOKEN_EOF [] (end_line (lexer p)) (end_column (lexer p))\<rparr>"
  by (subst parser_advance_loop.simps) (simp add: lexer_next_token_def make_token_def)

lemma parser_advance_loop_Cons:
  "pending (lexer p) = t # ts \<Longrightarrow>
   parser_advance_loop p =
     (if type t \<noteq> TOKEN_ERROR then p\<lparr>lexer := (lexer p)\<lparr>pending := ts\<rparr>, current := t\<rparr>
      else parser_advance_loop
             (parser_error_at_current (p\<lparr>lexer := (lexer p)\<lparr>pending := ts\<rparr>, current := t\<rparr>)
                (lexeme t)))"
  by (subst parser_advance_loop.simps) (simp add: lexer_next_token_def)

lemma follows_advance_loop: "follows p (parser_advance_loop p)"
proof (induction "pending (lexer p)" arbitrary: p)
  case Nil
  then show ?case
    by (simp add: parser_advance_loop_Nil follows_def)
next
  case (Cons t ts)
  let ?p1 = "p\<lparr>lexer := (lexer p)\<lparr>pending := ts\<rparr>, current := t\<rparr>"
  let ?p2 = "parser_error_at_current ?p1 (lexeme t)"
  have a: "follows p ?p1" by (simp add: follows_def)
  show ?case
  proof (cases "type t = TOKEN_ERROR")
    case False
    with Cons(2)[symmetric] a show ?thesis
      by (simp add: parser_advance_loop_Cons)
  next
    case True
    have b: "follows ?p1 ?p2"
      by (simp add: parser_error_at_current_def follows_error_at)
    have "ts = pending (lexer ?p2)"
      by (simp add: parser_error_at_current_def parser_error_at_def)
    then have c: "follows ?p2 (parser_advance_loop ?p2)"
      by (rule Cons(1))
    have "parser_advance_loop p = parser_advance_loop ?p2"
      using Cons(2)[symmetric] True by (simp add: parser_advance_loop_Cons)
    then show ?thesis
      using follows_trans[OF a follows_trans[OF b c]] by simp
  qed
qed

lemma follows_advance: "follows p (parser_advance p)"
proof -
  have "follows p (p\<lparr>previous := current p\<rparr>)" by (simp add: follows_def)
  then show ?thesis
    unfolding parser_advance_def using follows_advance_loop follows_trans by blast
qed

text \<open>Right extension: one more primitive step after a state that already follows.\<close>

lemma follows_then_advance: "follows p0 p \<Longrightarrow> follows p0 (parser_advance p)"
  using follows_advance follows_trans by blast

lemma follows_then_error_at: "follows p0 p \<Longrightarrow> follows p0 (parser_error_at p t msg)"
  using follows_error_at follows_trans by blast

lemma follows_then_error: "follows p0 p \<Longrightarrow> follows p0 (parser_error p msg)"
  by (simp add: parser_error_def follows_then_error_at)

lemma follows_then_error_at_current:
  "follows p0 p \<Longrightarrow> follows p0 (parser_error_at_current p msg)"
  by (simp add: parser_error_at_current_def follows_then_error_at)

lemmas follows_steps =
  follows_then_advance follows_then_error follows_then_error_at_current

lemma follows_then_match_any:
  "follows p0 p \<Longrightarrow> parser_match_any p tys = (m, q) \<Longrightarrow> follows p0 q"
proof (induction tys arbitrary: p)
  case Nil
  then show ?case by simp
next
  case (Cons ty tys)
  then show ?case
    by (auto simp: Let_def parser_match_def split: prod.splits if_splits intro: follows_steps)
qed

text \<open>A run from a state that follows \<open>p0\<close> ends, if it returns, in a state that follows \<open>p0\<close>.\<close>

lemma keeps_None [simp, intro!]: "keeps p0 None"
  by (simp add: keeps_def)

lemma keeps_Some [simp]: "keeps p0 (Some (r, q)) \<longleftrightarrow> follows p0 q"
  by (simp add: keeps_def)

lemma keeps_bind:
  "keeps p0 m \<Longrightarrow> (\<And>r q. m = Some (r, q) \<Longrightarrow> follows p0 q \<Longrightarrow> keeps p0 (f r q)) \<Longrightarrow>
   keeps p0 (m \<bind> (\<lambda>(r, q). f r q))"
  by (cases m) (auto simp: keeps_def)

lemma keeps_sound: "sound f \<Longrightarrow> follows p0 p \<Longrightarrow> keeps p0 (f p)"
  unfolding keeps_def sound_def using follows_trans by blast

lemma soundI: "(\<And>p. keeps p (f p)) \<Longrightarrow> sound f"
  by (auto simp: sound_def keeps_def)

text \<open>The helpers \<open>parser_match\<close> and \<open>parser_expect\<close>, read as a case distinction on the current token.\<close>

lemma case_parser_match:
  "(case parser_match p ty of (m, q) \<Rightarrow> f m q) =
   (if type (current p) = ty then f True (parser_advance p) else f False p)"
  by (simp add: parser_match_def parser_check_def)

lemma case_parser_expect:
  "(case parser_expect p ty msg of (t, q) \<Rightarrow> f t q) =
   (if type (current p) = ty then f (current p) (parser_advance p)
    else f (current p) (parser_error_at_current p msg))"
  by (simp add: parser_expect_def parser_error_at_current_def parser_error_at_def)

lemmas vc_simps =
  Let_def case_parser_match case_parser_expect parser_check_def parser_is_at_end_def

lemma keeps_array_elements:
  "sound pe \<Longrightarrow> follows p0 p \<Longrightarrow> keeps p0 (parse_array_elements pe n p elements)"
proof (induction n arbitrary: p elements)
  case 0
  then show ?case by simp
next
  case (Suc n)
  show ?case
    using Suc.prems
    by (auto simp: vc_simps follows_steps intro!: keeps_bind Suc.IH intro: keeps_sound)
qed

lemma keeps_primary:
  "sound pe \<Longrightarrow> follows p0 p \<Longrightarrow> keeps p0 (parser_parse_primary pe n p)"
  unfolding parser_parse_primary_def
  by (auto simp: vc_simps follows_steps intro!: keeps_bind
              intro: keeps_sound keeps_array_elements)

lemma keeps_call_arguments:
  "sound pe \<Longrightarrow> follows p0 p \<Longrightarrow> keeps p0 (parse_call_arguments pe n p args)"
proof (induction n arbitrary: p args)
  case 0
  then show ?case by simp
next
  case (Suc n)
  show ?case
    using Suc.prems
    by (auto simp: vc_simps follows_steps intro!: keeps_bind Suc.IH intro: keeps_sound)
qed

lemma keeps_postfix_continue:
  "sound pe \<Longrightarrow> follows p0 p \<Longrightarrow> keeps p0 (parse_postfix_continue pe n p expr)"
proof (induction n arbitrary: p expr)
  case 0
  then show ?case by simp
next
  case (Suc n)
  show ?case
    using Suc.prems
    by (auto simp: vc_simps follows_steps intro!: keeps_bind Suc.IH
             intro: keeps_sound keeps_call_arguments)
qed

lemma keeps_postfix:
  "sound pe \<Longrightarrow> follows p0 p \<Longrightarrow> keeps p0 (parse_postfix pe n p)"
  unfolding parse_postfix_def
  by (auto intro!: keeps_bind intro: keeps_primary keeps_postfix_continue)

lemma keeps_unary:
  "sound pe \<Longrightarrow> follows p0 p \<Longrightarrow> keeps p0 (parse_unary pe n p)"
proof (induction n arbitrary: p)
  case 0
  then show ?case by simp
next
  case (Suc n)
  show ?case
    using Suc.prems
    by (auto simp: vc_simps follows_steps intro!: keeps_bind Suc.IH keeps_postfix)
qed

lemma keeps_factor_loop:
  "sound pe \<Longrightarrow> follows p0 p \<Longrightarrow> keeps p0 (parse_factor_loop pe n p expr)"
proof (induction n arbitrary: p expr)
  case 0
  then show ?case by simp
next
  case (Suc n)
  show ?case
    using Suc.prems
    by (auto simp: vc_simps follows_steps intro!: keeps_bind Suc.IH keeps_unary)
qed

lemma keeps_factor:
  "sound pe \<Longrightarrow> follows p0 p \<Longrightarrow> keeps p0 (parse_factor pe n p)"
  unfolding parse_factor_def
  by (auto intro!: keeps_bind intro: keeps_unary keeps_factor_loop)

lemma keeps_term_loop:
  "sound pe \<Longrightarrow> follows p0 p \<Longrightarrow> keeps p0 (parse_term_loop pe n p expr)"
proof (induction n arbitrary: p expr)
  case 0
  then show ?case by simp
next
  case (Suc n)
  show ?case
    using Suc.prems
    by (auto simp: vc_simps follows_steps intro!: keeps_bind Suc.IH keeps_factor)
qed

lemma keeps_term:
  "sound pe \<Longrightarrow> follows p0 p \<Longrightarrow> keeps p0 (parse_term pe n p)"
  unfolding parse_term_def
  by (auto intro!: keeps_bind intro: keeps_factor keeps_term_loop)

lemma keeps_comparison_loop:
  "sound pe \<Longrightarrow> follows p0 p \<Longrightarrow> keeps p0 (parse_comparison_loop pe n p expr)"
proof (induction n arbitrary: p expr)
  case 0
  then show ?case by simp
next
  case (Suc n)
  show ?case
    using Suc.prems
    by (auto simp: vc_simps follows_steps intro!: keeps_bind Suc.IH keeps_term)
qed

lemma keeps_comparison:
  "sound pe \<Longrightarrow> follows p0 p \<Longrightarrow> keeps p0 (parse_comparison pe n p)"
  unfolding parse_comparison_def
  by (auto intro!: keeps_bind intro: keeps_term keeps_comparison_loop)

lemma keeps_equality_loop:
  "sound pe \<Longrightarrow> follows p0 p \<Longrightarrow> keeps p0 (parse_equality_loop pe n p expr)"
proof (induction n arbitrary: p expr)
  case 0
  then show ?case by simp
next
  case (Suc n)
  show ?case
    using Suc.prems
    by (auto simp: vc_simps follows_steps intro!: keeps_bind Suc.IH keeps_comparison)
qed

lemma keeps_equality:
  "sound pe \<Longrightarrow> follows p0 p \<Longrightarrow> keeps p0 (parse_equality pe n p)"
  unfolding parse_equality_def
  by (auto intro!: keeps_bind intro: keeps_comparison keeps_equality_loop)

lemma keeps_logical_and_loop:
  "sound pe \<Longrightarrow> follows p0 p \<Longrightarrow> keeps p0 (parse_logical_and_loop pe n p expr)"
proof (induction n arbitrary: p expr)
  case 0
  then show ?case by simp
next
  case (Suc n)
  show ?case
    using Suc.prems
    by (auto simp: vc_simps follows_steps intro!: keeps_bind Suc.IH keeps_equality)
qed

lemma keeps_logical_and:
  "sound pe \<Longrightarrow> follows p0 p \<Longrightarrow> keeps p0 (parse_logical_and pe n p)"
  unfolding parse_logical_and_def
  by (auto intro!: keeps_bind intro: keeps_equality keeps_logical_and_loop)

lemma keeps_logical_or_loop:
  "sound pe \<Longrightarrow> follows p0 p \<Longrightarrow> keeps p0 (parse_logical_or_loop pe n p expr)"
proof (induction n arbitrary: p expr)
  case 0
  then show ?case by simp
next
  case (Suc n)
  show ?case
    using Suc.prems
    by (auto simp: vc_simps follows_steps intro!: keeps_bind Suc.IH keeps_logical_and)
qed

lemma keeps_logical_or:
  "sound pe \<Longrightarrow> follows p0 p \<Longrightarrow> keeps p0 (parse_logical_or pe n p)"
  unfolding parse_logical_or_def
  by (auto intro!: keeps_bind intro: keeps_logical_and keeps_logical_or_loop)

lemma sound_expression: "sound (parser_parse_expression n)"
proof (induction n)
  case 0
  show ?case by (simp add: sound_def)
next
  case (Suc n)
  show ?case
    by (rule soundI) (simp add: keeps_logical_or[OF Suc])
qed

lemma keeps_expression:
  "follows p0 p \<Longrightarrow> keeps p0 (parser_parse_expression n p)"
  by (rule keeps_sound[OF sound_expression])

lemma keeps_if:
  "(c \<Longrightarrow> keeps p0 a) \<Longrightarrow> (\<not> c \<Longrightarrow> keeps p0 b) \<Longrightarrow> keeps p0 (if c then a else b)"
  by simp

lemma keeps_case_match:
  "follows p0 p \<Longrightarrow> (\<And>m q. follows p0 q \<Longrightarrow> keeps p0 (f m q)) \<Longrightarrow>
   keeps p0 (case parser_match p ty of (m, q) \<Rightarrow> f m q)"
  by (simp add: case_parser_match follows_steps)

lemma keeps_case_expect:
  "follows p0 p \<Longrightarrow> (\<And>q. follows p0 q \<Longrightarrow> keeps p0 (f (current p) q)) \<Longrightarrow>
   keeps p0 (case parser_expect p ty msg of (t, q) \<Rightarrow> f t q)"
  by (simp add: case_parser_expect follows_steps)

lemma case_prod_if:
  "(case (if c then x else y) of (a, b) \<Rightarrow> f a b) =
   (if c then (case x of (a, b) \<Rightarrow> f a b) else (case y of (a, b) \<Rightarrow> f a b))"
  by simp

lemma case_prod_case_prod:
  "(case (case x of (a, b) \<Rightarrow> g a b) of (c, d) \<Rightarrow> f c d) =
   (case x of (a, b) \<Rightarrow> (case g a b of (c, d) \<Rightarrow> f c d))"
  by (cases x) simp

lemmas keeps_intros = keeps_bind keeps_if keeps_case_match keeps_case_expect

lemmas keeps_simps =
  follows_steps parser_check_def parser_is_at_end_def case_prod_if case_prod_case_prod





lemma keeps_block_loop:
  "sound ps \<Longrightarrow> follows p0 p \<Longrightarrow> keeps p0 (parse_block_loop ps n p statements)"
proof (induction n arbitrary: p statements)
  case 0
  then show ?case by simp
next
  case (Suc n)
  show ?case
    using Suc.prems
    by (auto simp: vc_simps follows_steps intro!: keeps_bind Suc.IH intro: keeps_sound)
qed

lemma keeps_block_statement:
  "sound ps \<Longrightarrow> follows p0 p \<Longrightarrow> keeps p0 (parse_block_statement ps n p)"
  unfolding parse_block_statement_def
  by (auto simp: vc_simps follows_steps intro!: keeps_bind keeps_block_loop)

lemma keeps_for_statement:
  "sound ps \<Longrightarrow> follows p0 p \<Longrightarrow> keeps p0 (parse_for_statement ps n p)"
  unfolding parse_for_statement_def
  apply (simp only: Let_def)
  apply (intro keeps_intros keeps_expression keeps_block_statement keeps_sound[of ps]
         | simp add: keeps_simps split del: if_split)+
  done

lemma keeps_if_statement:
  "sound ps \<Longrightarrow> follows p0 p \<Longrightarrow> keeps p0 (parse_if_statement ps n p)"
proof (induction n arbitrary: p0 p)
  case 0
  then show ?case by simp
next
  case (Suc n)
  show ?case
    using Suc.prems
    apply (simp only: parse_if_statement.simps Let_def)
    apply (intro keeps_intros keeps_expression keeps_block_statement keeps_sound[of ps] Suc.IH
           | simp add: keeps_simps split del: if_split)+
    done
qed

lemma keeps_while_statement:
  "sound ps \<Longrightarrow> follows p0 p \<Longrightarrow> keeps p0 (parse_while_statement ps n p)"
  unfolding parse_while_statement_def
  apply (simp only: Let_def)
  apply (intro keeps_intros keeps_expression keeps_block_statement keeps_sound[of ps]
         | simp add: keeps_simps split del: if_split)+
  done

lemma keeps_loop_statement:
  "sound ps \<Longrightarrow> follows p0 p \<Longrightarrow> keeps p0 (parse_loop_statement ps n p)"
  unfolding parse_loop_statement_def
  apply (simp only: Let_def)
  apply (intro keeps_intros keeps_block_statement keeps_sound[of ps]
         | simp add: keeps_simps split del: if_split)+
  done

lemma keeps_return_statement:
  "follows p0 p \<Longrightarrow> keeps p0 (parse_return_statement n p)"
  unfolding parse_return_statement_def
  apply (simp only: Let_def)
  apply (intro keeps_intros keeps_expression
         | simp add: keeps_simps split del: if_split)+
  done

lemma sound_statement: "sound (parser_parse_statement n)"
proof (induction n)
  case 0
  show ?case by (simp add: sound_def)
next
  case (Suc n)
  show ?case
    apply (rule soundI)
    apply (simp only: parser_parse_statement.simps Let_def)
    apply (intro keeps_intros keeps_expression keeps_postfix_continue sound_expression
                 keeps_if_statement keeps_while_statement keeps_for_statement
                 keeps_loop_statement keeps_return_statement Suc
           | simp add: keeps_simps split del: if_split)+
    done
qed

lemma keeps_statement:
  "follows p0 p \<Longrightarrow> keeps p0 (parser_parse_statement n p)"
  by (rule keeps_sound[OF sound_statement])

lemma keeps_parameters:
  "follows p0 p \<Longrightarrow> keeps p0 (parse_parameters n p params)"
proof (induction n arbitrary: p params)
  case 0
  then show ?case by simp
next
  case (Suc n)
  show ?case
    using Suc.prems
    apply (simp only: parse_parameters.simps Let_def)
    apply (intro keeps_intros Suc.IH
           | simp add: keeps_simps split del: if_split)+
    done
qed

lemma keeps_function_declaration:
  "follows p0 p \<Longrightarrow> keeps p0 (parse_function_declaration n p)"
  unfolding parse_function_declaration_def
  apply (simp only: Let_def)
  apply (intro keeps_intros keeps_parameters keeps_block_statement sound_statement
         | simp add: keeps_simps split del: if_split)+
  done

lemma keeps_declaration:
  "follows p0 p \<Longrightarrow> keeps p0 (parser_parse_declaration n p)"
  unfolding parser_parse_declaration_def
  apply (simp only: Let_def)
  apply (intro keeps_intros keeps_function_declaration keeps_statement
         | simp add: keeps_simps split del: if_split)+
  done

lemma follows_synchronize_loop: "follows p (synchronize_loop p)"
proof (induction p rule: synchronize_loop.induct)
  case (1 p)
  show ?case
  proof (cases "type (current p) \<noteq> TOKEN_EOF \<and> type (previous p) \<noteq> TOKEN_NEWLINE \<and>
                type (current p) \<notin> {TOKEN_FUNC, TOKEN_IF, TOKEN_WHILE, TOKEN_FOR, TOKEN_LOOP,
                    TOKEN_RETURN, TOKEN_IMPORT, TOKEN_CLASS}")
    case True
    then have "synchronize_loop p = synchronize_loop (parser_advance p)"
      by (subst synchronize_loop.simps) simp
    moreover have "follows (parser_advance p) (synchronize_loop (parser_advance p))"
      using True by (intro "1.IH") auto
    ultimately show ?thesis
      using follows_trans[OF follows_advance] by simp
  next
    case False
    then have "synchronize_loop p = p"
      by (subst synchronize_loop.simps) auto
    then show ?thesis by simp
  qed
qed

lemma follows_then_synchronize: "follows p0 p \<Longrightarrow> follows p0 (parser_synchronize p)"
proof -
  assume a: "follows p0 p"
  have "follows p (p\<lparr>panic_mode := False\<rparr>)" by (simp add: follows_def)
  from follows_trans[OF a follows_trans[OF this follows_synchronize_loop]]
  show ?thesis by (simp add: parser_synchronize_def)
qed

lemma keeps_declarations:
  "follows p0 p \<Longrightarrow> keeps p0 (parse_declarations n p declarations)"
proof (induction n arbitrary: p declarations)
  case 0
  then show ?case by simp
next
  case (Suc n)
  show ?case
    using Suc.prems
    apply (simp only: parse_declarations.simps Let_def)
    apply (intro keeps_intros keeps_declaration Suc.IH
           | simp add: keeps_simps follows_then_synchronize split del: if_split)+
    apply (simp_all add: keeps_simps follows_then_synchronize)
    done
qed

lemma keeps_parse: "follows p0 p \<Longrightarrow> keeps p0 (parser_parse n p)"
  unfolding parser_parse_def
  apply (intro keeps_intros keeps_declarations
         | simp add: keeps_simps split del: if_split)+
  done





lemma current_error_at [simp]: "current (parser_error_at p t msg) = current p"
  by (simp add: parser_error_at_def)

lemma current_error_at_current [simp]: "current (parser_error_at_current p msg) = current p"
  by (simp add: parser_error_at_current_def)

section \<open>Tokens that begin no expression\<close>

lemma primary_no_token:
  assumes "type (current p) \<notin> primary_tokens"
  shows "parser_parse_primary pe n p =
           Some (None, if type (current p) \<in> silent_tokens then p
                       else parser_error_at_current p ''Expected expression'')"
  using assms
  by (simp add: parser_parse_primary_def primary_tokens_def silent_tokens_def vc_simps)

lemma postfix_continue_no_token:
  assumes "type (current p) \<notin> {TOKEN_LEFT_PAREN, TOKEN_LEFT_BRACKET, TOKEN_DOT}"
  shows "parse_postfix_continue pe (Suc n) p expr = Some (expr, p)"
  using assms by (simp add: vc_simps)

lemma expression_no_token:
  assumes "type (current p) \<notin> primary_tokens" "type (current p) \<notin> operator_tokens"
  shows "parser_parse_expression (Suc (Suc (Suc n))) p =
           Some (None, if type (current p) \<in> silent_tokens then p
                       else parser_error_at_current p ''Expected expression'')"
  using assms
  by (simp add: primary_no_token parse_logical_or_def parse_logical_and_def parse_equality_def
        parse_comparison_def parse_term_def parse_factor_def parse_postfix_def
        primary_tokens_def operator_tokens_def vc_simps)

section \<open>Consequences for single runs\<close>

lemma follows_had_error: "follows p q \<Longrightarrow> had_error p \<Longrightarrow> had_error q"
  by (simp add: follows_def)

lemma follows_reported: "follows p q \<Longrightarrow> x \<in> set (reported p) \<Longrightarrow> x \<in> set (reported q)"
  by (auto simp: follows_def)

lemma had_error_error_at_current:
  "panic_mode p \<longrightarrow> had_error p \<Longrightarrow> had_error (parser_error_at_current p msg)"
  by (simp add: parser_error_at_current_def parser_error_at_def)

lemma reported_error_at_current:
  "\<not> panic_mode p \<Longrightarrow> (current p, msg) \<in> set (reported (parser_error_at_current p msg))"
  by (simp add: parser_error_at_current_def parser_error_at_def)

lemma expression_follows:
  "parser_parse_expression n p = Some (r, q) \<Longrightarrow> follows p q"
  using sound_expression[of n] by (simp add: sound_def)

lemma statement_follows:
  "parser_parse_statement n p = Some (r, q) \<Longrightarrow> follows p q"
  using sound_statement[of n] by (simp add: sound_def)

lemma block_statement_follows:
  "parse_block_statement (parser_parse_statement k) n p = Some (r, q) \<Longrightarrow> follows p q"
  using keeps_block_statement[OF sound_statement[of k] follows_refl[of p], of n]
  by (simp add: keeps_def)

section \<open>Postfix chains\<close>

lemma postfix_continue_chain:
  "parse_postfix_continue pe n p (Some e0) = Some (r, q) \<Longrightarrow>
   (\<exists>e. r = Some e \<and> postfix_base e = postfix_base e0) \<and>
   type (current q) \<notin> {TOKEN_LEFT_PAREN, TOKEN_LEFT_BRACKET, TOKEN_DOT}"
proof (induction n arbitrary: p e0)
  case 0
  then show ?case by simp
next
  case (Suc n)
  show ?case
  proof (cases "type (current p) = TOKEN_LEFT_PAREN")
    case True
    then show ?thesis
      using Suc.prems
      by (auto simp: vc_simps ast_create_call_def split: Option.bind_splits prod.splits if_splits
               dest!: Suc.IH)
  next
    case np: False
    show ?thesis
    proof (cases "type (current p) = TOKEN_LEFT_BRACKET")
      case True
      then show ?thesis
        using Suc.prems np
        by (auto simp: vc_simps ast_create_index_def split: Option.bind_splits prod.splits if_splits
                 dest!: Suc.IH)
    next
      case nb: False
      show ?thesis
      proof (cases "type (current p) = TOKEN_DOT")
        case True
        then show ?thesis
          using Suc.prems np nb
          by (auto simp: vc_simps ast_create_member_def split: if_splits dest!: Suc.IH)
      next
        case False
        then show ?thesis
          using Suc.prems np nb by (auto simp: vc_simps)
      qed
    qed
  qed
qed

section \<open>The levels of the expression parser, turn by turn\<close>

lemma previous_advance_loop: "previous (parser_advance_loop p) = previous p"
proof (induction "pending (lexer p)" arbitrary: p)
  case Nil
  then show ?case by (simp add: parser_advance_loop_Nil)
next
  case (Cons t ts)
  let ?p1 = "p\<lparr>lexer := (lexer p)\<lparr>pending := ts\<rparr>, current := t\<rparr>"
  let ?p2 = "parser_error_at_current ?p1 (lexeme t)"
  show ?case
  proof (cases "type t = TOKEN_ERROR")
    case False
    with Cons(2)[symmetric] show ?thesis
      by (simp add: parser_advance_loop_Cons)
  next
    case True
    have "ts = pending (lexer ?p2)"
      by (simp add: parser_error_at_current_def parser_error_at_def)
    then have "previous (parser_advance_loop ?p2) = previous ?p2"
      by (rule Cons(1))
    moreover have "parser_advance_loop p = parser_advance_loop ?p2"
      using Cons(2)[symmetric] True by (simp add: parser_advance_loop_Cons)
    ultimately show ?thesis
      by (simp add: parser_error_at_current_def parser_error_at_def)
  qed
qed

lemma previous_advance: "previous (parser_advance p) = current p"
  by (simp add: parser_advance_def previous_advance_loop)

lemma parser_match_any_eq:
  "parser_match_any p tys =
     (if type (current p) \<in> set tys then (True, parser_advance p) else (False, p))"
  by (induction tys) (auto simp: parser_match_def parser_check_def)

lemmas step_simps =
  Let_def previous_advance parser_match_any_eq case_parser_match binary_step_def
  ast_create_binary_def

lemma logical_or_loop_step:
  "parse_logical_or_loop pe (Suc n) p left =
     binary_step logical_or_op (parse_logical_and pe n) (parse_logical_or_loop pe n) p left"
  by (simp add: step_simps logical_or_op_def split: option.splits)

lemma logical_and_loop_step:
  "parse_logical_and_loop pe (Suc n) p left =
     binary_step logical_and_op (parse_equality pe n) (parse_logical_and_loop pe n) p left"
  by (simp add: step_simps logical_and_op_def split: option.splits)

lemma equality_loop_step:
  "parse_equality_loop pe (Suc n) p left =
     binary_step equality_op (parse_comparison pe n) (parse_equality_loop pe n) p left"
  by (simp add: step_simps equality_op_def split: option.splits)

lemma comparison_loop_step:
  "parse_comparison_loop pe (Suc n) p left =
     binary_step comparison_op (parse_term pe n) (parse_comparison_loop pe n) p left"
  by (simp add: step_simps comparison_op_def split: option.splits)

lemma term_loop_step:
  "parse_term_loop pe (Suc n) p left =
     binary_step additive_op (parse_factor pe n) (parse_term_loop pe n) p left"
  by (simp add: step_simps additive_op_def split: option.splits)

lemma factor_loop_step:
  "parse_factor_loop pe (Suc n) p left =
     binary_step multiplicative_op (parse_unary pe n) (parse_factor_loop pe n) p left"
  by (simp add: step_simps multiplicative_op_def split: option.splits)

lemma unary_step:
  "parse_unary pe (Suc n) p =
     (case unary_op (type (current p)) of
        None \<Rightarrow> parse_postfix pe n p
      | Some op \<Rightarrow>
          (case parse_unary pe n (parser_advance p) of
             None \<Rightarrow> None
           | Some (operand, q) \<Rightarrow>
               Some (Some (AstNode (UnaryExpr op operand)
                             (line (current p)) (column (current p))), q)))"
  by (simp add: Let_def previous_advance case_parser_match unary_op_def ast_create_unary_def
           split: option.splits)

lemma bind_case:
  "(m \<bind> (\<lambda>(a, q). f a q)) = (case m of None \<Rightarrow> None | Some (a, q) \<Rightarrow> f a q)"
  by (cases m) auto

lemma logical_or_entry:
  "parse_logical_or pe n p =
     (case parse_logical_and pe n p of
        None \<Rightarrow> None | Some (left, q) \<Rightarrow> parse_logical_or_loop pe n q left)"
  by (simp only: parse_logical_or_def bind_case)

lemma logical_and_entry:
  "parse_logical_and pe n p =
     (case parse_equality pe n p of
        None \<Rightarrow> None | Some (left, q) \<Rightarrow> parse_logical_and_loop pe n q left)"
  by (simp only: parse_logical_and_def bind_case)

lemma equality_entry:
  "parse_equality pe n p =
     (case parse_comparison pe n p of
        None \<Rightarrow> None | Some (left, q) \<Rightarrow> parse_equality_loop pe n q left)"
  by (simp only: parse_equality_def bind_case)

lemma comparison_entry:
  "parse_comparison pe n p =
     (case parse_term pe n p of
        None \<Rightarrow> None | Some (left, q) \<Rightarrow> parse_comparison_loop pe n q left)"
  by (simp only: parse_comparison_def bind_case)

lemma term_entry:
  "parse_term pe n p =
     (case parse_factor pe n p of
        None \<Rightarrow> None | Some (left, q) \<Rightarrow> parse_term_loop pe n q left)"
  by (simp only: parse_term_def bind_case)

lemma factor_entry:
  "parse_factor pe n p =
     (case parse_unary pe n p of
        None \<Rightarrow> None | Some (left, q) \<Rightarrow> parse_factor_loop pe n q left)"
  by (simp only: parse_factor_def bind_case)

lemma postfix_entry:
  "parse_postfix pe n p =
     (case parser_parse_primary pe n p of
        None \<Rightarrow> None | Some (expr, q) \<Rightarrow> parse_postfix_continue pe n q expr)"
  by (simp only: parse_postfix_def bind_case)

lemma additive_not_multiplicative:
  "additive_op ty = Some op \<Longrightarrow> multiplicative_op ty = None"
  by (simp add: additive_op_def multiplicative_op_def split: if_splits)

lemma primary_parenthesised:
  assumes "type (current p) = TOKEN_LEFT_PAREN"
      and "pe (parser_advance p) = Some (Some e, q)"
      and "type (current q) = TOKEN_RIGHT_PAREN"
  shows "parser_parse_primary pe n p = Some (Some e, parser_advance q)"
  using assms by (simp add: parser_parse_primary_def vc_simps)

lemma unary_parenthesised:
  assumes "type (current p) = TOKEN_LEFT_PAREN"
      and "pe (parser_advance p) = Some (Some e, q)"
      and "type (current q) = TOKEN_RIGHT_PAREN"
      and "type (current (parser_advance q)) \<notin>
             {TOKEN_LEFT_PAREN, TOKEN_LEFT_BRACKET, TOKEN_DOT}"
  shows "parse_unary pe (Suc (Suc n)) p = Some (Some e, parser_advance q)"
proof -
  have "parser_parse_primary pe (Suc n) p = Some (Some e, parser_advance q)"
    using assms(1,2,3) by (rule primary_parenthesised)
  then show ?thesis
    using assms(1,4)
    by (simp add: parse_postfix_def postfix_continue_no_token case_parser_match
        del: parse_postfix_continue.simps)
qed

lemmas term_simps =
  parse_term_def parse_factor_def factor_loop_step term_loop_step binary_step_def

lemma term_add_mul:
  assumes "parse_unary pe (Suc (Suc (Suc n))) p = Some (a, p1)"
      and "additive_op (type (current p1)) = Some aop"
      and "parse_unary pe (Suc (Suc n)) (parser_advance p1) = Some (b, p2)"
      and "multiplicative_op (type (current p2)) = Some mop"
      and "parse_unary pe (Suc n) (parser_advance p2) = Some (c, p3)"
      and "multiplicative_op (type (current p3)) = None"
      and "additive_op (type (current p3)) = None"
  shows "parse_term pe (Suc (Suc (Suc n))) p =
           Some (Some (AstNode
                         (BinaryExpr aop a
                            (Some (AstNode (BinaryExpr mop b c)
                                     (line (current p2)) (column (current p2)))))
                         (line (current p1)) (column (current p1))), p3)"
  using assms additive_not_multiplicative[OF assms(2)]
  by (simp add: term_simps
      del: parse_unary.simps parse_factor_loop.simps parse_term_loop.simps)

lemma term_mul_add:
  assumes "parse_unary pe (Suc (Suc n)) p = Some (a, p1)"
      and "multiplicative_op (type (current p1)) = Some mop"
      and "parse_unary pe (Suc n) (parser_advance p1) = Some (b, p2)"
      and "additive_op (type (current p2)) = Some aop"
      and "parse_unary pe (Suc n) (parser_advance p2) = Some (c, p3)"
      and "multiplicative_op (type (current p3)) = None"
      and "additive_op (type (current p3)) = None"
  shows "parse_term pe (Suc (Suc n)) p =
           Some (Some (AstNode
                         (BinaryExpr aop
                            (Some (AstNode (BinaryExpr mop a b)
                                     (line (current p1)) (column (current p1))))
                            c)
                         (line (current p2)) (column (current p2))), p3)"
  using assms additive_not_multiplicative[OF assms(4)]
  by (simp add: term_simps
      del: parse_unary.simps parse_factor_loop.simps parse_term_loop.simps)

lemma term_paren_mul:
  assumes "type (current p) = TOKEN_LEFT_PAREN"
      and "pe (parser_advance p) = Some (Some e, q)"
      and "type (current q) = TOKEN_RIGHT_PAREN"
      and "multiplicative_op (type (current (parser_advance q))) = Some mop"
      and "parse_unary pe (Suc n) (parser_advance (parser_advance q)) = Some (c, p3)"
      and "multiplicative_op (type (current p3)) = None"
      and "additive_op (type (current p3)) = None"
  shows "parse_term pe (Suc (Suc n)) p =
           Some (Some (AstNode (BinaryExpr mop (Some e) c)
                         (line (current (parser_advance q)))
                         (column (current (parser_advance q)))), p3)"
proof -
  have "type (current (parser_advance q)) \<notin>
          {TOKEN_LEFT_PAREN, TOKEN_LEFT_BRACKET, TOKEN_DOT}"
    using assms(4) by (auto simp: multiplicative_op_def split: if_splits)
  then have "parse_unary pe (Suc (Suc n)) p = Some (Some e, parser_advance q)"
    using assms(1,2,3) by (intro unary_parenthesised) auto
  then show ?thesis
    using assms
    by (simp add: term_simps
        del: parse_unary.simps parse_factor_loop.simps parse_term_loop.simps)
qed

lemma term_mul_paren:
  assumes "parse_unary pe (Suc (Suc (Suc n))) p = Some (a, p1)"
      and "multiplicative_op (type (current p1)) = Some mop"
      and "type (current (parser_advance p1)) = TOKEN_LEFT_PAREN"
      and "pe (parser_advance (parser_advance p1)) = Some (Some e, q)"
      and "type (current q) = TOKEN_RIGHT_PAREN"
      and "type (current (parser_advance q)) \<notin>
             {TOKEN_LEFT_PAREN, TOKEN_LEFT_BRACKET, TOKEN_DOT}"
      and "multiplicative_op (type (current (parser_advance q))) = None"
      and "additive_op (type (current (parser_advance q))) = None"
  shows "parse_term pe (Suc (Suc (Suc n))) p =
           Some (Some (AstNode (BinaryExpr mop a (Some e))
                         (line (current p1)) (column (current p1))), parser_advance q)"
proof -
  have "parse_unary pe (Suc (Suc n)) (parser_advance p1) = Some (Some e, parser_advance q)"
    using assms(3,4,5,6) by (rule unary_parenthesised)
  then show ?thesis
    using assms
    by (simp add: term_simps
        del: parse_unary.simps parse_factor_loop.simps parse_term_loop.simps)
qed

lemma term_is_expression:
  assumes "parse_term (parser_parse_expression (Suc n)) (Suc n) p = Some (e, q)"
      and "comparison_op (type (current q)) = None"
      and "equality_op (type (current q)) = None"
      and "logical_and_op (type (current q)) = None"
      and "logical_or_op (type (current q)) = None"
  shows "parser_parse_expression (Suc (Suc n)) p = Some (e, q)"
proof -
  have "parser_parse_expression (Suc (Suc n)) p =
          parse_logical_or (parser_parse_expression (Suc n)) (Suc n) p"
    by (rule parser_parse_expression.simps)
  also have "\<dots> = Some (e, q)"
    using assms
    by (simp add: logical_or_entry logical_and_entry equality_entry comparison_entry
          logical_or_loop_step logical_and_loop_step equality_loop_step
          comparison_loop_step binary_step_def
        del: parser_parse_expression.simps parse_logical_or_loop.simps
          parse_logical_and_loop.simps parse_equality_loop.simps parse_comparison_loop.simps)
  finally show ?thesis .
qed

section \<open>Postfix chains, turn by turn\<close>

lemma call_arguments_step:
  "parse_call_arguments pe (Suc n) p args =
     (case pe p of
        None \<Rightarrow> None
      | Some (arg, q) \<Rightarrow>
          if type (current q) = TOKEN_COMMA
          then parse_call_arguments pe n (parser_advance q) (args @ [arg])
          else Some (args @ [arg], q))"
  by (simp add: vc_simps split: option.splits)

lemma postfix_continue_call:
  "type (current p) = TOKEN_LEFT_PAREN \<Longrightarrow>
   parse_postfix_continue pe (Suc n) p expr =
     (case (if type (current (parser_advance p)) = TOKEN_RIGHT_PAREN
            then Some ([], parser_advance p)
            else parse_call_arguments pe n (parser_advance p) []) of
        None \<Rightarrow> None
      | Some (args, q) \<Rightarrow>
          parse_postfix_continue pe n
            (if type (current q) = TOKEN_RIGHT_PAREN then parser_advance q
             else parser_error_at_current q ''Expected ')' after arguments'')
            (Some (AstNode (CallExpr expr args) (line (current q)) (column (current q)))))"
  by (simp add: vc_simps ast_create_call_def split: option.splits)

lemma postfix_continue_index:
  "type (current p) = TOKEN_LEFT_BRACKET \<Longrightarrow>
   parse_postfix_continue pe (Suc n) p expr =
     (case pe (parser_advance p) of
        None \<Rightarrow> None
      | Some (index, q) \<Rightarrow>
          parse_postfix_continue pe n
            (if type (current q) = TOKEN_RIGHT_BRACKET then parser_advance q
             else parser_error_at_current q ''Expected ']' after index'')
            (Some (AstNode (IndexExpr expr index) (line (current q)) (column (current q)))))"
  by (simp add: vc_simps ast_create_index_def split: option.splits)

lemma postfix_continue_member:
  "type (current p) = TOKEN_DOT \<Longrightarrow>
   parse_postfix_continue pe (Suc n) p expr =
     parse_postfix_continue pe n
       (if type (current (parser_advance p)) = TOKEN_IDENTIFIER
        then parser_advance (parser_advance p)
        else parser_error_at_current (parser_advance p)
               (''Expected property name after '.'' @ [CHR 0x27]))
       (Some (AstNode (MemberExpr expr (lexeme (current (parser_advance p))))
                (line (current (parser_advance p))) (column (current (parser_advance p)))))"
  by (simp add: vc_simps ast_create_member_def string_dup_n_def)

lemma identifier_statement:
  assumes "type (current p) = TOKEN_IDENTIFIER"
      and "type (current (parser_advance p)) \<notin> {TOKEN_COLON, TOKEN_EQUAL}"
  shows "parser_parse_statement (Suc n) p =
        (case parse_postfix_continue (parser_parse_expression n) n (parser_advance p)
                (Some (AstNode (IdentifierExpr (lexeme (current p)))
                         (line (current p)) (column (current p)))) of
           None \<Rightarrow> None
         | Some (expr, q) \<Rightarrow>
             Some (Some (AstNode (ExprStmt expr)
                           (node_line (the expr)) (node_column (the expr))), q))"
  using assms
  by (simp add: vc_simps string_dup_n_def ast_create_identifier_def ast_create_expr_stmt_def
           del: parser_parse_expression.simps parse_postfix_continue.simps split: option.splits)

lemma fallback_statement:
  assumes "type (current p) \<notin>
      {TOKEN_IDENTIFIER, TOKEN_IF, TOKEN_WHILE, TOKEN_FOR, TOKEN_LOOP, TOKEN_RETURN,
       TOKEN_BREAK, TOKEN_CONTINUE}"
  shows "parser_parse_statement (Suc n) p =
        (case parser_parse_expression n p of
           None \<Rightarrow> None
         | Some (None, q) \<Rightarrow> Some (None, q)
         | Some (Some e, q) \<Rightarrow>
             Some (Some (AstNode (ExprStmt (Some e)) (node_line e) (node_column e)), q))"
  using assms
  by (simp add: vc_simps ast_create_expr_stmt_def
           del: parser_parse_expression.simps split: option.splits)

lemma index_statement:
  assumes "type (current p) = TOKEN_IDENTIFIER"
      and "type (current (parser_advance p)) = TOKEN_LEFT_BRACKET"
      and "parser_parse_expression (Suc (Suc n)) (parser_advance (parser_advance p)) =
             Some (index, q)"
      and "type (current q) = TOKEN_RIGHT_BRACKET"
      and "type (current (parser_advance q)) \<notin>
             {TOKEN_LEFT_PAREN, TOKEN_LEFT_BRACKET, TOKEN_DOT}"
  shows "parser_parse_statement (Suc (Suc (Suc n))) p =
           Some (Some (AstNode
                   (ExprStmt (Some (AstNode
                      (IndexExpr (Some (AstNode (IdentifierExpr (lexeme (current p)))
                                         (line (current p)) (column (current p))))
                         index)
                      (line (current q)) (column (current q)))))
                   (line (current q)) (column (current q))),
                 parser_advance q)"
proof -
  have "type (current (parser_advance p)) \<notin> {TOKEN_COLON, TOKEN_EQUAL}"
    using assms(2) by simp
  note s = identifier_statement[OF assms(1) this]
  show ?thesis
    unfolding s using assms(2-)
    by (simp add: postfix_continue_index postfix_continue_no_token
        del: parser_parse_expression.simps parse_postfix_continue.simps)
qed

lemma call_statement:
  assumes "type (current p) = TOKEN_IDENTIFIER"
      and "type (current (parser_advance p)) = TOKEN_LEFT_PAREN"
      and "type (current (parser_advance (parser_advance p))) \<noteq> TOKEN_RIGHT_PAREN"
      and "parser_parse_expression (Suc (Suc n)) (parser_advance (parser_advance p)) =
             Some (arg, q)"
      and "type (current q) = TOKEN_RIGHT_PAREN"
      and "type (current (parser_advance q)) \<notin>
             {TOKEN_LEFT_PAREN, TOKEN_LEFT_BRACKET, TOKEN_DOT}"
  shows "parser_parse_statement (Suc (Suc (Suc n))) p =
           Some (Some (AstNode
                   (ExprStmt (Some (AstNode
                      (CallExpr (Some (AstNode (IdentifierExpr (lexeme (current p)))
                                         (line (current p)) (column (current p))))
                         [arg])
                      (line (current q)) (column (current q)))))
                   (line (current q)) (column (current q))),
                 parser_advance q)"
proof -
  have "type (current (parser_advance p)) \<notin> {TOKEN_COLON, TOKEN_EQUAL}"
    using assms(2) by simp
  note s = identifier_statement[OF assms(1) this]
  show ?thesis
    unfolding s using assms(2-)
    by (simp add: postfix_continue_call call_arguments_step postfix_continue_no_token
        del: parser_parse_expression.simps parse_postfix_continue.simps
             parse_call_arguments.simps)
qed

lemma member_statement:
  assumes "type (current p) = TOKEN_IDENTIFIER"
      and "type (current (parser_advance p)) = TOKEN_DOT"
      and "type (current (parser_advance (parser_advance p))) = TOKEN_IDENTIFIER"
      and "type (current (parser_advance (parser_advance (parser_advance p)))) \<notin>
             {TOKEN_LEFT_PAREN, TOKEN_LEFT_BRACKET, TOKEN_DOT}"
  shows "parser_parse_statement (Suc (Suc (Suc n))) p =
           Some (Some (AstNode
                   (ExprStmt (Some (AstNode
                      (MemberExpr (Some (AstNode (IdentifierExpr (lexeme (current p)))
                                         (line (current p)) (column (current p))))
                         (lexeme (current (parser_advance (parser_advance p)))))
                      (line (current (parser_advance (parser_advance p))))
                      (column (current (parser_advance (parser_advance p)))))))
                   (line (current (parser_advance (parser_advance p))))
                   (column (current (parser_advance (parser_advance p))))),
                 parser_advance (parser_advance (parser_advance p)))"
proof -
  have "type (current (parser_advance p)) \<notin> {TOKEN_COLON, TOKEN_EQUAL}"
    using assms(2) by simp
  note s = identifier_statement[OF assms(1) this]
  show ?thesis
    unfolding s using assms(2-)
    by (simp add: postfix_continue_member postfix_continue_no_token
        del: parser_parse_expression.simps parse_postfix_continue.simps)
qed

section \<open>A closing parenthesis or bracket where a statement begins\<close>

text \<open>
  On \<open>)\<close> or \<open>]\<close> the expression parser returns \<open>NULL\<close> and leaves the parser
  as it was: \<open>parser_parse_primary\<close> returns through its first test, and no level
  above it matches the token. So does \<open>parser_parse_statement\<close>, which takes its last
  branch, and \<open>parser_parse_declaration\<close>.
\<close>

lemma expression_at_closer:
  assumes "type (current p) \<in> {TOKEN_RIGHT_PAREN, TOKEN_RIGHT_BRACKET}"
  shows "parser_parse_expression (Suc (Suc (Suc n))) p = Some (None, p)"
proof -
  have "type (current p) \<notin> primary_tokens" "type (current p) \<notin> operator_tokens"
       "type (current p) \<in> silent_tokens"
    using assms by (auto simp: primary_tokens_def operator_tokens_def silent_tokens_def)
  then show ?thesis
    using expression_no_token[of p n] by simp
qed

lemma unary_at_closer:
  assumes "type (current p) \<in> {TOKEN_RIGHT_PAREN, TOKEN_RIGHT_BRACKET}"
  shows "parse_unary pe (Suc 0) p = None"
proof -
  have "unary_op (type (current p)) = None"
    using assms by (auto simp: unary_op_def)
  moreover have "type (current p) \<notin> primary_tokens"
    using assms by (auto simp: primary_tokens_def)
  ultimately have "parser_parse_primary pe 0 p = Some (None, p)"
    using assms by (auto simp add: primary_no_token silent_tokens_def)
  then show ?thesis
    using \<open>unary_op (type (current p)) = None\<close>
    by (simp add: unary_step postfix_entry del: parse_unary.simps)
qed

lemma expression_at_closer_cases:
  assumes "type (current p) \<in> {TOKEN_RIGHT_PAREN, TOKEN_RIGHT_BRACKET}"
  shows "parser_parse_expression n p = None \<or> parser_parse_expression n p = Some (None, p)"
proof -
  consider "n = 0" | "n = Suc 0" | "n = Suc (Suc 0)" | m where "n = Suc (Suc (Suc m))"
    by (metis not0_implies_Suc)
  then show ?thesis
  proof cases
    case 1
    then show ?thesis by simp
  next
    case 2
    have "parse_logical_or pe 0 p = None" for pe
      by (simp only: logical_or_entry logical_and_entry equality_entry comparison_entry
            term_entry factor_entry parse_unary.simps option.case)
    then show ?thesis
      unfolding 2 by simp
  next
    case 3
    have "parse_logical_or pe (Suc 0) p = None" for pe
      by (simp only: logical_or_entry logical_and_entry equality_entry comparison_entry
            term_entry factor_entry unary_at_closer[OF assms] option.case)
    then show ?thesis
      unfolding 3 by simp
  next
    case 4
    then show ?thesis
      using expression_at_closer[OF assms] by simp
  qed
qed

lemma statement_at_closer_eq:
  assumes "type (current p) \<in> {TOKEN_RIGHT_PAREN, TOKEN_RIGHT_BRACKET}"
  shows "parser_parse_statement (Suc n) p =
           (case parser_parse_expression n p of
              None \<Rightarrow> None
            | Some (None, q) \<Rightarrow> Some (None, q)
            | Some (Some e, q) \<Rightarrow>
                Some (Some (AstNode (ExprStmt (Some e)) (node_line e) (node_column e)), q))"
proof -
  have "type (current p) \<notin>
          {TOKEN_IDENTIFIER, TOKEN_IF, TOKEN_WHILE, TOKEN_FOR, TOKEN_LOOP, TOKEN_RETURN,
           TOKEN_BREAK, TOKEN_CONTINUE}"
    using assms by auto
  then show ?thesis
    by (rule fallback_statement)
qed

lemma statement_at_closer:
  assumes "type (current p) \<in> {TOKEN_RIGHT_PAREN, TOKEN_RIGHT_BRACKET}"
  shows "parser_parse_statement (Suc (Suc (Suc (Suc n)))) p = Some (None, p)"
  by (simp only: statement_at_closer_eq[OF assms] expression_at_closer[OF assms]
        option.case prod.case)

lemma statement_at_closer_cases:
  assumes "type (current p) \<in> {TOKEN_RIGHT_PAREN, TOKEN_RIGHT_BRACKET}"
  shows "parser_parse_statement n p = None \<or> parser_parse_statement n p = Some (None, p)"
proof (cases n)
  case 0
  then show ?thesis by simp
next
  case (Suc m)
  show ?thesis
    using expression_at_closer_cases[OF assms, of m]
    by (auto simp only: Suc statement_at_closer_eq[OF assms] option.case prod.case)
qed

lemma declaration_at_closer_eq:
  assumes "type (current p) \<in> {TOKEN_RIGHT_PAREN, TOKEN_RIGHT_BRACKET}"
  shows "parser_parse_declaration n p = parser_parse_statement n p"
proof -
  have "type (current p) \<noteq> TOKEN_FUNC"
    using assms by auto
  then show ?thesis
    by (simp add: parser_parse_declaration_def case_parser_match
          del: parser_parse_statement.simps)
qed

text \<open>
  Hence the loops that call them until the input or the block ends make no progress on
  such a token, and reach any bound on their turns.
\<close>

lemma declarations_at_closer:
  assumes "type (current p) \<in> {TOKEN_RIGHT_PAREN, TOKEN_RIGHT_BRACKET}" "\<not> panic_mode p"
  shows "parse_declarations n p declarations = None"
proof (induction n)
  case 0
  show ?case by simp
next
  case (Suc n)
  have ne: "\<not> parser_is_at_end p"
    using assms(1) by (auto simp: parser_is_at_end_def)
  from statement_at_closer_cases[OF assms(1), of n] show ?case
  proof
    assume "parser_parse_statement n p = None"
    then show ?thesis
      using ne by (simp add: declaration_at_closer_eq[OF assms(1)]
                        del: parser_parse_statement.simps)
  next
    assume "parser_parse_statement n p = Some (None, p)"
    then show ?thesis
      using ne assms(2) Suc.IH
      by (simp add: declaration_at_closer_eq[OF assms(1)]
               del: parser_parse_statement.simps)
  qed
qed

lemma parse_at_closer:
  assumes "type (current p) \<in> {TOKEN_RIGHT_PAREN, TOKEN_RIGHT_BRACKET}" "\<not> panic_mode p"
  shows "parser_parse n p = None"
  by (simp add: parser_parse_def declarations_at_closer[OF assms])

lemma block_loop_at_closer:
  assumes "type (current p) \<in> {TOKEN_RIGHT_PAREN, TOKEN_RIGHT_BRACKET}"
  shows "parse_block_loop (parser_parse_statement k) n p statements = None"
proof (induction n)
  case 0
  show ?case by simp
next
  case (Suc n)
  have ne: "\<not> parser_check p TOKEN_RIGHT_BRACE" "\<not> parser_is_at_end p"
    using assms by (auto simp: parser_is_at_end_def parser_check_def)
  from statement_at_closer_cases[OF assms, of k] show ?case
  proof
    assume "parser_parse_statement k p = None"
    then show ?thesis
      using ne by (simp del: parser_parse_statement.simps)
  next
    assume "parser_parse_statement k p = Some (None, p)"
    then show ?thesis
      using ne Suc.IH by (simp del: parser_parse_statement.simps)
  qed
qed

lemma block_at_closer:
  assumes "type (current p) = TOKEN_LEFT_BRACE"
      and "type (current (parser_advance p)) \<in> {TOKEN_RIGHT_PAREN, TOKEN_RIGHT_BRACKET}"
  shows "parse_block_statement (parser_parse_statement k) n p = None"
  using assms(1)
  by (simp add: parse_block_statement_def case_parser_expect block_loop_at_closer[OF assms(2)])

section \<open>Statement disambiguation: a call as a statement\<close>

text \<open>
  C1. The statement \<open>print("Hello")\<close>, that is the tokens \<open>print\<close>, \<open>(\<close>,
  \<open>"Hello"\<close>, \<open>)\<close>: \<open>parser_parse_statement\<close> returns an expression statement
  that wraps a call whose callee is the identifier \<open>print\<close> and whose only argument is
  the string literal \<open>Hello\<close>, without its quotes. The whole input is consumed, and in
  the final parser state no error has been reported: \<open>had_error\<close> is false and nothing
  was written to the error stream.
\<close>

theorem print_hello_is_call_statement:
  "parser_parse_statement 5
     (parser_on
        [make_token TOKEN_IDENTIFIER ''print'' 1 6,
         make_token TOKEN_LEFT_PAREN ''('' 1 7,
         make_token TOKEN_STRING ''\"Hello\"'' 1 14,
         make_token TOKEN_RIGHT_PAREN '')'' 1 15] 1 15) =
   Some
     (Some
        (AstNode
           (ExprStmt
              (Some
                 (AstNode
                    (CallExpr (Some (AstNode (IdentifierExpr ''print'') 1 6))
                       [Some (AstNode (LiteralExpr (LIT_STRING ''Hello'')) 1 14)])
                    1 15)))
           1 15),
      \<lparr>lexer = \<lparr>pending = [], end_line = 1, end_column = 15\<rparr>,
         current = make_token TOKEN_EOF [] 1 15,
         previous = make_token TOKEN_RIGHT_PAREN '')'' 1 15,
         had_error = False, panic_mode = False, reported = []\<rparr>)"
  by code_simp

section \<open>The result of a parse\<close>

text \<open>
  C2. With an error reported, \<open>had_error\<close> is set when the loop of \<open>parser_parse\<close>
  ends, and the result is \<open>NULL\<close>; with none, the result is the \<open>Program\<close> node of
  the declarations in their order. So it is on \<^verbatim>\<open>x = (\<close> and on \<^verbatim>\<open>x = 1\<close>. On the
  input \<^verbatim>\<open>)\<close>, however, no error is reported and no \<open>Program\<close> node is returned,
  for \<open>parser_parse\<close> does not return. The parser is at \<open>)\<close>, which is not the
  end of the input, and not in panic mode; \<open>parser_parse_declaration\<close> returns
  \<open>NULL\<close> and leaves the parser exactly so, with \<open>had_error\<close> unset and nothing
  reported; hence the loop of \<open>parser_parse\<close> takes turn after turn in the same state,
  and reaches whatever bound \<open>n\<close> is put on its turns.
\<close>

theorem stray_closing_parenthesis_is_never_passed:
  "type (current input_right_paren) = TOKEN_RIGHT_PAREN \<and>
   \<not> parser_is_at_end input_right_paren \<and>
   \<not> panic_mode input_right_paren \<and>
   \<not> had_error input_right_paren \<and>
   reported input_right_paren = [] \<and>
   parser_parse_declaration (n + 4) input_right_paren = Some (None, input_right_paren) \<and>
   parser_parse n input_right_paren = None \<and>
   parser_parse 8 input_x_is_1 =
     Some
       (Some
          (AstNode
             (Program
                [Some
                   (AstNode (VarDecl ''x'' None (Some (AstNode (LiteralExpr (LIT_INT 1)) 1 6))) 1
                      2)])
             1 1),
        \<lparr>lexer = \<lparr>pending = [], end_line = 1, end_column = 6\<rparr>,
                current = make_token TOKEN_EOF [] 1 6,
                previous = make_token TOKEN_INT ''1'' 1 6,
                had_error = False,
                panic_mode = False,
                reported = []\<rparr>) \<and>
   parser_parse 8 input_x_is_left_paren =
     Some
       (None,
        \<lparr>lexer = \<lparr>pending = [], end_line = 1, end_column = 6\<rparr>,
                current = make_token TOKEN_EOF [] 1 6,
                previous = make_token TOKEN_LEFT_PAREN ''('' 1 6,
                had_error = True,
                panic_mode = False,
                reported =
                  [(make_token TOKEN_LEFT_PAREN ''('' 1 6,
                    (''Expected expression after '('' @ [CHR 0x27]))]\<rparr>)"
proof -
  have f1:
    "type (current input_right_paren) = TOKEN_RIGHT_PAREN"
    by code_simp
  have f2:
    "\<not> parser_is_at_end input_right_paren"
    by code_simp
  have f3:
    "\<not> panic_mode input_right_paren"
    by code_simp
  have f4:
    "\<not> had_error input_right_paren"
    by code_simp
  have f5:
    "reported input_right_paren = []"
    by code_simp
  have f6:
    "parser_parse_declaration (n + 4) input_right_paren = Some (None, input_right_paren)"
  proof -
    have c: "type (current input_right_paren) \<in> {TOKEN_RIGHT_PAREN, TOKEN_RIGHT_BRACKET}"
      using f1 by simp
    have eq: "n + 4 = Suc (Suc (Suc (Suc n)))"
      by simp
    show ?thesis
      unfolding eq declaration_at_closer_eq[OF c] by (rule statement_at_closer[OF c])
  qed
  have f7:
    "parser_parse n input_right_paren = None"
  proof -
    have "type (current input_right_paren) \<in> {TOKEN_RIGHT_PAREN, TOKEN_RIGHT_BRACKET}"
      using f1 by simp
    then show ?thesis
      using f3 by (rule parse_at_closer)
  qed
  have f8:
    "parser_parse 8 input_x_is_1 =
       Some
         (Some
            (AstNode
               (Program
                  [Some
                     (AstNode (VarDecl ''x'' None (Some (AstNode (LiteralExpr (LIT_INT 1)) 1 6)))
                        1 2)])
               1 1),
          \<lparr>lexer = \<lparr>pending = [], end_line = 1, end_column = 6\<rparr>,
                  current = make_token TOKEN_EOF [] 1 6,
                  previous = make_token TOKEN_INT ''1'' 1 6,
                  had_error = False,
                  panic_mode = False,
                  reported = []\<rparr>)"
    by code_simp
  have f9:
    "parser_parse 8 input_x_is_left_paren =
       Some
         (None,
          \<lparr>lexer = \<lparr>pending = [], end_line = 1, end_column = 6\<rparr>,
                  current = make_token TOKEN_EOF [] 1 6,
                  previous = make_token TOKEN_LEFT_PAREN ''('' 1 6,
                  had_error = True,
                  panic_mode = False,
                  reported =
                    [(make_token TOKEN_LEFT_PAREN ''('' 1 6,
                      (''Expected expression after '('' @ [CHR 0x27]))]\<rparr>)"
    by code_simp
  show ?thesis
    by (intro conjI f1 f2 f3 f4 f5 f6 f7 f8 f9)
qed

section \<open>Recovery at the top level\<close>

text \<open>
  C3. On \<^verbatim>\<open>foo(1 2) if y { z = 1 }\<close> the first declaration lacks its \<open>)\<close>: an error is
  reported at \<open>2\<close> and the parser is in panic mode; \<open>parser_synchronize\<close> leaves
  panic mode and discards \<open>2\<close> and \<open>)\<close>, up to \<open>if\<close>; the next declaration is
  the if statement with its condition and block, and both declarations are gathered. On
  \<^verbatim>\<open>) if y { z = 1 }\<close>, however, no error is reported for the first construct and no
  if node is built for the second: \<open>parser_parse_declaration\<close> returns \<open>NULL\<close> at
  \<open>)\<close> and leaves the parser as it was, not in panic mode, so that nothing is
  discarded; the loop of \<open>parser_parse\<close> takes turn after turn in that state, reaches
  whatever bound \<open>n\<close> is put on its turns, and never comes to the \<open>if\<close>.
\<close>

theorem stray_closing_parenthesis_blocks_later_constructs:
  "type (current input_right_paren_then_if) = TOKEN_RIGHT_PAREN \<and>
   \<not> parser_is_at_end input_right_paren_then_if \<and>
   \<not> panic_mode input_right_paren_then_if \<and>
   \<not> had_error input_right_paren_then_if \<and>
   reported input_right_paren_then_if = [] \<and>
   parser_parse_declaration (n + 4) input_right_paren_then_if =
     Some (None, input_right_paren_then_if) \<and>
   parser_parse n input_right_paren_then_if = None \<and>
   parser_parse_declaration 8 input_unclosed_call_then_if =
     Some
       (Some
          (AstNode
             (ExprStmt
                (Some
                   (AstNode
                      (CallExpr (Some (AstNode (IdentifierExpr ''foo'') 1 4))
                         [Some (AstNode (LiteralExpr (LIT_INT 1)) 1 6)])
                      1 8)))
             1 8),
        \<lparr>lexer =
                  \<lparr>pending =
                            [make_token TOKEN_RIGHT_PAREN '')'' 1 9,
                             make_token TOKEN_IF ''if'' 1 12,
                             make_token TOKEN_IDENTIFIER ''y'' 1 14,
                             make_token TOKEN_LEFT_BRACE ''{'' 1 16,
                             make_token TOKEN_IDENTIFIER ''z'' 1 18,
                             make_token TOKEN_EQUAL ''='' 1 20,
                             make_token TOKEN_INT ''1'' 1 22,
                             make_token TOKEN_RIGHT_BRACE ''}'' 1 24],
                          end_line = 1,
                          end_column = 24\<rparr>,
                current = make_token TOKEN_INT ''2'' 1 8,
                previous = make_token TOKEN_INT ''1'' 1 6,
                had_error = True,
                panic_mode = True,
                reported = [(make_token TOKEN_INT ''2'' 1 8, ''Expected ')' after arguments'')]\<rparr>) \<and>
   parser_synchronize
     \<lparr>lexer =
               \<lparr>pending =
                         [make_token TOKEN_RIGHT_PAREN '')'' 1 9,
                          make_token TOKEN_IF ''if'' 1 12,
                          make_token TOKEN_IDENTIFIER ''y'' 1 14,
                          make_token TOKEN_LEFT_BRACE ''{'' 1 16,
                          make_token TOKEN_IDENTIFIER ''z'' 1 18,
                          make_token TOKEN_EQUAL ''='' 1 20,
                          make_token TOKEN_INT ''1'' 1 22,
                          make_token TOKEN_RIGHT_BRACE ''}'' 1 24],
                       end_line = 1,
                       end_column = 24\<rparr>,
             current = make_token TOKEN_INT ''2'' 1 8,
             previous = make_token TOKEN_INT ''1'' 1 6,
             had_error = True,
             panic_mode = True,
             reported = [(make_token TOKEN_INT ''2'' 1 8, ''Expected ')' after arguments'')]\<rparr> =
     \<lparr>lexer =
               \<lparr>pending =
                         [make_token TOKEN_IDENTIFIER ''y'' 1 14,
                          make_token TOKEN_LEFT_BRACE ''{'' 1 16,
                          make_token TOKEN_IDENTIFIER ''z'' 1 18,
                          make_token TOKEN_EQUAL ''='' 1 20,
                          make_token TOKEN_INT ''1'' 1 22,
                          make_token TOKEN_RIGHT_BRACE ''}'' 1 24],
                       end_line = 1,
                       end_column = 24\<rparr>,
             current = make_token TOKEN_IF ''if'' 1 12,
             previous = make_token TOKEN_RIGHT_PAREN '')'' 1 9,
             had_error = True,
             panic_mode = False,
             reported = [(make_token TOKEN_INT ''2'' 1 8, ''Expected ')' after arguments'')]\<rparr> \<and>
   parser_parse_declaration 8
     \<lparr>lexer =
               \<lparr>pending =
                         [make_token TOKEN_IDENTIFIER ''y'' 1 14,
                          make_token TOKEN_LEFT_BRACE ''{'' 1 16,
                          make_token TOKEN_IDENTIFIER ''z'' 1 18,
                          make_token TOKEN_EQUAL ''='' 1 20,
                          make_token TOKEN_INT ''1'' 1 22,
                          make_token TOKEN_RIGHT_BRACE ''}'' 1 24],
                       end_line = 1,
                       end_column = 24\<rparr>,
             current = make_token TOKEN_IF ''if'' 1 12,
             previous = make_token TOKEN_RIGHT_PAREN '')'' 1 9,
             had_error = True,
             panic_mode = False,
             reported = [(make_token TOKEN_INT ''2'' 1 8, ''Expected ')' after arguments'')]\<rparr> =
     Some
       (Some
          (AstNode
             (IfStmt (Some (AstNode (IdentifierExpr ''y'') 1 14))
                (Some
                   (AstNode
                      (BlockStmt
                         [Some
                            (AstNode
                               (VarDecl ''z'' None (Some (AstNode (LiteralExpr (LIT_INT 1)) 1 22)))
                               1 18)])
                      1 16))
                None)
             1 12),
        \<lparr>lexer = \<lparr>pending = [], end_line = 1, end_column = 24\<rparr>,
                current = make_token TOKEN_EOF [] 1 24,
                previous = make_token TOKEN_RIGHT_BRACE ''}'' 1 24,
                had_error = True,
                panic_mode = False,
                reported = [(make_token TOKEN_INT ''2'' 1 8, ''Expected ')' after arguments'')]\<rparr>) \<and>
   parse_declarations 8 input_unclosed_call_then_if [] =
     Some
       ([Some
           (AstNode
              (ExprStmt
                 (Some
                    (AstNode
                       (CallExpr (Some (AstNode (IdentifierExpr ''foo'') 1 4))
                          [Some (AstNode (LiteralExpr (LIT_INT 1)) 1 6)])
                       1 8)))
              1 8),
         Some
           (AstNode
              (IfStmt (Some (AstNode (IdentifierExpr ''y'') 1 14))
                 (Some
                    (AstNode
                       (BlockStmt
                          [Some
                             (AstNode
                                (VarDecl ''z'' None
                                   (Some (AstNode (LiteralExpr (LIT_INT 1)) 1 22)))
                                1 18)])
                       1 16))
                 None)
              1 12)],
        \<lparr>lexer = \<lparr>pending = [], end_line = 1, end_column = 24\<rparr>,
                current = make_token TOKEN_EOF [] 1 24,
                previous = make_token TOKEN_RIGHT_BRACE ''}'' 1 24,
                had_error = True,
                panic_mode = False,
                reported = [(make_token TOKEN_INT ''2'' 1 8, ''Expected ')' after arguments'')]\<rparr>)"
proof -
  have f1:
    "type (current input_right_paren_then_if) = TOKEN_RIGHT_PAREN"
    by code_simp
  have f2:
    "\<not> parser_is_at_end input_right_paren_then_if"
    by code_simp
  have f3:
    "\<not> panic_mode input_right_paren_then_if"
    by code_simp
  have f4:
    "\<not> had_error input_right_paren_then_if"
    by code_simp
  have f5:
    "reported input_right_paren_then_if = []"
    by code_simp
  have f6:
    "parser_parse_declaration (n + 4) input_right_paren_then_if =
       Some (None, input_right_paren_then_if)"
  proof -
    have c: "type (current input_right_paren_then_if) \<in> {TOKEN_RIGHT_PAREN, TOKEN_RIGHT_BRACKET}"
      using f1 by simp
    have eq: "n + 4 = Suc (Suc (Suc (Suc n)))"
      by simp
    show ?thesis
      unfolding eq declaration_at_closer_eq[OF c] by (rule statement_at_closer[OF c])
  qed
  have f7:
    "parser_parse n input_right_paren_then_if = None"
  proof -
    have "type (current input_right_paren_then_if) \<in> {TOKEN_RIGHT_PAREN, TOKEN_RIGHT_BRACKET}"
      using f1 by simp
    then show ?thesis
      using f3 by (rule parse_at_closer)
  qed
  have f8:
    "parser_parse_declaration 8 input_unclosed_call_then_if =
       Some
         (Some
            (AstNode
               (ExprStmt
                  (Some
                     (AstNode
                        (CallExpr (Some (AstNode (IdentifierExpr ''foo'') 1 4))
                           [Some (AstNode (LiteralExpr (LIT_INT 1)) 1 6)])
                        1 8)))
               1 8),
          \<lparr>lexer =
                    \<lparr>pending =
                              [make_token TOKEN_RIGHT_PAREN '')'' 1 9,
                               make_token TOKEN_IF ''if'' 1 12,
                               make_token TOKEN_IDENTIFIER ''y'' 1 14,
                               make_token TOKEN_LEFT_BRACE ''{'' 1 16,
                               make_token TOKEN_IDENTIFIER ''z'' 1 18,
                               make_token TOKEN_EQUAL ''='' 1 20,
                               make_token TOKEN_INT ''1'' 1 22,
                               make_token TOKEN_RIGHT_BRACE ''}'' 1 24],
                            end_line = 1,
                            end_column = 24\<rparr>,
                  current = make_token TOKEN_INT ''2'' 1 8,
                  previous = make_token TOKEN_INT ''1'' 1 6,
                  had_error = True,
                  panic_mode = True,
                  reported = [(make_token TOKEN_INT ''2'' 1 8, ''Expected ')' after arguments'')]\<rparr>)"
    by code_simp
  have f9:
    "parser_synchronize
       \<lparr>lexer =
                 \<lparr>pending =
                           [make_token TOKEN_RIGHT_PAREN '')'' 1 9,
                            make_token TOKEN_IF ''if'' 1 12,
                            make_token TOKEN_IDENTIFIER ''y'' 1 14,
                            make_token TOKEN_LEFT_BRACE ''{'' 1 16,
                            make_token TOKEN_IDENTIFIER ''z'' 1 18,
                            make_token TOKEN_EQUAL ''='' 1 20,
                            make_token TOKEN_INT ''1'' 1 22,
                            make_token TOKEN_RIGHT_BRACE ''}'' 1 24],
                         end_line = 1,
                         end_column = 24\<rparr>,
               current = make_token TOKEN_INT ''2'' 1 8,
               previous = make_token TOKEN_INT ''1'' 1 6,
               had_error = True,
               panic_mode = True,
               reported = [(make_token TOKEN_INT ''2'' 1 8, ''Expected ')' after arguments'')]\<rparr> =
       \<lparr>lexer =
                 \<lparr>pending =
                           [make_token TOKEN_IDENTIFIER ''y'' 1 14,
                            make_token TOKEN_LEFT_BRACE ''{'' 1 16,
                            make_token TOKEN_IDENTIFIER ''z'' 1 18,
                            make_token TOKEN_EQUAL ''='' 1 20,
                            make_token TOKEN_INT ''1'' 1 22,
                            make_token TOKEN_RIGHT_BRACE ''}'' 1 24],
                         end_line = 1,
                         end_column = 24\<rparr>,
               current = make_token TOKEN_IF ''if'' 1 12,
               previous = make_token TOKEN_RIGHT_PAREN '')'' 1 9,
               had_error = True,
               panic_mode = False,
               reported = [(make_token TOKEN_INT ''2'' 1 8, ''Expected ')' after arguments'')]\<rparr>"
    by code_simp
  have f10:
    "parser_parse_declaration 8
       \<lparr>lexer =
                 \<lparr>pending =
                           [make_token TOKEN_IDENTIFIER ''y'' 1 14,
                            make_token TOKEN_LEFT_BRACE ''{'' 1 16,
                            make_token TOKEN_IDENTIFIER ''z'' 1 18,
                            make_token TOKEN_EQUAL ''='' 1 20,
                            make_token TOKEN_INT ''1'' 1 22,
                            make_token TOKEN_RIGHT_BRACE ''}'' 1 24],
                         end_line = 1,
                         end_column = 24\<rparr>,
               current = make_token TOKEN_IF ''if'' 1 12,
               previous = make_token TOKEN_RIGHT_PAREN '')'' 1 9,
               had_error = True,
               panic_mode = False,
               reported = [(make_token TOKEN_INT ''2'' 1 8, ''Expected ')' after arguments'')]\<rparr> =
       Some
         (Some
            (AstNode
               (IfStmt (Some (AstNode (IdentifierExpr ''y'') 1 14))
                  (Some
                     (AstNode
                        (BlockStmt
                           [Some
                              (AstNode
                                 (VarDecl ''z'' None
                                    (Some (AstNode (LiteralExpr (LIT_INT 1)) 1 22)))
                                 1 18)])
                        1 16))
                  None)
               1 12),
          \<lparr>lexer = \<lparr>pending = [], end_line = 1, end_column = 24\<rparr>,
                  current = make_token TOKEN_EOF [] 1 24,
                  previous = make_token TOKEN_RIGHT_BRACE ''}'' 1 24,
                  had_error = True,
                  panic_mode = False,
                  reported = [(make_token TOKEN_INT ''2'' 1 8, ''Expected ')' after arguments'')]\<rparr>)"
    by code_simp
  have f11:
    "parse_declarations 8 input_unclosed_call_then_if [] =
       Some
         ([Some
             (AstNode
                (ExprStmt
                   (Some
                      (AstNode
                         (CallExpr (Some (AstNode (IdentifierExpr ''foo'') 1 4))
                            [Some (AstNode (LiteralExpr (LIT_INT 1)) 1 6)])
                         1 8)))
                1 8),
           Some
             (AstNode
                (IfStmt (Some (AstNode (IdentifierExpr ''y'') 1 14))
                   (Some
                      (AstNode
                         (BlockStmt
                            [Some
                               (AstNode
                                  (VarDecl ''z'' None
                                     (Some (AstNode (LiteralExpr (LIT_INT 1)) 1 22)))
                                  1 18)])
                         1 16))
                   None)
                1 12)],
          \<lparr>lexer = \<lparr>pending = [], end_line = 1, end_column = 24\<rparr>,
                  current = make_token TOKEN_EOF [] 1 24,
                  previous = make_token TOKEN_RIGHT_BRACE ''}'' 1 24,
                  had_error = True,
                  panic_mode = False,
                  reported = [(make_token TOKEN_INT ''2'' 1 8, ''Expected ')' after arguments'')]\<rparr>)"
    by code_simp
  show ?thesis
    by (intro conjI f1 f2 f3 f4 f5 f6 f7 f8 f9 f10 f11)
qed

section \<open>Operator precedence\<close>

text \<open>
  C4. Multiplicative operators bind tighter than additive ones, and parentheses override
  that nesting. In full: the additive level \<open>parse_term\<close> parses one operand with
  \<open>parse_factor\<close> and then, as long as the current token is \<open>+\<close> or \<open>-\<close>,
  consumes it, parses the right operand with \<open>parse_factor\<close> again, and goes on with
  the binary node of the two as left operand; the multiplicative level \<open>parse_factor\<close>
  does the same with \<open>parse_unary\<close> for its operands and the tokens \<open>*\<close>,
  \<open>/\<close> and \<open>%\<close>, and returns, with nothing consumed, at any other token. So
  both operands of an additive operator are whole multiplicative expressions, and both
  operands of a multiplicative operator are unary expressions. A parenthesised
  expression is a primary expression, hence one such operand: its node is the node of the
  expression between the parentheses, whatever the operators in there.

  Hence, for unary expressions \<open>a\<close>, \<open>b\<close>, \<open>c\<close>, an additive operator
  \<open>\<oplus>\<close> and a multiplicative operator \<open>\<otimes>\<close>, followed by a token that is
  neither: \<open>a \<oplus> b \<otimes> c\<close> is the node \<open>\<oplus>\<close> of \<open>a\<close> and the node \<open>\<otimes>\<close>
  of \<open>b\<close> and \<open>c\<close>; \<open>a \<otimes> b \<oplus> c\<close> is the node \<open>\<oplus>\<close> of the node
  \<open>\<otimes>\<close> of \<open>a\<close> and \<open>b\<close>, and \<open>c\<close>; \<open>(e) \<otimes> c\<close> is the node \<open>\<otimes>\<close> of
  \<open>e\<close> and \<open>c\<close>, and \<open>a \<otimes> (e)\<close> the node \<open>\<otimes>\<close> of \<open>a\<close> and \<open>e\<close>, for
  any expression \<open>e\<close>, an addition for one. Such a result of \<open>parse_term\<close> is the
  result of \<open>parser_parse_expression\<close> if no comparison, equality or logical operator
  follows.
\<close>

theorem precedence_of_multiplication_over_addition:
  "parse_term pe n p =
     (case parse_factor pe n p of
        None \<Rightarrow> None | Some (left, q) \<Rightarrow> parse_term_loop pe n q left)
   \<and>
   parse_term_loop pe (Suc n) p left =
     binary_step additive_op (parse_factor pe n) (parse_term_loop pe n) p left
   \<and>
   parse_factor pe n p =
     (case parse_unary pe n p of
        None \<Rightarrow> None | Some (left, q) \<Rightarrow> parse_factor_loop pe n q left)
   \<and>
   parse_factor_loop pe (Suc n) p left =
     binary_step multiplicative_op (parse_unary pe n) (parse_factor_loop pe n) p left
   \<and>
   (type (current p) = TOKEN_LEFT_PAREN \<and>
    pe (parser_advance p) = Some (Some e, q) \<and>
    type (current q) = TOKEN_RIGHT_PAREN \<longrightarrow>
      parser_parse_primary pe n p = Some (Some e, parser_advance q))
   \<and>
   (parse_unary pe (n + 3) p = Some (a, p1) \<and>
    additive_op (type (current p1)) = Some aop \<and>
    parse_unary pe (n + 2) (parser_advance p1) = Some (b, p2) \<and>
    multiplicative_op (type (current p2)) = Some mop \<and>
    parse_unary pe (n + 1) (parser_advance p2) = Some (c, p3) \<and>
    multiplicative_op (type (current p3)) = None \<and>
    additive_op (type (current p3)) = None \<longrightarrow>
      parse_term pe (n + 3) p =
        Some (Some (AstNode
                      (BinaryExpr aop a
                         (Some (AstNode (BinaryExpr mop b c)
                                  (line (current p2)) (column (current p2)))))
                      (line (current p1)) (column (current p1))), p3))
   \<and>
   (parse_unary pe (n + 2) p = Some (a, p1) \<and>
    multiplicative_op (type (current p1)) = Some mop \<and>
    parse_unary pe (n + 1) (parser_advance p1) = Some (b, p2) \<and>
    additive_op (type (current p2)) = Some aop \<and>
    parse_unary pe (n + 1) (parser_advance p2) = Some (c, p3) \<and>
    multiplicative_op (type (current p3)) = None \<and>
    additive_op (type (current p3)) = None \<longrightarrow>
      parse_term pe (n + 2) p =
        Some (Some (AstNode
                      (BinaryExpr aop
                         (Some (AstNode (BinaryExpr mop a b)
                                  (line (current p1)) (column (current p1))))
                         c)
                      (line (current p2)) (column (current p2))), p3))
   \<and>
   (type (current p) = TOKEN_LEFT_PAREN \<and>
    pe (parser_advance p) = Some (Some e, q) \<and>
    type (current q) = TOKEN_RIGHT_PAREN \<and>
    multiplicative_op (type (current (parser_advance q))) = Some mop \<and>
    parse_unary pe (n + 1) (parser_advance (parser_advance q)) = Some (c, p3) \<and>
    multiplicative_op (type (current p3)) = None \<and>
    additive_op (type (current p3)) = None \<longrightarrow>
      parse_term pe (n + 2) p =
        Some (Some (AstNode (BinaryExpr mop (Some e) c)
                      (line (current (parser_advance q)))
                      (column (current (parser_advance q)))), p3))
   \<and>
   (parse_unary pe (n + 3) p = Some (a, p1) \<and>
    multiplicative_op (type (current p1)) = Some mop \<and>
    type (current (parser_advance p1)) = TOKEN_LEFT_PAREN \<and>
    pe (parser_advance (parser_advance p1)) = Some (Some e, q) \<and>
    type (current q) = TOKEN_RIGHT_PAREN \<and>
    type (current (parser_advance q)) \<notin>
      {TOKEN_LEFT_PAREN, TOKEN_LEFT_BRACKET, TOKEN_DOT} \<and>
    multiplicative_op (type (current (parser_advance q))) = None \<and>
    additive_op (type (current (parser_advance q))) = None \<longrightarrow>
      parse_term pe (n + 3) p =
        Some (Some (AstNode (BinaryExpr mop a (Some e))
                      (line (current p1)) (column (current p1))), parser_advance q))
   \<and>
   (parse_term (parser_parse_expression (n + 1)) (n + 1) p = Some (r, p') \<and>
    comparison_op (type (current p')) = None \<and>
    equality_op (type (current p')) = None \<and>
    logical_and_op (type (current p')) = None \<and>
    logical_or_op (type (current p')) = None \<longrightarrow>
      parser_parse_expression (n + 2) p = Some (r, p'))"
proof -
  have n1: "n + 1 = Suc n" and n2: "n + 2 = Suc (Suc n)" and n3: "n + 3 = Suc (Suc (Suc n))"
    by simp_all
  have paren: "parser_parse_primary pe n p = Some (Some e, parser_advance q)"
    if "type (current p) = TOKEN_LEFT_PAREN" "pe (parser_advance p) = Some (Some e, q)"
       "type (current q) = TOKEN_RIGHT_PAREN"
    using that by (rule primary_parenthesised)
  have f1: "parse_term pe (n + 3) p =
        Some (Some (AstNode
                      (BinaryExpr aop a
                         (Some (AstNode (BinaryExpr mop b c)
                                  (line (current p2)) (column (current p2)))))
                      (line (current p1)) (column (current p1))), p3)"
    if "parse_unary pe (n + 3) p = Some (a, p1)"
       "additive_op (type (current p1)) = Some aop"
       "parse_unary pe (n + 2) (parser_advance p1) = Some (b, p2)"
       "multiplicative_op (type (current p2)) = Some mop"
       "parse_unary pe (n + 1) (parser_advance p2) = Some (c, p3)"
       "multiplicative_op (type (current p3)) = None"
       "additive_op (type (current p3)) = None"
    using that unfolding n1 n2 n3 by (rule term_add_mul)
  have f2: "parse_term pe (n + 2) p =
        Some (Some (AstNode
                      (BinaryExpr aop
                         (Some (AstNode (BinaryExpr mop a b)
                                  (line (current p1)) (column (current p1))))
                         c)
                      (line (current p2)) (column (current p2))), p3)"
    if "parse_unary pe (n + 2) p = Some (a, p1)"
       "multiplicative_op (type (current p1)) = Some mop"
       "parse_unary pe (n + 1) (parser_advance p1) = Some (b, p2)"
       "additive_op (type (current p2)) = Some aop"
       "parse_unary pe (n + 1) (parser_advance p2) = Some (c, p3)"
       "multiplicative_op (type (current p3)) = None"
       "additive_op (type (current p3)) = None"
    using that unfolding n1 n2 by (rule term_mul_add)
  have f3: "parse_term pe (n + 2) p =
        Some (Some (AstNode (BinaryExpr mop (Some e) c)
                      (line (current (parser_advance q)))
                      (column (current (parser_advance q)))), p3)"
    if "type (current p) = TOKEN_LEFT_PAREN"
       "pe (parser_advance p) = Some (Some e, q)"
       "type (current q) = TOKEN_RIGHT_PAREN"
       "multiplicative_op (type (current (parser_advance q))) = Some mop"
       "parse_unary pe (n + 1) (parser_advance (parser_advance q)) = Some (c, p3)"
       "multiplicative_op (type (current p3)) = None"
       "additive_op (type (current p3)) = None"
    using that unfolding n1 n2 by (rule term_paren_mul)
  have f4: "parse_term pe (n + 3) p =
        Some (Some (AstNode (BinaryExpr mop a (Some e))
                      (line (current p1)) (column (current p1))), parser_advance q)"
    if "parse_unary pe (n + 3) p = Some (a, p1)"
       "multiplicative_op (type (current p1)) = Some mop"
       "type (current (parser_advance p1)) = TOKEN_LEFT_PAREN"
       "pe (parser_advance (parser_advance p1)) = Some (Some e, q)"
       "type (current q) = TOKEN_RIGHT_PAREN"
       "type (current (parser_advance q)) \<notin>
          {TOKEN_LEFT_PAREN, TOKEN_LEFT_BRACKET, TOKEN_DOT}"
       "multiplicative_op (type (current (parser_advance q))) = None"
       "additive_op (type (current (parser_advance q))) = None"
    using that unfolding n3 by (rule term_mul_paren)
  have g: "parser_parse_expression (n + 2) p = Some (r, p')"
    if "parse_term (parser_parse_expression (n + 1)) (n + 1) p = Some (r, p')"
       "comparison_op (type (current p')) = None"
       "equality_op (type (current p')) = None"
       "logical_and_op (type (current p')) = None"
       "logical_or_op (type (current p')) = None"
    using that unfolding n1 n2 by (rule term_is_expression)
  show ?thesis
    using term_entry[of pe n p] term_loop_step[of pe n p left]
          factor_entry[of pe n p] factor_loop_step[of pe n p left]
          paren f1 f2 f3 f4 g
    by blast
qed

theorem precedence_of_multiplication_over_addition_witness:
  "parse_unary (parser_parse_expression 4) 4 input_2_plus_3_times_4 =
     Some (Some (AstNode (LiteralExpr (LIT_INT 2)) 1 2), (advance_by 1 input_2_plus_3_times_4)) \<and>
   additive_op (type (current (advance_by 1 input_2_plus_3_times_4))) = Some OP_ADD \<and>
   parse_unary (parser_parse_expression 4) 3
     (parser_advance (advance_by 1 input_2_plus_3_times_4)) =
     Some (Some (AstNode (LiteralExpr (LIT_INT 3)) 1 6), (advance_by 3 input_2_plus_3_times_4)) \<and>
   multiplicative_op (type (current (advance_by 3 input_2_plus_3_times_4))) = Some OP_MUL \<and>
   parse_unary (parser_parse_expression 4) 2
     (parser_advance (advance_by 3 input_2_plus_3_times_4)) =
     Some (Some (AstNode (LiteralExpr (LIT_INT 4)) 1 10), (advance_by 5 input_2_plus_3_times_4)) \<and>
   multiplicative_op (type (current (advance_by 5 input_2_plus_3_times_4))) = None \<and>
   additive_op (type (current (advance_by 5 input_2_plus_3_times_4))) = None \<and>
   parse_term (parser_parse_expression 4) 4 input_2_plus_3_times_4 =
     Some
       (Some
          (AstNode
             (BinaryExpr OP_ADD (Some (AstNode (LiteralExpr (LIT_INT 2)) 1 2))
                (Some
                   (AstNode
                      (BinaryExpr OP_MUL (Some (AstNode (LiteralExpr (LIT_INT 3)) 1 6))
                         (Some (AstNode (LiteralExpr (LIT_INT 4)) 1 10)))
                      1 8)))
             1 4),
        \<lparr>lexer = \<lparr>pending = [], end_line = 1, end_column = 10\<rparr>,
                current = make_token TOKEN_EOF [] 1 10,
                previous = make_token TOKEN_INT ''4'' 1 10,
                had_error = False,
                panic_mode = False,
                reported = []\<rparr>) \<and>
   comparison_op (type (current (advance_by 5 input_2_plus_3_times_4))) = None \<and>
   equality_op (type (current (advance_by 5 input_2_plus_3_times_4))) = None \<and>
   logical_and_op (type (current (advance_by 5 input_2_plus_3_times_4))) = None \<and>
   logical_or_op (type (current (advance_by 5 input_2_plus_3_times_4))) = None \<and>
   parser_parse_expression 5 input_2_plus_3_times_4 =
     Some
       (Some
          (AstNode
             (BinaryExpr OP_ADD (Some (AstNode (LiteralExpr (LIT_INT 2)) 1 2))
                (Some
                   (AstNode
                      (BinaryExpr OP_MUL (Some (AstNode (LiteralExpr (LIT_INT 3)) 1 6))
                         (Some (AstNode (LiteralExpr (LIT_INT 4)) 1 10)))
                      1 8)))
             1 4),
        \<lparr>lexer = \<lparr>pending = [], end_line = 1, end_column = 10\<rparr>,
                current = make_token TOKEN_EOF [] 1 10,
                previous = make_token TOKEN_INT ''4'' 1 10,
                had_error = False,
                panic_mode = False,
                reported = []\<rparr>) \<and>
   type (current input_paren_2_plus_3_times_4) = TOKEN_LEFT_PAREN \<and>
   parser_parse_expression 4 (parser_advance input_paren_2_plus_3_times_4) =
     Some
       (Some
          (AstNode
             (BinaryExpr OP_ADD (Some (AstNode (LiteralExpr (LIT_INT 2)) 1 3))
                (Some (AstNode (LiteralExpr (LIT_INT 3)) 1 7)))
             1 5),
        (advance_by 4 input_paren_2_plus_3_times_4)) \<and>
   type (current (advance_by 4 input_paren_2_plus_3_times_4)) = TOKEN_RIGHT_PAREN \<and>
   parser_parse_primary (parser_parse_expression 4) 4 input_paren_2_plus_3_times_4 =
     Some
       (Some
          (AstNode
             (BinaryExpr OP_ADD (Some (AstNode (LiteralExpr (LIT_INT 2)) 1 3))
                (Some (AstNode (LiteralExpr (LIT_INT 3)) 1 7)))
             1 5),
        (parser_advance (advance_by 4 input_paren_2_plus_3_times_4))) \<and>
   multiplicative_op
     (type (current (parser_advance (advance_by 4 input_paren_2_plus_3_times_4)))) =
     Some OP_MUL \<and>
   parse_unary (parser_parse_expression 4) 3
     (parser_advance (parser_advance (advance_by 4 input_paren_2_plus_3_times_4))) =
     Some
       (Some (AstNode (LiteralExpr (LIT_INT 4)) 1 12),
        (advance_by 7 input_paren_2_plus_3_times_4)) \<and>
   multiplicative_op (type (current (advance_by 7 input_paren_2_plus_3_times_4))) = None \<and>
   additive_op (type (current (advance_by 7 input_paren_2_plus_3_times_4))) = None \<and>
   parse_term (parser_parse_expression 4) 4 input_paren_2_plus_3_times_4 =
     Some
       (Some
          (AstNode
             (BinaryExpr OP_MUL
                (Some
                   (AstNode
                      (BinaryExpr OP_ADD (Some (AstNode (LiteralExpr (LIT_INT 2)) 1 3))
                         (Some (AstNode (LiteralExpr (LIT_INT 3)) 1 7)))
                      1 5))
                (Some (AstNode (LiteralExpr (LIT_INT 4)) 1 12)))
             1 10),
        \<lparr>lexer = \<lparr>pending = [], end_line = 1, end_column = 12\<rparr>,
                current = make_token TOKEN_EOF [] 1 12,
                previous = make_token TOKEN_INT ''4'' 1 12,
                had_error = False,
                panic_mode = False,
                reported = []\<rparr>) \<and>
   comparison_op (type (current (advance_by 7 input_paren_2_plus_3_times_4))) = None \<and>
   equality_op (type (current (advance_by 7 input_paren_2_plus_3_times_4))) = None \<and>
   logical_and_op (type (current (advance_by 7 input_paren_2_plus_3_times_4))) = None \<and>
   logical_or_op (type (current (advance_by 7 input_paren_2_plus_3_times_4))) = None \<and>
   parser_parse_expression 5 input_paren_2_plus_3_times_4 =
     Some
       (Some
          (AstNode
             (BinaryExpr OP_MUL
                (Some
                   (AstNode
                      (BinaryExpr OP_ADD (Some (AstNode (LiteralExpr (LIT_INT 2)) 1 3))
                         (Some (AstNode (LiteralExpr (LIT_INT 3)) 1 7)))
                      1 5))
                (Some (AstNode (LiteralExpr (LIT_INT 4)) 1 12)))
             1 10),
        \<lparr>lexer = \<lparr>pending = [], end_line = 1, end_column = 12\<rparr>,
                current = make_token TOKEN_EOF [] 1 12,
                previous = make_token TOKEN_INT ''4'' 1 12,
                had_error = False,
                panic_mode = False,
                reported = []\<rparr>) \<and>
   parse_unary (parser_parse_expression 4) 4 input_2_times_3_plus_4 =
     Some (Some (AstNode (LiteralExpr (LIT_INT 2)) 1 2), (advance_by 1 input_2_times_3_plus_4)) \<and>
   multiplicative_op (type (current (advance_by 1 input_2_times_3_plus_4))) = Some OP_MUL \<and>
   parse_unary (parser_parse_expression 4) 3
     (parser_advance (advance_by 1 input_2_times_3_plus_4)) =
     Some (Some (AstNode (LiteralExpr (LIT_INT 3)) 1 6), (advance_by 3 input_2_times_3_plus_4)) \<and>
   additive_op (type (current (advance_by 3 input_2_times_3_plus_4))) = Some OP_ADD \<and>
   parse_unary (parser_parse_expression 4) 3
     (parser_advance (advance_by 3 input_2_times_3_plus_4)) =
     Some (Some (AstNode (LiteralExpr (LIT_INT 4)) 1 10), (advance_by 5 input_2_times_3_plus_4)) \<and>
   multiplicative_op (type (current (advance_by 5 input_2_times_3_plus_4))) = None \<and>
   additive_op (type (current (advance_by 5 input_2_times_3_plus_4))) = None \<and>
   parse_term (parser_parse_expression 4) 4 input_2_times_3_plus_4 =
     Some
       (Some
          (AstNode
             (BinaryExpr OP_ADD
                (Some
                   (AstNode
                      (BinaryExpr OP_MUL (Some (AstNode (LiteralExpr (LIT_INT 2)) 1 2))
                         (Some (AstNode (LiteralExpr (LIT_INT 3)) 1 6)))
                      1 4))
                (Some (AstNode (LiteralExpr (LIT_INT 4)) 1 10)))
             1 8),
        \<lparr>lexer = \<lparr>pending = [], end_line = 1, end_column = 10\<rparr>,
                current = make_token TOKEN_EOF [] 1 10,
                previous = make_token TOKEN_INT ''4'' 1 10,
                had_error = False,
                panic_mode = False,
                reported = []\<rparr>) \<and>
   comparison_op (type (current (advance_by 5 input_2_times_3_plus_4))) = None \<and>
   equality_op (type (current (advance_by 5 input_2_times_3_plus_4))) = None \<and>
   logical_and_op (type (current (advance_by 5 input_2_times_3_plus_4))) = None \<and>
   logical_or_op (type (current (advance_by 5 input_2_times_3_plus_4))) = None \<and>
   parser_parse_expression 5 input_2_times_3_plus_4 =
     Some
       (Some
          (AstNode
             (BinaryExpr OP_ADD
                (Some
                   (AstNode
                      (BinaryExpr OP_MUL (Some (AstNode (LiteralExpr (LIT_INT 2)) 1 2))
                         (Some (AstNode (LiteralExpr (LIT_INT 3)) 1 6)))
                      1 4))
                (Some (AstNode (LiteralExpr (LIT_INT 4)) 1 10)))
             1 8),
        \<lparr>lexer = \<lparr>pending = [], end_line = 1, end_column = 10\<rparr>,
                current = make_token TOKEN_EOF [] 1 10,
                previous = make_token TOKEN_INT ''4'' 1 10,
                had_error = False,
                panic_mode = False,
                reported = []\<rparr>) \<and>
   parse_unary (parser_parse_expression 4) 4 input_2_times_paren_3_plus_4 =
     Some
       (Some (AstNode (LiteralExpr (LIT_INT 2)) 1 2), (advance_by 1 input_2_times_paren_3_plus_4)) \<and>
   multiplicative_op (type (current (advance_by 1 input_2_times_paren_3_plus_4))) = Some OP_MUL \<and>
   type (current (parser_advance (advance_by 1 input_2_times_paren_3_plus_4))) = TOKEN_LEFT_PAREN \<and>
   parser_parse_expression 4
     (parser_advance (parser_advance (advance_by 1 input_2_times_paren_3_plus_4))) =
     Some
       (Some
          (AstNode
             (BinaryExpr OP_ADD (Some (AstNode (LiteralExpr (LIT_INT 3)) 1 7))
                (Some (AstNode (LiteralExpr (LIT_INT 4)) 1 11)))
             1 9),
        (advance_by 6 input_2_times_paren_3_plus_4)) \<and>
   type (current (advance_by 6 input_2_times_paren_3_plus_4)) = TOKEN_RIGHT_PAREN \<and>
   type (current (parser_advance (advance_by 6 input_2_times_paren_3_plus_4))) \<notin>
     {TOKEN_LEFT_PAREN, TOKEN_LEFT_BRACKET, TOKEN_DOT} \<and>
   multiplicative_op
     (type (current (parser_advance (advance_by 6 input_2_times_paren_3_plus_4)))) =
     None \<and>
   additive_op (type (current (parser_advance (advance_by 6 input_2_times_paren_3_plus_4)))) =
     None \<and>
   parse_term (parser_parse_expression 4) 4 input_2_times_paren_3_plus_4 =
     Some
       (Some
          (AstNode
             (BinaryExpr OP_MUL (Some (AstNode (LiteralExpr (LIT_INT 2)) 1 2))
                (Some
                   (AstNode
                      (BinaryExpr OP_ADD (Some (AstNode (LiteralExpr (LIT_INT 3)) 1 7))
                         (Some (AstNode (LiteralExpr (LIT_INT 4)) 1 11)))
                      1 9)))
             1 4),
        \<lparr>lexer = \<lparr>pending = [], end_line = 1, end_column = 12\<rparr>,
                current = make_token TOKEN_EOF [] 1 12,
                previous = make_token TOKEN_RIGHT_PAREN '')'' 1 12,
                had_error = False,
                panic_mode = False,
                reported = []\<rparr>)"
proof -
  have ar: "(1::nat) + 3 = 4" "(1::nat) + 2 = 3" "(1::nat) + 1 = 2" "(2::nat) + 2 = 4"
    "(2::nat) + 1 = 3" "(3::nat) + 1 = 4" "(3::nat) + 2 = 5" "(4::nat) + 0 = 4"
    by simp_all
  have ha:
    "parse_unary (parser_parse_expression 4) 4 input_2_plus_3_times_4 =
       Some (Some (AstNode (LiteralExpr (LIT_INT 2)) 1 2), (advance_by 1 input_2_plus_3_times_4)) \<and>
     additive_op (type (current (advance_by 1 input_2_plus_3_times_4))) = Some OP_ADD \<and>
     parse_unary (parser_parse_expression 4) 3
       (parser_advance (advance_by 1 input_2_plus_3_times_4)) =
       Some (Some (AstNode (LiteralExpr (LIT_INT 3)) 1 6), (advance_by 3 input_2_plus_3_times_4)) \<and>
     multiplicative_op (type (current (advance_by 3 input_2_plus_3_times_4))) = Some OP_MUL \<and>
     parse_unary (parser_parse_expression 4) 2
       (parser_advance (advance_by 3 input_2_plus_3_times_4)) =
       Some (Some (AstNode (LiteralExpr (LIT_INT 4)) 1 10), (advance_by 5 input_2_plus_3_times_4)) \<and>
     multiplicative_op (type (current (advance_by 5 input_2_plus_3_times_4))) = None \<and>
     additive_op (type (current (advance_by 5 input_2_plus_3_times_4))) = None"
    by code_simp
  have va:
    "Some
       (Some
          (AstNode
             (BinaryExpr OP_ADD (Some (AstNode (LiteralExpr (LIT_INT 2)) 1 2))
                (Some
                   (AstNode
                      (BinaryExpr OP_MUL (Some (AstNode (LiteralExpr (LIT_INT 3)) 1 6))
                         (Some (AstNode (LiteralExpr (LIT_INT 4)) 1 10)))
                      (line (current (advance_by 3 input_2_plus_3_times_4)))
                      (column (current (advance_by 3 input_2_plus_3_times_4))))))
             (line (current (advance_by 1 input_2_plus_3_times_4)))
             (column (current (advance_by 1 input_2_plus_3_times_4)))),
        (advance_by 5 input_2_plus_3_times_4)) =
     Some
       (Some
          (AstNode
             (BinaryExpr OP_ADD (Some (AstNode (LiteralExpr (LIT_INT 2)) 1 2))
                (Some
                   (AstNode
                      (BinaryExpr OP_MUL (Some (AstNode (LiteralExpr (LIT_INT 3)) 1 6))
                         (Some (AstNode (LiteralExpr (LIT_INT 4)) 1 10)))
                      1 8)))
             1 4),
        \<lparr>lexer = \<lparr>pending = [], end_line = 1, end_column = 10\<rparr>,
                current = make_token TOKEN_EOF [] 1 10,
                previous = make_token TOKEN_INT ''4'' 1 10,
                had_error = False,
                panic_mode = False,
                reported = []\<rparr>)"
    by code_simp
  have ta:
    "parse_term (parser_parse_expression 4) 4 input_2_plus_3_times_4 =
     Some
       (Some
          (AstNode
             (BinaryExpr OP_ADD (Some (AstNode (LiteralExpr (LIT_INT 2)) 1 2))
                (Some
                   (AstNode
                      (BinaryExpr OP_MUL (Some (AstNode (LiteralExpr (LIT_INT 3)) 1 6))
                         (Some (AstNode (LiteralExpr (LIT_INT 4)) 1 10)))
                      (line (current (advance_by 3 input_2_plus_3_times_4)))
                      (column (current (advance_by 3 input_2_plus_3_times_4))))))
             (line (current (advance_by 1 input_2_plus_3_times_4)))
             (column (current (advance_by 1 input_2_plus_3_times_4)))),
        (advance_by 5 input_2_plus_3_times_4))"
    using precedence_of_multiplication_over_addition
      [where pe = "parser_parse_expression 4"
         and n = 1
         and p = "input_2_plus_3_times_4"
         and a = "Some (AstNode (LiteralExpr (LIT_INT 2)) 1 2)"
         and ?p1.0 = "(advance_by 1 input_2_plus_3_times_4)"
         and aop = OP_ADD
         and b = "Some (AstNode (LiteralExpr (LIT_INT 3)) 1 6)"
         and ?p2.0 = "(advance_by 3 input_2_plus_3_times_4)"
         and mop = OP_MUL
         and c = "Some (AstNode (LiteralExpr (LIT_INT 4)) 1 10)"
         and ?p3.0 = "(advance_by 5 input_2_plus_3_times_4)",
       unfolded ar, THEN conjunct2, THEN conjunct2, THEN conjunct2, THEN conjunct2,
       THEN conjunct2, THEN conjunct1]
      ha
    by blast
  have sa:
    "comparison_op (type (current (advance_by 5 input_2_plus_3_times_4))) = None \<and>
     equality_op (type (current (advance_by 5 input_2_plus_3_times_4))) = None \<and>
     logical_and_op (type (current (advance_by 5 input_2_plus_3_times_4))) = None \<and>
     logical_or_op (type (current (advance_by 5 input_2_plus_3_times_4))) = None"
    by code_simp
  have ea:
    "parser_parse_expression 5 input_2_plus_3_times_4 =
     Some
       (Some
          (AstNode
             (BinaryExpr OP_ADD (Some (AstNode (LiteralExpr (LIT_INT 2)) 1 2))
                (Some
                   (AstNode
                      (BinaryExpr OP_MUL (Some (AstNode (LiteralExpr (LIT_INT 3)) 1 6))
                         (Some (AstNode (LiteralExpr (LIT_INT 4)) 1 10)))
                      (line (current (advance_by 3 input_2_plus_3_times_4)))
                      (column (current (advance_by 3 input_2_plus_3_times_4))))))
             (line (current (advance_by 1 input_2_plus_3_times_4)))
             (column (current (advance_by 1 input_2_plus_3_times_4)))),
        (advance_by 5 input_2_plus_3_times_4))"
    using precedence_of_multiplication_over_addition
      [where n = 3
         and p = "input_2_plus_3_times_4"
         and r =
               "Some
                 (AstNode (BinaryExpr OP_ADD (Some (AstNode (LiteralExpr (LIT_INT 2)) 1 2)) (Some (AstNode (BinaryExpr OP_MUL (Some (AstNode (LiteralExpr (LIT_INT 3)) 1 6)) (Some (AstNode (LiteralExpr (LIT_INT 4)) 1 10))) (line (current (advance_by 3 input_2_plus_3_times_4))) (column (current (advance_by 3 input_2_plus_3_times_4)))))) (line (current (advance_by 1 input_2_plus_3_times_4))) (column (current (advance_by 1 input_2_plus_3_times_4))))"
         and p' = "(advance_by 5 input_2_plus_3_times_4)",
       unfolded ar, THEN conjunct2, THEN conjunct2, THEN conjunct2, THEN conjunct2,
       THEN conjunct2, THEN conjunct2, THEN conjunct2, THEN conjunct2,
       THEN conjunct2]
      ta sa
    by blast
  have hb:
    "type (current input_paren_2_plus_3_times_4) = TOKEN_LEFT_PAREN \<and>
     parser_parse_expression 4 (parser_advance input_paren_2_plus_3_times_4) =
       Some
         (Some
            (AstNode
               (BinaryExpr OP_ADD (Some (AstNode (LiteralExpr (LIT_INT 2)) 1 3))
                  (Some (AstNode (LiteralExpr (LIT_INT 3)) 1 7)))
               1 5),
          (advance_by 4 input_paren_2_plus_3_times_4)) \<and>
     type (current (advance_by 4 input_paren_2_plus_3_times_4)) = TOKEN_RIGHT_PAREN \<and>
     multiplicative_op
       (type (current (parser_advance (advance_by 4 input_paren_2_plus_3_times_4)))) =
       Some OP_MUL \<and>
     parse_unary (parser_parse_expression 4) 3
       (parser_advance (parser_advance (advance_by 4 input_paren_2_plus_3_times_4))) =
       Some
         (Some (AstNode (LiteralExpr (LIT_INT 4)) 1 12),
          (advance_by 7 input_paren_2_plus_3_times_4)) \<and>
     multiplicative_op (type (current (advance_by 7 input_paren_2_plus_3_times_4))) = None \<and>
     additive_op (type (current (advance_by 7 input_paren_2_plus_3_times_4))) = None"
    by code_simp
  have vb:
    "Some
       (Some
          (AstNode
             (BinaryExpr OP_MUL
                (Some
                   (AstNode
                      (BinaryExpr OP_ADD (Some (AstNode (LiteralExpr (LIT_INT 2)) 1 3))
                         (Some (AstNode (LiteralExpr (LIT_INT 3)) 1 7)))
                      1 5))
                (Some (AstNode (LiteralExpr (LIT_INT 4)) 1 12)))
             (line (current (parser_advance (advance_by 4 input_paren_2_plus_3_times_4))))
             (column (current (parser_advance (advance_by 4 input_paren_2_plus_3_times_4))))),
        (advance_by 7 input_paren_2_plus_3_times_4)) =
     Some
       (Some
          (AstNode
             (BinaryExpr OP_MUL
                (Some
                   (AstNode
                      (BinaryExpr OP_ADD (Some (AstNode (LiteralExpr (LIT_INT 2)) 1 3))
                         (Some (AstNode (LiteralExpr (LIT_INT 3)) 1 7)))
                      1 5))
                (Some (AstNode (LiteralExpr (LIT_INT 4)) 1 12)))
             1 10),
        \<lparr>lexer = \<lparr>pending = [], end_line = 1, end_column = 12\<rparr>,
                current = make_token TOKEN_EOF [] 1 12,
                previous = make_token TOKEN_INT ''4'' 1 12,
                had_error = False,
                panic_mode = False,
                reported = []\<rparr>)"
    by code_simp
  have tb:
    "parse_term (parser_parse_expression 4) 4 input_paren_2_plus_3_times_4 =
     Some
       (Some
          (AstNode
             (BinaryExpr OP_MUL
                (Some
                   (AstNode
                      (BinaryExpr OP_ADD (Some (AstNode (LiteralExpr (LIT_INT 2)) 1 3))
                         (Some (AstNode (LiteralExpr (LIT_INT 3)) 1 7)))
                      1 5))
                (Some (AstNode (LiteralExpr (LIT_INT 4)) 1 12)))
             (line (current (parser_advance (advance_by 4 input_paren_2_plus_3_times_4))))
             (column (current (parser_advance (advance_by 4 input_paren_2_plus_3_times_4))))),
        (advance_by 7 input_paren_2_plus_3_times_4))"
    using precedence_of_multiplication_over_addition
      [where pe = "parser_parse_expression 4"
         and n = 2
         and p = "input_paren_2_plus_3_times_4"
         and e =
               "(AstNode (BinaryExpr OP_ADD (Some (AstNode (LiteralExpr (LIT_INT 2)) 1 3)) (Some (AstNode (LiteralExpr (LIT_INT 3)) 1 7))) 1 5)"
         and q = "(advance_by 4 input_paren_2_plus_3_times_4)"
         and mop = OP_MUL
         and c = "Some (AstNode (LiteralExpr (LIT_INT 4)) 1 12)"
         and ?p3.0 = "(advance_by 7 input_paren_2_plus_3_times_4)",
       unfolded ar, THEN conjunct2, THEN conjunct2, THEN conjunct2, THEN conjunct2,
       THEN conjunct2, THEN conjunct2, THEN conjunct2, THEN conjunct1]
      hb
    by blast
  have xb:
    "parser_parse_primary (parser_parse_expression 4) 4 input_paren_2_plus_3_times_4 =
       Some
         (Some
            (AstNode
               (BinaryExpr OP_ADD (Some (AstNode (LiteralExpr (LIT_INT 2)) 1 3))
                  (Some (AstNode (LiteralExpr (LIT_INT 3)) 1 7)))
               1 5),
          (parser_advance (advance_by 4 input_paren_2_plus_3_times_4)))"
    using precedence_of_multiplication_over_addition
      [where pe = "parser_parse_expression 4"
         and n = 4
         and p = "input_paren_2_plus_3_times_4"
         and e =
               "(AstNode (BinaryExpr OP_ADD (Some (AstNode (LiteralExpr (LIT_INT 2)) 1 3)) (Some (AstNode (LiteralExpr (LIT_INT 3)) 1 7))) 1 5)"
         and q = "(advance_by 4 input_paren_2_plus_3_times_4)"
         and mop = OP_MUL
         and c = "Some (AstNode (LiteralExpr (LIT_INT 4)) 1 12)"
         and ?p3.0 = "(advance_by 7 input_paren_2_plus_3_times_4)",
       THEN conjunct2, THEN conjunct2, THEN conjunct2, THEN conjunct2,
       THEN conjunct1]
      hb
    by blast
  have sb:
    "comparison_op (type (current (advance_by 7 input_paren_2_plus_3_times_4))) = None \<and>
     equality_op (type (current (advance_by 7 input_paren_2_plus_3_times_4))) = None \<and>
     logical_and_op (type (current (advance_by 7 input_paren_2_plus_3_times_4))) = None \<and>
     logical_or_op (type (current (advance_by 7 input_paren_2_plus_3_times_4))) = None"
    by code_simp
  have eb:
    "parser_parse_expression 5 input_paren_2_plus_3_times_4 =
     Some
       (Some
          (AstNode
             (BinaryExpr OP_MUL
                (Some
                   (AstNode
                      (BinaryExpr OP_ADD (Some (AstNode (LiteralExpr (LIT_INT 2)) 1 3))
                         (Some (AstNode (LiteralExpr (LIT_INT 3)) 1 7)))
                      1 5))
                (Some (AstNode (LiteralExpr (LIT_INT 4)) 1 12)))
             (line (current (parser_advance (advance_by 4 input_paren_2_plus_3_times_4))))
             (column (current (parser_advance (advance_by 4 input_paren_2_plus_3_times_4))))),
        (advance_by 7 input_paren_2_plus_3_times_4))"
    using precedence_of_multiplication_over_addition
      [where n = 3
         and p = "input_paren_2_plus_3_times_4"
         and r =
               "Some
                 (AstNode (BinaryExpr OP_MUL (Some (AstNode (BinaryExpr OP_ADD (Some (AstNode (LiteralExpr (LIT_INT 2)) 1 3)) (Some (AstNode (LiteralExpr (LIT_INT 3)) 1 7))) 1 5)) (Some (AstNode (LiteralExpr (LIT_INT 4)) 1 12))) (line (current (parser_advance (advance_by 4 input_paren_2_plus_3_times_4)))) (column (current (parser_advance (advance_by 4 input_paren_2_plus_3_times_4)))))"
         and p' = "(advance_by 7 input_paren_2_plus_3_times_4)",
       unfolded ar, THEN conjunct2, THEN conjunct2, THEN conjunct2, THEN conjunct2,
       THEN conjunct2, THEN conjunct2, THEN conjunct2, THEN conjunct2,
       THEN conjunct2]
      tb sb
    by blast
  have hc:
    "parse_unary (parser_parse_expression 4) 4 input_2_times_3_plus_4 =
       Some (Some (AstNode (LiteralExpr (LIT_INT 2)) 1 2), (advance_by 1 input_2_times_3_plus_4)) \<and>
     multiplicative_op (type (current (advance_by 1 input_2_times_3_plus_4))) = Some OP_MUL \<and>
     parse_unary (parser_parse_expression 4) 3
       (parser_advance (advance_by 1 input_2_times_3_plus_4)) =
       Some (Some (AstNode (LiteralExpr (LIT_INT 3)) 1 6), (advance_by 3 input_2_times_3_plus_4)) \<and>
     additive_op (type (current (advance_by 3 input_2_times_3_plus_4))) = Some OP_ADD \<and>
     parse_unary (parser_parse_expression 4) 3
       (parser_advance (advance_by 3 input_2_times_3_plus_4)) =
       Some (Some (AstNode (LiteralExpr (LIT_INT 4)) 1 10), (advance_by 5 input_2_times_3_plus_4)) \<and>
     multiplicative_op (type (current (advance_by 5 input_2_times_3_plus_4))) = None \<and>
     additive_op (type (current (advance_by 5 input_2_times_3_plus_4))) = None"
    by code_simp
  have vc:
    "Some
       (Some
          (AstNode
             (BinaryExpr OP_ADD
                (Some
                   (AstNode
                      (BinaryExpr OP_MUL (Some (AstNode (LiteralExpr (LIT_INT 2)) 1 2))
                         (Some (AstNode (LiteralExpr (LIT_INT 3)) 1 6)))
                      (line (current (advance_by 1 input_2_times_3_plus_4)))
                      (column (current (advance_by 1 input_2_times_3_plus_4)))))
                (Some (AstNode (LiteralExpr (LIT_INT 4)) 1 10)))
             (line (current (advance_by 3 input_2_times_3_plus_4)))
             (column (current (advance_by 3 input_2_times_3_plus_4)))),
        (advance_by 5 input_2_times_3_plus_4)) =
     Some
       (Some
          (AstNode
             (BinaryExpr OP_ADD
                (Some
                   (AstNode
                      (BinaryExpr OP_MUL (Some (AstNode (LiteralExpr (LIT_INT 2)) 1 2))
                         (Some (AstNode (LiteralExpr (LIT_INT 3)) 1 6)))
                      1 4))
                (Some (AstNode (LiteralExpr (LIT_INT 4)) 1 10)))
             1 8),
        \<lparr>lexer = \<lparr>pending = [], end_line = 1, end_column = 10\<rparr>,
                current = make_token TOKEN_EOF [] 1 10,
                previous = make_token TOKEN_INT ''4'' 1 10,
                had_error = False,
                panic_mode = False,
                reported = []\<rparr>)"
    by code_simp
  have tc:
    "parse_term (parser_parse_expression 4) 4 input_2_times_3_plus_4 =
     Some
       (Some
          (AstNode
             (BinaryExpr OP_ADD
                (Some
                   (AstNode
                      (BinaryExpr OP_MUL (Some (AstNode (LiteralExpr (LIT_INT 2)) 1 2))
                         (Some (AstNode (LiteralExpr (LIT_INT 3)) 1 6)))
                      (line (current (advance_by 1 input_2_times_3_plus_4)))
                      (column (current (advance_by 1 input_2_times_3_plus_4)))))
                (Some (AstNode (LiteralExpr (LIT_INT 4)) 1 10)))
             (line (current (advance_by 3 input_2_times_3_plus_4)))
             (column (current (advance_by 3 input_2_times_3_plus_4)))),
        (advance_by 5 input_2_times_3_plus_4))"
    using precedence_of_multiplication_over_addition
      [where pe = "parser_parse_expression 4"
         and n = 2
         and p = "input_2_times_3_plus_4"
         and a = "Some (AstNode (LiteralExpr (LIT_INT 2)) 1 2)"
         and ?p1.0 = "(advance_by 1 input_2_times_3_plus_4)"
         and mop = OP_MUL
         and b = "Some (AstNode (LiteralExpr (LIT_INT 3)) 1 6)"
         and ?p2.0 = "(advance_by 3 input_2_times_3_plus_4)"
         and aop = OP_ADD
         and c = "Some (AstNode (LiteralExpr (LIT_INT 4)) 1 10)"
         and ?p3.0 = "(advance_by 5 input_2_times_3_plus_4)",
       unfolded ar, THEN conjunct2, THEN conjunct2, THEN conjunct2, THEN conjunct2,
       THEN conjunct2, THEN conjunct2, THEN conjunct1]
      hc
    by blast
  have sc:
    "comparison_op (type (current (advance_by 5 input_2_times_3_plus_4))) = None \<and>
     equality_op (type (current (advance_by 5 input_2_times_3_plus_4))) = None \<and>
     logical_and_op (type (current (advance_by 5 input_2_times_3_plus_4))) = None \<and>
     logical_or_op (type (current (advance_by 5 input_2_times_3_plus_4))) = None"
    by code_simp
  have ec:
    "parser_parse_expression 5 input_2_times_3_plus_4 =
     Some
       (Some
          (AstNode
             (BinaryExpr OP_ADD
                (Some
                   (AstNode
                      (BinaryExpr OP_MUL (Some (AstNode (LiteralExpr (LIT_INT 2)) 1 2))
                         (Some (AstNode (LiteralExpr (LIT_INT 3)) 1 6)))
                      (line (current (advance_by 1 input_2_times_3_plus_4)))
                      (column (current (advance_by 1 input_2_times_3_plus_4)))))
                (Some (AstNode (LiteralExpr (LIT_INT 4)) 1 10)))
             (line (current (advance_by 3 input_2_times_3_plus_4)))
             (column (current (advance_by 3 input_2_times_3_plus_4)))),
        (advance_by 5 input_2_times_3_plus_4))"
    using precedence_of_multiplication_over_addition
      [where n = 3
         and p = "input_2_times_3_plus_4"
         and r =
               "Some
                 (AstNode (BinaryExpr OP_ADD (Some (AstNode (BinaryExpr OP_MUL (Some (AstNode (LiteralExpr (LIT_INT 2)) 1 2)) (Some (AstNode (LiteralExpr (LIT_INT 3)) 1 6))) (line (current (advance_by 1 input_2_times_3_plus_4))) (column (current (advance_by 1 input_2_times_3_plus_4))))) (Some (AstNode (LiteralExpr (LIT_INT 4)) 1 10))) (line (current (advance_by 3 input_2_times_3_plus_4))) (column (current (advance_by 3 input_2_times_3_plus_4))))"
         and p' = "(advance_by 5 input_2_times_3_plus_4)",
       unfolded ar, THEN conjunct2, THEN conjunct2, THEN conjunct2, THEN conjunct2,
       THEN conjunct2, THEN conjunct2, THEN conjunct2, THEN conjunct2,
       THEN conjunct2]
      tc sc
    by blast
  have hd:
    "parse_unary (parser_parse_expression 4) 4 input_2_times_paren_3_plus_4 =
       Some
         (Some (AstNode (LiteralExpr (LIT_INT 2)) 1 2),
          (advance_by 1 input_2_times_paren_3_plus_4)) \<and>
     multiplicative_op (type (current (advance_by 1 input_2_times_paren_3_plus_4))) = Some OP_MUL \<and>
     type (current (parser_advance (advance_by 1 input_2_times_paren_3_plus_4))) =
       TOKEN_LEFT_PAREN \<and>
     parser_parse_expression 4
       (parser_advance (parser_advance (advance_by 1 input_2_times_paren_3_plus_4))) =
       Some
         (Some
            (AstNode
               (BinaryExpr OP_ADD (Some (AstNode (LiteralExpr (LIT_INT 3)) 1 7))
                  (Some (AstNode (LiteralExpr (LIT_INT 4)) 1 11)))
               1 9),
          (advance_by 6 input_2_times_paren_3_plus_4)) \<and>
     type (current (advance_by 6 input_2_times_paren_3_plus_4)) = TOKEN_RIGHT_PAREN \<and>
     type (current (parser_advance (advance_by 6 input_2_times_paren_3_plus_4))) \<notin>
       {TOKEN_LEFT_PAREN, TOKEN_LEFT_BRACKET, TOKEN_DOT} \<and>
     multiplicative_op
       (type (current (parser_advance (advance_by 6 input_2_times_paren_3_plus_4)))) =
       None \<and>
     additive_op (type (current (parser_advance (advance_by 6 input_2_times_paren_3_plus_4)))) =
       None"
    by code_simp
  have vd:
    "Some
       (Some
          (AstNode
             (BinaryExpr OP_MUL (Some (AstNode (LiteralExpr (LIT_INT 2)) 1 2))
                (Some
                   (AstNode
                      (BinaryExpr OP_ADD (Some (AstNode (LiteralExpr (LIT_INT 3)) 1 7))
                         (Some (AstNode (LiteralExpr (LIT_INT 4)) 1 11)))
                      1 9)))
             (line (current (advance_by 1 input_2_times_paren_3_plus_4)))
             (column (current (advance_by 1 input_2_times_paren_3_plus_4)))),
        (parser_advance (advance_by 6 input_2_times_paren_3_plus_4))) =
     Some
       (Some
          (AstNode
             (BinaryExpr OP_MUL (Some (AstNode (LiteralExpr (LIT_INT 2)) 1 2))
                (Some
                   (AstNode
                      (BinaryExpr OP_ADD (Some (AstNode (LiteralExpr (LIT_INT 3)) 1 7))
                         (Some (AstNode (LiteralExpr (LIT_INT 4)) 1 11)))
                      1 9)))
             1 4),
        \<lparr>lexer = \<lparr>pending = [], end_line = 1, end_column = 12\<rparr>,
                current = make_token TOKEN_EOF [] 1 12,
                previous = make_token TOKEN_RIGHT_PAREN '')'' 1 12,
                had_error = False,
                panic_mode = False,
                reported = []\<rparr>)"
    by code_simp
  have td:
    "parse_term (parser_parse_expression 4) 4 input_2_times_paren_3_plus_4 =
     Some
       (Some
          (AstNode
             (BinaryExpr OP_MUL (Some (AstNode (LiteralExpr (LIT_INT 2)) 1 2))
                (Some
                   (AstNode
                      (BinaryExpr OP_ADD (Some (AstNode (LiteralExpr (LIT_INT 3)) 1 7))
                         (Some (AstNode (LiteralExpr (LIT_INT 4)) 1 11)))
                      1 9)))
             (line (current (advance_by 1 input_2_times_paren_3_plus_4)))
             (column (current (advance_by 1 input_2_times_paren_3_plus_4)))),
        (parser_advance (advance_by 6 input_2_times_paren_3_plus_4)))"
    using precedence_of_multiplication_over_addition
      [where pe = "parser_parse_expression 4"
         and n = 1
         and p = "input_2_times_paren_3_plus_4"
         and a = "Some (AstNode (LiteralExpr (LIT_INT 2)) 1 2)"
         and ?p1.0 = "(advance_by 1 input_2_times_paren_3_plus_4)"
         and mop = OP_MUL
         and e =
               "(AstNode (BinaryExpr OP_ADD (Some (AstNode (LiteralExpr (LIT_INT 3)) 1 7)) (Some (AstNode (LiteralExpr (LIT_INT 4)) 1 11))) 1 9)"
         and q = "(advance_by 6 input_2_times_paren_3_plus_4)",
       unfolded ar, THEN conjunct2, THEN conjunct2, THEN conjunct2, THEN conjunct2,
       THEN conjunct2, THEN conjunct2, THEN conjunct2, THEN conjunct2,
       THEN conjunct1]
      hd
    by blast
  show ?thesis
    using ha ta[unfolded va] sa ea[unfolded va] hb tb[unfolded vb] xb sb eb[unfolded vb] hc tc[unfolded vc] sc ec[unfolded vc] hd td[unfolded vd]
    by blast
qed

section \<open>Declarations and expression statements\<close>

text \<open>
  C5. In statement position, with \<open>parser_parse_statement\<close>:
  an identifier followed by \<open>=\<close> gives a variable declaration with the identifier as
  name, no declared type, and as initializer whatever \<open>parser_parse_expression\<close> yields
  after the \<open>=\<close> (the statement returns exactly when the expression does);
  an identifier followed by \<open>:\<close>, a type-name identifier and \<open>=\<close> gives a variable
  declaration whose declared type is that type name;
  after the \<open>:\<close> the type name and the \<open>=\<close> are required, in that a statement
  lacking one of them ends with \<open>had_error\<close> set;
  and an identifier followed by anything else gives an expression statement around the
  result of \<open>parse_postfix_continue\<close> on the identifier node.
\<close>

theorem identifier_statement_forms:
  "(type (current p) = TOKEN_IDENTIFIER \<and>
    type (current (parser_advance p)) = TOKEN_EQUAL \<longrightarrow>
      parser_parse_statement (Suc n) p =
        (case parser_parse_expression n (parser_advance (parser_advance p)) of
           None \<Rightarrow> None
         | Some (v, q) \<Rightarrow>
             Some (Some (AstNode (VarDecl (lexeme (current p)) None v)
                           (line (current p)) (column (current p))), q)))
   \<and>
   (type (current p) = TOKEN_IDENTIFIER \<and>
    type (current (parser_advance p)) = TOKEN_COLON \<and>
    type (current (parser_advance (parser_advance p))) = TOKEN_IDENTIFIER \<and>
    type (current (parser_advance (parser_advance (parser_advance p)))) = TOKEN_EQUAL \<longrightarrow>
      parser_parse_statement (Suc n) p =
        (case parser_parse_expression n
                (parser_advance (parser_advance (parser_advance (parser_advance p)))) of
           None \<Rightarrow> None
         | Some (init, q) \<Rightarrow>
             Some (Some (AstNode
                           (VarDecl (lexeme (current p))
                              (Some (lexeme (current (parser_advance (parser_advance p)))))
                              init)
                           (line (current p)) (column (current p))), q)))
   \<and>
   (type (current p) = TOKEN_IDENTIFIER \<and>
    type (current (parser_advance p)) = TOKEN_COLON \<and>
    (type (current (parser_advance (parser_advance p))) \<noteq> TOKEN_IDENTIFIER \<or>
     type (current (parser_advance (parser_advance (parser_advance p)))) \<noteq> TOKEN_EQUAL) \<and>
    (panic_mode (parser_advance (parser_advance p)) \<longrightarrow>
       had_error (parser_advance (parser_advance p))) \<and>
    parser_parse_statement (Suc n) p = Some (r, q) \<longrightarrow>
      had_error q)
   \<and>
   (type (current p) = TOKEN_IDENTIFIER \<and>
    type (current (parser_advance p)) \<notin> {TOKEN_COLON, TOKEN_EQUAL} \<longrightarrow>
      parser_parse_statement (Suc n) p =
        (case parse_postfix_continue (parser_parse_expression n) n (parser_advance p)
                (Some (AstNode (IdentifierExpr (lexeme (current p)))
                         (line (current p)) (column (current p)))) of
           None \<Rightarrow> None
         | Some (expr, q) \<Rightarrow>
             Some (Some (AstNode (ExprStmt expr)
                           (node_line (the expr)) (node_column (the expr))), q)))"
proof -
  let ?p1 = "parser_advance p"
  let ?p2 = "parser_advance ?p1"
  let ?p3 = "parser_advance ?p2"
  let ?p4 = "parser_advance ?p3"
  have a: "parser_parse_statement (Suc n) p =
        (case parser_parse_expression n ?p2 of
           None \<Rightarrow> None
         | Some (v, q) \<Rightarrow>
             Some (Some (AstNode (VarDecl (lexeme (current p)) None v)
                           (line (current p)) (column (current p))), q))"
    if "type (current p) = TOKEN_IDENTIFIER" "type (current ?p1) = TOKEN_EQUAL"
    using that
    by (simp add: vc_simps string_dup_n_def ast_create_var_decl_def
             del: parser_parse_expression.simps split: option.splits)
  have b: "parser_parse_statement (Suc n) p =
        (case parser_parse_expression n ?p4 of
           None \<Rightarrow> None
         | Some (init, q) \<Rightarrow>
             Some (Some (AstNode
                           (VarDecl (lexeme (current p)) (Some (lexeme (current ?p2))) init)
                           (line (current p)) (column (current p))), q))"
    if "type (current p) = TOKEN_IDENTIFIER" "type (current ?p1) = TOKEN_COLON"
       "type (current ?p2) = TOKEN_IDENTIFIER" "type (current ?p3) = TOKEN_EQUAL"
    using that
    by (simp add: vc_simps string_dup_n_def ast_create_var_decl_def
             del: parser_parse_expression.simps split: option.splits)
  have c: "had_error q"
    if h: "type (current p) = TOKEN_IDENTIFIER" "type (current ?p1) = TOKEN_COLON"
       "type (current ?p2) \<noteq> TOKEN_IDENTIFIER \<or> type (current ?p3) \<noteq> TOKEN_EQUAL"
       "panic_mode ?p2 \<longrightarrow> had_error ?p2"
       "parser_parse_statement (Suc n) p = Some (r, q)"
  proof -
    obtain t x where x: "parser_expect
              (snd (parser_expect ?p2 TOKEN_IDENTIFIER ''Expected type name''))
              TOKEN_EQUAL ''Expected '=' after type'' = (t, x)"
      by (cases "parser_expect
              (snd (parser_expect ?p2 TOKEN_IDENTIFIER ''Expected type name''))
              TOKEN_EQUAL ''Expected '=' after type''") auto
    have run: "\<exists>init. parser_parse_expression n x = Some (init, q)"
      using h(1,2,5) x
      by (auto simp: Let_def parser_check_def simp del: parser_parse_expression.simps
               split: prod.splits Option.bind_splits)
    have "had_error x"
    proof (cases "type (current ?p2) = TOKEN_IDENTIFIER")
      case True
      with h(3) have ne: "type (current ?p3) \<noteq> TOKEN_EQUAL" by simp
      have "panic_mode ?p3 \<longrightarrow> had_error ?p3"
        using follows_advance[of ?p2] h(4) by (simp add: follows_def)
      with True ne x show ?thesis
        by (auto simp: parser_expect_def Let_def intro: had_error_error_at_current)
    next
      case False
      let ?e = "parser_error_at_current ?p2 ''Expected type name''"
      have "had_error ?e"
        using h(4) by (rule had_error_error_at_current)
      moreover have "follows ?e x"
        using False x
        by (auto simp: parser_expect_def Let_def follows_steps split: if_splits)
      ultimately show ?thesis
        by (rule follows_had_error[rotated])
    qed
    with run show ?thesis
      by (auto dest: expression_follows follows_had_error)
  qed
  have d: "parser_parse_statement (Suc n) p =
        (case parse_postfix_continue (parser_parse_expression n) n ?p1
                (Some (AstNode (IdentifierExpr (lexeme (current p)))
                         (line (current p)) (column (current p)))) of
           None \<Rightarrow> None
         | Some (expr, q) \<Rightarrow>
             Some (Some (AstNode (ExprStmt expr)
                           (node_line (the expr)) (node_column (the expr))), q))"
    if "type (current p) = TOKEN_IDENTIFIER"
       "type (current ?p1) \<notin> {TOKEN_COLON, TOKEN_EQUAL}"
    using that
    by (simp add: vc_simps string_dup_n_def ast_create_identifier_def ast_create_expr_stmt_def
             del: parser_parse_expression.simps split: option.splits)
  from a b c d show ?thesis by blast
qed


theorem identifier_statement_forms_witness:
  "type (current (parser_on
          [make_token TOKEN_IDENTIFIER ''x'' 1 2,
           make_token TOKEN_EQUAL ''='' 1 4,
           make_token TOKEN_INT ''42'' 1 7] 1 7)) = TOKEN_IDENTIFIER \<and>
   type (current (parser_advance (parser_on
          [make_token TOKEN_IDENTIFIER ''x'' 1 2,
           make_token TOKEN_EQUAL ''='' 1 4,
           make_token TOKEN_INT ''42'' 1 7] 1 7))) = TOKEN_EQUAL \<and>
   parser_parse_statement 5 (parser_on
          [make_token TOKEN_IDENTIFIER ''x'' 1 2,
           make_token TOKEN_EQUAL ''='' 1 4,
           make_token TOKEN_INT ''42'' 1 7] 1 7) =
     Some (Some (AstNode
                   (VarDecl ''x'' None (Some (AstNode (LiteralExpr (LIT_INT 42)) 1 7)))
                   1 2),
       \<lparr>lexer = \<lparr>pending = [], end_line = 1, end_column = 7\<rparr>,
          current = make_token TOKEN_EOF [] 1 7,
          previous = make_token TOKEN_INT ''42'' 1 7,
          had_error = False, panic_mode = False, reported = []\<rparr>) \<and>
   type (current (parser_advance (parser_on
          [make_token TOKEN_IDENTIFIER ''x'' 1 2,
           make_token TOKEN_COLON '':'' 1 3,
           make_token TOKEN_IDENTIFIER ''int'' 1 7,
           make_token TOKEN_EQUAL ''='' 1 9,
           make_token TOKEN_INT ''42'' 1 12] 1 12))) = TOKEN_COLON \<and>
   type (current (parser_advance (parser_advance (parser_on
          [make_token TOKEN_IDENTIFIER ''x'' 1 2,
           make_token TOKEN_COLON '':'' 1 3,
           make_token TOKEN_IDENTIFIER ''int'' 1 7,
           make_token TOKEN_EQUAL ''='' 1 9,
           make_token TOKEN_INT ''42'' 1 12] 1 12)))) = TOKEN_IDENTIFIER \<and>
   type (current (parser_advance (parser_advance (parser_advance (parser_on
          [make_token TOKEN_IDENTIFIER ''x'' 1 2,
           make_token TOKEN_COLON '':'' 1 3,
           make_token TOKEN_IDENTIFIER ''int'' 1 7,
           make_token TOKEN_EQUAL ''='' 1 9,
           make_token TOKEN_INT ''42'' 1 12] 1 12))))) = TOKEN_EQUAL \<and>
   parser_parse_statement 5 (parser_on
          [make_token TOKEN_IDENTIFIER ''x'' 1 2,
           make_token TOKEN_COLON '':'' 1 3,
           make_token TOKEN_IDENTIFIER ''int'' 1 7,
           make_token TOKEN_EQUAL ''='' 1 9,
           make_token TOKEN_INT ''42'' 1 12] 1 12) =
     Some (Some (AstNode
                   (VarDecl ''x'' (Some ''int'')
                      (Some (AstNode (LiteralExpr (LIT_INT 42)) 1 12)))
                   1 2),
       \<lparr>lexer = \<lparr>pending = [], end_line = 1, end_column = 12\<rparr>,
          current = make_token TOKEN_EOF [] 1 12,
          previous = make_token TOKEN_INT ''42'' 1 12,
          had_error = False, panic_mode = False, reported = []\<rparr>) \<and>
   type (current (parser_advance (parser_advance (parser_advance (parser_on
          [make_token TOKEN_IDENTIFIER ''x'' 1 2,
           make_token TOKEN_COLON '':'' 1 3,
           make_token TOKEN_IDENTIFIER ''int'' 1 7,
           make_token TOKEN_INT ''42'' 1 10] 1 10))))) \<noteq> TOKEN_EQUAL \<and>
   \<not> panic_mode (parser_advance (parser_advance (parser_on
          [make_token TOKEN_IDENTIFIER ''x'' 1 2,
           make_token TOKEN_COLON '':'' 1 3,
           make_token TOKEN_IDENTIFIER ''int'' 1 7,
           make_token TOKEN_INT ''42'' 1 10] 1 10))) \<and>
   parser_parse_statement 5 (parser_on
          [make_token TOKEN_IDENTIFIER ''x'' 1 2,
           make_token TOKEN_COLON '':'' 1 3,
           make_token TOKEN_IDENTIFIER ''int'' 1 7,
           make_token TOKEN_INT ''42'' 1 10] 1 10) =
     Some (Some (AstNode
                   (VarDecl ''x'' (Some ''int'')
                      (Some (AstNode (LiteralExpr (LIT_INT 42)) 1 10)))
                   1 2),
       \<lparr>lexer = \<lparr>pending = [], end_line = 1, end_column = 10\<rparr>,
          current = make_token TOKEN_EOF [] 1 10,
          previous = make_token TOKEN_INT ''42'' 1 10,
          had_error = True, panic_mode = True,
          reported = [(make_token TOKEN_INT ''42'' 1 10, ''Expected '=' after type'')]\<rparr>) \<and>
   type (current (parser_advance (parser_on
          [make_token TOKEN_IDENTIFIER ''x'' 1 2,
           make_token TOKEN_DOT ''.'' 1 3,
           make_token TOKEN_IDENTIFIER ''y'' 1 4] 1 4))) \<notin> {TOKEN_COLON, TOKEN_EQUAL} \<and>
   parser_parse_statement 5 (parser_on
          [make_token TOKEN_IDENTIFIER ''x'' 1 2,
           make_token TOKEN_DOT ''.'' 1 3,
           make_token TOKEN_IDENTIFIER ''y'' 1 4] 1 4) =
     Some (Some (AstNode
                   (ExprStmt
                      (Some (AstNode
                               (MemberExpr (Some (AstNode (IdentifierExpr ''x'') 1 2)) ''y'')
                               1 4)))
                   1 4),
       \<lparr>lexer = \<lparr>pending = [], end_line = 1, end_column = 4\<rparr>,
          current = make_token TOKEN_EOF [] 1 4,
          previous = make_token TOKEN_IDENTIFIER ''y'' 1 4,
          had_error = False, panic_mode = False, reported = []\<rparr>)"
proof -
  let ?a = "(parser_on
          [make_token TOKEN_IDENTIFIER ''x'' 1 2,
           make_token TOKEN_EQUAL ''='' 1 4,
           make_token TOKEN_INT ''42'' 1 7] 1 7)"
  let ?b = "(parser_on
          [make_token TOKEN_IDENTIFIER ''x'' 1 2,
           make_token TOKEN_COLON '':'' 1 3,
           make_token TOKEN_IDENTIFIER ''int'' 1 7,
           make_token TOKEN_EQUAL ''='' 1 9,
           make_token TOKEN_INT ''42'' 1 12] 1 12)"
  let ?c = "(parser_on
          [make_token TOKEN_IDENTIFIER ''x'' 1 2,
           make_token TOKEN_COLON '':'' 1 3,
           make_token TOKEN_IDENTIFIER ''int'' 1 7,
           make_token TOKEN_INT ''42'' 1 10] 1 10)"
  let ?d = "(parser_on
          [make_token TOKEN_IDENTIFIER ''x'' 1 2,
           make_token TOKEN_DOT ''.'' 1 3,
           make_token TOKEN_IDENTIFIER ''y'' 1 4] 1 4)"
  have ha: "type (current ?a) = TOKEN_IDENTIFIER \<and>
            type (current (parser_advance ?a)) = TOKEN_EQUAL"
    by code_simp
  have va: "parser_parse_expression 4 (parser_advance (parser_advance ?a)) =
     Some (Some (AstNode (LiteralExpr (LIT_INT 42)) 1 7),
       \<lparr>lexer = \<lparr>pending = [], end_line = 1, end_column = 7\<rparr>,
          current = make_token TOKEN_EOF [] 1 7,
          previous = make_token TOKEN_INT ''42'' 1 7,
          had_error = False, panic_mode = False, reported = []\<rparr>)"
    by code_simp
  have ta: "lexeme (current ?a) = ''x'' \<and> line (current ?a) = 1 \<and> column (current ?a) = 2"
    by code_simp
  have hb: "type (current ?b) = TOKEN_IDENTIFIER \<and>
            type (current (parser_advance ?b)) = TOKEN_COLON \<and>
            type (current (parser_advance (parser_advance ?b))) = TOKEN_IDENTIFIER \<and>
            type (current (parser_advance (parser_advance (parser_advance ?b)))) = TOKEN_EQUAL"
    by code_simp
  have vb: "parser_parse_expression 4
              (parser_advance (parser_advance (parser_advance (parser_advance ?b)))) =
     Some (Some (AstNode (LiteralExpr (LIT_INT 42)) 1 12),
       \<lparr>lexer = \<lparr>pending = [], end_line = 1, end_column = 12\<rparr>,
          current = make_token TOKEN_EOF [] 1 12,
          previous = make_token TOKEN_INT ''42'' 1 12,
          had_error = False, panic_mode = False, reported = []\<rparr>)"
    by code_simp
  have tb: "lexeme (current ?b) = ''x'' \<and> line (current ?b) = 1 \<and> column (current ?b) = 2 \<and>
            lexeme (current (parser_advance (parser_advance ?b))) = ''int''"
    by code_simp
  have hc: "type (current ?c) = TOKEN_IDENTIFIER \<and>
            type (current (parser_advance ?c)) = TOKEN_COLON \<and>
            type (current (parser_advance (parser_advance (parser_advance ?c)))) \<noteq> TOKEN_EQUAL \<and>
            \<not> panic_mode (parser_advance (parser_advance ?c))"
    by code_simp
  have vc: "parser_parse_statement 5 ?c =
     Some (Some (AstNode
                   (VarDecl ''x'' (Some ''int'')
                      (Some (AstNode (LiteralExpr (LIT_INT 42)) 1 10)))
                   1 2),
       \<lparr>lexer = \<lparr>pending = [], end_line = 1, end_column = 10\<rparr>,
          current = make_token TOKEN_EOF [] 1 10,
          previous = make_token TOKEN_INT ''42'' 1 10,
          had_error = True, panic_mode = True,
          reported = [(make_token TOKEN_INT ''42'' 1 10, ''Expected '=' after type'')]\<rparr>)"
    by code_simp
  have hd: "type (current ?d) = TOKEN_IDENTIFIER \<and>
            type (current (parser_advance ?d)) \<notin> {TOKEN_COLON, TOKEN_EQUAL}"
    by code_simp
  have vd: "parse_postfix_continue (parser_parse_expression 4) 4 (parser_advance ?d)
              (Some (AstNode (IdentifierExpr (lexeme (current ?d)))
                       (line (current ?d)) (column (current ?d)))) =
     Some (Some (AstNode
                   (MemberExpr (Some (AstNode (IdentifierExpr ''x'') 1 2)) ''y'') 1 4),
       \<lparr>lexer = \<lparr>pending = [], end_line = 1, end_column = 4\<rparr>,
          current = make_token TOKEN_EOF [] 1 4,
          previous = make_token TOKEN_IDENTIFIER ''y'' 1 4,
          had_error = False, panic_mode = False, reported = []\<rparr>)"
    by code_simp
  have n5: "(5::nat) = Suc 4"
    by simp
  have ra: "parser_parse_statement (Suc 4) ?a =
        (case parser_parse_expression 4 (parser_advance (parser_advance ?a)) of
           None \<Rightarrow> None
         | Some (v, q) \<Rightarrow>
             Some (Some (AstNode (VarDecl (lexeme (current ?a)) None v)
                           (line (current ?a)) (column (current ?a))), q))"
    using identifier_statement_forms[where p = ?a and n = 4] ha by blast
  have rb: "parser_parse_statement (Suc 4) ?b =
        (case parser_parse_expression 4
                (parser_advance (parser_advance (parser_advance (parser_advance ?b)))) of
           None \<Rightarrow> None
         | Some (init, q) \<Rightarrow>
             Some (Some (AstNode
                           (VarDecl (lexeme (current ?b))
                              (Some (lexeme (current (parser_advance (parser_advance ?b)))))
                              init)
                           (line (current ?b)) (column (current ?b))), q))"
    using identifier_statement_forms[where p = ?b and n = 4] hb by blast
  have rc: "had_error q" if "parser_parse_statement (Suc 4) ?c = Some (r, q)" for r q
    using identifier_statement_forms[where p = ?c and n = 4 and r = r and q = q] hc that
    by blast
  have rd: "parser_parse_statement (Suc 4) ?d =
        (case parse_postfix_continue (parser_parse_expression 4) 4 (parser_advance ?d)
                (Some (AstNode (IdentifierExpr (lexeme (current ?d)))
                         (line (current ?d)) (column (current ?d)))) of
           None \<Rightarrow> None
         | Some (expr, q) \<Rightarrow>
             Some (Some (AstNode (ExprStmt expr)
                           (node_line (the expr)) (node_column (the expr))), q))"
    using identifier_statement_forms[where p = ?d and n = 4] hd by blast
  have fa: "parser_parse_statement 5 ?a =
     Some (Some (AstNode
                   (VarDecl ''x'' None (Some (AstNode (LiteralExpr (LIT_INT 42)) 1 7)))
                   1 2),
       \<lparr>lexer = \<lparr>pending = [], end_line = 1, end_column = 7\<rparr>,
          current = make_token TOKEN_EOF [] 1 7,
          previous = make_token TOKEN_INT ''42'' 1 7,
          had_error = False, panic_mode = False, reported = []\<rparr>)"
    unfolding n5 ra va using ta by simp
  have fb: "parser_parse_statement 5 ?b =
     Some (Some (AstNode
                   (VarDecl ''x'' (Some ''int'')
                      (Some (AstNode (LiteralExpr (LIT_INT 42)) 1 12)))
                   1 2),
       \<lparr>lexer = \<lparr>pending = [], end_line = 1, end_column = 12\<rparr>,
          current = make_token TOKEN_EOF [] 1 12,
          previous = make_token TOKEN_INT ''42'' 1 12,
          had_error = False, panic_mode = False, reported = []\<rparr>)"
    unfolding n5 rb vb using tb by simp
  have fd: "parser_parse_statement 5 ?d =
     Some (Some (AstNode
                   (ExprStmt
                      (Some (AstNode
                               (MemberExpr (Some (AstNode (IdentifierExpr ''x'') 1 2)) ''y'')
                               1 4)))
                   1 4),
       \<lparr>lexer = \<lparr>pending = [], end_line = 1, end_column = 4\<rparr>,
          current = make_token TOKEN_EOF [] 1 4,
          previous = make_token TOKEN_IDENTIFIER ''y'' 1 4,
          had_error = False, panic_mode = False, reported = []\<rparr>)"
    unfolding n5 rd vd by simp
  from ha hb hc hd fa fb vc fd rc[OF vc[unfolded n5]] show ?thesis
    by blast
qed

section \<open>An if statement without a condition\<close>

text \<open>
  C6 (as the code has it). When the condition position of an if statement holds a token
  that neither begins a primary expression nor is matched by an operator level of the
  expression parser (a brace, a keyword, \<open>)\<close>, end-of-input), \<open>parse_if_statement\<close>
  yields no node: an error has been reported, and no token was consumed, so no branch
  was parsed. More generally, whenever the condition expression yields no node the
  function reports \<open>Expected condition in if statement\<close> and returns \<open>NULL\<close> at once.
  When the condition yields a node, the function returns exactly when its branches do,
  and the result is an if node that carries this condition, the then-branch (a block if
  \<open>{\<close> follows, a single statement otherwise) and the else-branch (absent without
  \<open>else\<close>; after \<open>else\<close> another if statement, a block, or a single statement).
\<close>

theorem if_statement_condition:
  "(type (current p) \<notin> primary_tokens \<and> type (current p) \<notin> operator_tokens \<and>
    (panic_mode p \<longrightarrow> had_error p) \<longrightarrow>
      (\<exists>q. parse_if_statement ps (n + 4) p = Some (None, q) \<and> had_error q \<and>
           lexer q = lexer p \<and> current q = current p))
   \<and>
   (parser_parse_expression n p = Some (None, q) \<longrightarrow>
      parse_if_statement ps (Suc n) p =
        Some (None, parser_error q ''Expected condition in if statement''))
   \<and>
   (parser_parse_expression n p = Some (Some c, q) \<longrightarrow>
      parse_if_statement ps (Suc n) p =
        do {
          (then_branch, q) \<leftarrow>
            (if type (current q) = TOKEN_LEFT_BRACE then parse_block_statement ps n q
             else ps q);
          (else_branch, q) \<leftarrow>
            (if type (current q) = TOKEN_ELSE then
               (if type (current (parser_advance q)) = TOKEN_IF
                then parse_if_statement ps n (parser_advance (parser_advance q))
                else if type (current (parser_advance q)) = TOKEN_LEFT_BRACE
                then parse_block_statement ps n (parser_advance q)
                else ps (parser_advance q))
             else Some (None, q));
          Some (Some (AstNode (IfStmt (Some c) then_branch else_branch)
                        (line (previous p)) (column (previous p))), q)
        })"
proof -
  have a: "\<exists>q. parse_if_statement ps (n + 4) p = Some (None, q) \<and> had_error q \<and>
             lexer q = lexer p \<and> current q = current p"
    if "type (current p) \<notin> primary_tokens" "type (current p) \<notin> operator_tokens"
       "panic_mode p \<longrightarrow> had_error p"
  proof -
    let ?q1 = "if type (current p) \<in> silent_tokens then p
               else parser_error_at_current p ''Expected expression''"
    let ?q = "parser_error ?q1 ''Expected condition in if statement''"
    have "parser_parse_expression (Suc (Suc (Suc n))) p = Some (None, ?q1)"
      using that(1,2) by (rule expression_no_token)
    then have r1: "parse_if_statement ps (Suc (Suc (Suc (Suc n)))) p = Some (None, ?q)"
      by (simp del: parser_parse_expression.simps)
    have eq: "n + 4 = Suc (Suc (Suc (Suc n)))"
      by simp
    have r2: "had_error ?q \<and> lexer ?q = lexer p \<and> current ?q = current p"
      using that(3)
      by (simp add: parser_error_def parser_error_at_current_def parser_error_at_def)
    show ?thesis
      unfolding eq using r1 r2 by blast
  qed
  have b: "parse_if_statement ps (Suc n) p =
             Some (None, parser_error q ''Expected condition in if statement'')"
    if "parser_parse_expression n p = Some (None, q)"
    using that by (simp del: parser_parse_expression.simps)
  have c: "parse_if_statement ps (Suc n) p =
        do {
          (then_branch, q) \<leftarrow>
            (if type (current q) = TOKEN_LEFT_BRACE then parse_block_statement ps n q
             else ps q);
          (else_branch, q) \<leftarrow>
            (if type (current q) = TOKEN_ELSE then
               (if type (current (parser_advance q)) = TOKEN_IF
                then parse_if_statement ps n (parser_advance (parser_advance q))
                else if type (current (parser_advance q)) = TOKEN_LEFT_BRACE
                then parse_block_statement ps n (parser_advance q)
                else ps (parser_advance q))
             else Some (None, q));
          Some (Some (AstNode (IfStmt (Some c) then_branch else_branch)
                        (line (previous p)) (column (previous p))), q)
        }"
    if "parser_parse_expression n p = Some (Some c, q)"
    using that
    apply (simp add: vc_simps ast_create_if_def del: parser_parse_expression.simps)
    apply (intro conjI impI Option.bind_cong refl)
     apply (simp_all add: vc_simps split: prod.splits)
    done
  from a b c show ?thesis by blast
qed

theorem if_statement_condition_witness:
  "type (current (parser_advance (parser_on
          [make_token TOKEN_IF ''if'' 1 3,
           make_token TOKEN_LEFT_BRACE ''{'' 1 5,
           make_token TOKEN_RIGHT_BRACE ''}'' 1 7] 1 7))) \<notin> primary_tokens \<and>
   type (current (parser_advance (parser_on
          [make_token TOKEN_IF ''if'' 1 3,
           make_token TOKEN_LEFT_BRACE ''{'' 1 5,
           make_token TOKEN_RIGHT_BRACE ''}'' 1 7] 1 7))) \<notin> operator_tokens \<and>
   \<not> panic_mode (parser_advance (parser_on
          [make_token TOKEN_IF ''if'' 1 3,
           make_token TOKEN_LEFT_BRACE ''{'' 1 5,
           make_token TOKEN_RIGHT_BRACE ''}'' 1 7] 1 7)) \<and>
   (\<exists>q. parse_if_statement (parser_parse_statement 4) 4 (parser_advance (parser_on
          [make_token TOKEN_IF ''if'' 1 3,
           make_token TOKEN_LEFT_BRACE ''{'' 1 5,
           make_token TOKEN_RIGHT_BRACE ''}'' 1 7] 1 7)) = Some (None, q) \<and>
        had_error q \<and>
        lexer q = lexer (parser_advance (parser_on
          [make_token TOKEN_IF ''if'' 1 3,
           make_token TOKEN_LEFT_BRACE ''{'' 1 5,
           make_token TOKEN_RIGHT_BRACE ''}'' 1 7] 1 7)) \<and> current q = current (parser_advance (parser_on
          [make_token TOKEN_IF ''if'' 1 3,
           make_token TOKEN_LEFT_BRACE ''{'' 1 5,
           make_token TOKEN_RIGHT_BRACE ''}'' 1 7] 1 7))) \<and>
   parser_parse_expression 4 (parser_advance (parser_on
          [make_token TOKEN_IF ''if'' 1 3,
           make_token TOKEN_IDENTIFIER ''x'' 1 5,
           make_token TOKEN_LEFT_BRACE ''{'' 1 7,
           make_token TOKEN_RIGHT_BRACE ''}'' 1 9,
           make_token TOKEN_ELSE ''else'' 1 14,
           make_token TOKEN_LEFT_BRACE ''{'' 1 16,
           make_token TOKEN_RIGHT_BRACE ''}'' 1 18] 1 18)) =
     Some (Some (AstNode (IdentifierExpr ''x'') 1 5),
           parser_advance (parser_advance (parser_on
          [make_token TOKEN_IF ''if'' 1 3,
           make_token TOKEN_IDENTIFIER ''x'' 1 5,
           make_token TOKEN_LEFT_BRACE ''{'' 1 7,
           make_token TOKEN_RIGHT_BRACE ''}'' 1 9,
           make_token TOKEN_ELSE ''else'' 1 14,
           make_token TOKEN_LEFT_BRACE ''{'' 1 16,
           make_token TOKEN_RIGHT_BRACE ''}'' 1 18] 1 18))) \<and>
   parse_if_statement (parser_parse_statement 4) 5 (parser_advance (parser_on
          [make_token TOKEN_IF ''if'' 1 3,
           make_token TOKEN_IDENTIFIER ''x'' 1 5,
           make_token TOKEN_LEFT_BRACE ''{'' 1 7,
           make_token TOKEN_RIGHT_BRACE ''}'' 1 9,
           make_token TOKEN_ELSE ''else'' 1 14,
           make_token TOKEN_LEFT_BRACE ''{'' 1 16,
           make_token TOKEN_RIGHT_BRACE ''}'' 1 18] 1 18)) =
     Some
       (Some
          (AstNode
             (IfStmt (Some (AstNode (IdentifierExpr ''x'') 1 5))
                (Some (AstNode (BlockStmt []) 1 7))
                (Some (AstNode (BlockStmt []) 1 16)))
             1 3),
        \<lparr>lexer = \<lparr>pending = [], end_line = 1, end_column = 18\<rparr>,
           current = make_token TOKEN_EOF [] 1 18,
           previous = make_token TOKEN_RIGHT_BRACE ''}'' 1 18,
           had_error = False, panic_mode = False, reported = []\<rparr>)"
proof -
  let ?p1 = "(parser_advance (parser_on
          [make_token TOKEN_IF ''if'' 1 3,
           make_token TOKEN_LEFT_BRACE ''{'' 1 5,
           make_token TOKEN_RIGHT_BRACE ''}'' 1 7] 1 7))"
  let ?p2 = "(parser_advance (parser_on
          [make_token TOKEN_IF ''if'' 1 3,
           make_token TOKEN_IDENTIFIER ''x'' 1 5,
           make_token TOKEN_LEFT_BRACE ''{'' 1 7,
           make_token TOKEN_RIGHT_BRACE ''}'' 1 9,
           make_token TOKEN_ELSE ''else'' 1 14,
           make_token TOKEN_LEFT_BRACE ''{'' 1 16,
           make_token TOKEN_RIGHT_BRACE ''}'' 1 18] 1 18))"
  have h1: "type (current ?p1) \<notin> primary_tokens \<and> type (current ?p1) \<notin> operator_tokens \<and>
            \<not> panic_mode ?p1"
    by code_simp
  have h2: "parser_parse_expression 4 ?p2 =
              Some (Some (AstNode (IdentifierExpr ''x'') 1 5), parser_advance ?p2)"
    by code_simp
  have e: "do {
          (then_branch, q) \<leftarrow>
            (if type (current (parser_advance ?p2)) = TOKEN_LEFT_BRACE
             then parse_block_statement (parser_parse_statement 4) 4 (parser_advance ?p2)
             else parser_parse_statement 4 (parser_advance ?p2));
          (else_branch, q) \<leftarrow>
            (if type (current q) = TOKEN_ELSE then
               (if type (current (parser_advance q)) = TOKEN_IF
                then parse_if_statement (parser_parse_statement 4) 4
                       (parser_advance (parser_advance q))
                else if type (current (parser_advance q)) = TOKEN_LEFT_BRACE
                then parse_block_statement (parser_parse_statement 4) 4 (parser_advance q)
                else parser_parse_statement 4 (parser_advance q))
             else Some (None, q));
          Some (Some (AstNode (IfStmt (Some (AstNode (IdentifierExpr ''x'') 1 5))
                                 then_branch else_branch)
                        (line (previous ?p2)) (column (previous ?p2))), q)
        } =
     Some
       (Some
          (AstNode
             (IfStmt (Some (AstNode (IdentifierExpr ''x'') 1 5))
                (Some (AstNode (BlockStmt []) 1 7))
                (Some (AstNode (BlockStmt []) 1 16)))
             1 3),
        \<lparr>lexer = \<lparr>pending = [], end_line = 1, end_column = 18\<rparr>,
           current = make_token TOKEN_EOF [] 1 18,
           previous = make_token TOKEN_RIGHT_BRACE ''}'' 1 18,
           had_error = False, panic_mode = False, reported = []\<rparr>)"
    by code_simp
  show ?thesis
    using if_statement_condition[of ?p1 "parser_parse_statement 4" 0]
          if_statement_condition
            [of ?p2 "parser_parse_statement 4" 4
                "parser_advance ?p2" "AstNode (IdentifierExpr ''x'') 1 5"]
          h1 h2 e
    by simp
qed

text \<open>
  C6 as stated fails on \<open>if { }\<close>: no if node with a null condition is produced. The
  statement yields no node at all, and the block after the missing condition is left
  unparsed, \<open>{\<close> still being the current token.
\<close>

theorem if_without_condition_yields_no_node:
  "parser_parse_statement 5
     (parser_on
        [make_token TOKEN_IF ''if'' 1 3,
         make_token TOKEN_LEFT_BRACE ''{'' 1 5,
         make_token TOKEN_RIGHT_BRACE ''}'' 1 7] 1 7) =
   Some (None,
     \<lparr>lexer = \<lparr>pending = [make_token TOKEN_RIGHT_BRACE ''}'' 1 7],
                end_line = 1, end_column = 7\<rparr>,
        current = make_token TOKEN_LEFT_BRACE ''{'' 1 5,
        previous = make_token TOKEN_IF ''if'' 1 3,
        had_error = True, panic_mode = True,
        reported = [(make_token TOKEN_LEFT_BRACE ''{'' 1 5, ''Expected expression'')]\<rparr>)"
  by code_simp

section \<open>Blocks\<close>

text \<open>
  C7. The block of \<^verbatim>\<open>loop { x = 1 }\<close> is a block node with the one statement; that of
  \<^verbatim>\<open>loop { x = 1\<close>, which lacks its \<open>}\<close>, is the same block node, with the error
  reported at the end of the input; that of \<^verbatim>\<open>loop { }\<close> is a block node with the empty
  list of statements. On \<^verbatim>\<open>loop { ) }\<close>, however, the block does not end at its
  \<open>}\<close> and no block node is returned: at \<open>)\<close>, which is neither \<open>}\<close> nor the
  end of the input, \<open>parser_parse_statement\<close> returns \<open>NULL\<close> and leaves the parser
  as it was, so the loop of \<open>parse_block_statement\<close> takes turn after turn in that
  state and reaches whatever bound \<open>n\<close> is put on its turns; neither it nor the
  statement it is the body of returns.
\<close>

theorem stray_closing_parenthesis_in_block:
  "type (current input_loop_right_paren) = TOKEN_LOOP \<and>
   type (current (parser_advance input_loop_right_paren)) = TOKEN_LEFT_BRACE \<and>
   type (current (parser_advance (parser_advance input_loop_right_paren))) = TOKEN_RIGHT_PAREN \<and>
   parser_parse_statement (k + 4) (parser_advance (parser_advance input_loop_right_paren)) =
     Some (None, (parser_advance (parser_advance input_loop_right_paren))) \<and>
   parse_block_statement (parser_parse_statement k) n (parser_advance input_loop_right_paren) =
     None \<and>
   parser_parse_statement n input_loop_right_paren = None \<and>
   parser_parse_statement 8 input_loop_block =
     Some
       (Some
          (AstNode
             (LoopStmt
                (Some
                   (AstNode
                      (BlockStmt
                         [Some
                            (AstNode
                               (VarDecl ''x'' None (Some (AstNode (LiteralExpr (LIT_INT 1)) 1 13)))
                               1 9)])
                      1 7)))
             1 5),
        \<lparr>lexer = \<lparr>pending = [], end_line = 1, end_column = 15\<rparr>,
                current = make_token TOKEN_EOF [] 1 15,
                previous = make_token TOKEN_RIGHT_BRACE ''}'' 1 15,
                had_error = False,
                panic_mode = False,
                reported = []\<rparr>) \<and>
   parser_parse_statement 8 input_loop_unclosed =
     Some
       (Some
          (AstNode
             (LoopStmt
                (Some
                   (AstNode
                      (BlockStmt
                         [Some
                            (AstNode
                               (VarDecl ''x'' None (Some (AstNode (LiteralExpr (LIT_INT 1)) 1 13)))
                               1 9)])
                      1 7)))
             1 5),
        \<lparr>lexer = \<lparr>pending = [], end_line = 1, end_column = 13\<rparr>,
                current = make_token TOKEN_EOF [] 1 13,
                previous = make_token TOKEN_INT ''1'' 1 13,
                had_error = True,
                panic_mode = True,
                reported = [(make_token TOKEN_EOF [] 1 13, ''Expected '}' after block'')]\<rparr>) \<and>
   parser_parse_statement 8 input_loop_empty =
     Some
       (Some (AstNode (LoopStmt (Some (AstNode (BlockStmt []) 1 7))) 1 5),
        \<lparr>lexer = \<lparr>pending = [], end_line = 1, end_column = 9\<rparr>,
                current = make_token TOKEN_EOF [] 1 9,
                previous = make_token TOKEN_RIGHT_BRACE ''}'' 1 9,
                had_error = False,
                panic_mode = False,
                reported = []\<rparr>)"
proof -
  have f1:
    "type (current input_loop_right_paren) = TOKEN_LOOP"
    by code_simp
  have f2:
    "type (current (parser_advance input_loop_right_paren)) = TOKEN_LEFT_BRACE"
    by code_simp
  have f3:
    "type (current (parser_advance (parser_advance input_loop_right_paren))) = TOKEN_RIGHT_PAREN"
    by code_simp
  have f4:
    "parser_parse_statement (k + 4) (parser_advance (parser_advance input_loop_right_paren)) =
       Some (None, (parser_advance (parser_advance input_loop_right_paren)))"
  proof -
    have c: "type (current (parser_advance (parser_advance input_loop_right_paren))) \<in> {TOKEN_RIGHT_PAREN, TOKEN_RIGHT_BRACKET}"
      using f3 by simp
    have eq: "k + 4 = Suc (Suc (Suc (Suc k)))"
      by simp
    show ?thesis
      unfolding eq by (rule statement_at_closer[OF c])
  qed
  have f5:
    "parse_block_statement (parser_parse_statement k) n (parser_advance input_loop_right_paren) =
       None"
  proof -
    have "type (current (parser_advance (parser_advance input_loop_right_paren))) \<in> {TOKEN_RIGHT_PAREN, TOKEN_RIGHT_BRACKET}"
      using f3 by simp
    with f2 show ?thesis
      by (rule block_at_closer)
  qed
  have f6:
    "parser_parse_statement n input_loop_right_paren = None"
  proof (cases n)
    case 0
    then show ?thesis by simp
  next
    case (Suc m)
    have c: "type (current (parser_advance (parser_advance input_loop_right_paren))) \<in> {TOKEN_RIGHT_PAREN, TOKEN_RIGHT_BRACKET}"
      using f3 by simp
    show ?thesis
      unfolding Suc using f1 f2 block_at_closer[OF f2 c, of m m]
      by (simp add: vc_simps parse_loop_statement_def)
  qed
  have f7:
    "parser_parse_statement 8 input_loop_block =
       Some
         (Some
            (AstNode
               (LoopStmt
                  (Some
                     (AstNode
                        (BlockStmt
                           [Some
                              (AstNode
                                 (VarDecl ''x'' None
                                    (Some (AstNode (LiteralExpr (LIT_INT 1)) 1 13)))
                                 1 9)])
                        1 7)))
               1 5),
          \<lparr>lexer = \<lparr>pending = [], end_line = 1, end_column = 15\<rparr>,
                  current = make_token TOKEN_EOF [] 1 15,
                  previous = make_token TOKEN_RIGHT_BRACE ''}'' 1 15,
                  had_error = False,
                  panic_mode = False,
                  reported = []\<rparr>)"
    by code_simp
  have f8:
    "parser_parse_statement 8 input_loop_unclosed =
       Some
         (Some
            (AstNode
               (LoopStmt
                  (Some
                     (AstNode
                        (BlockStmt
                           [Some
                              (AstNode
                                 (VarDecl ''x'' None
                                    (Some (AstNode (LiteralExpr (LIT_INT 1)) 1 13)))
                                 1 9)])
                        1 7)))
               1 5),
          \<lparr>lexer = \<lparr>pending = [], end_line = 1, end_column = 13\<rparr>,
                  current = make_token TOKEN_EOF [] 1 13,
                  previous = make_token TOKEN_INT ''1'' 1 13,
                  had_error = True,
                  panic_mode = True,
                  reported = [(make_token TOKEN_EOF [] 1 13, ''Expected '}' after block'')]\<rparr>)"
    by code_simp
  have f9:
    "parser_parse_statement 8 input_loop_empty =
       Some
         (Some (AstNode (LoopStmt (Some (AstNode (BlockStmt []) 1 7))) 1 5),
          \<lparr>lexer = \<lparr>pending = [], end_line = 1, end_column = 9\<rparr>,
                  current = make_token TOKEN_EOF [] 1 9,
                  previous = make_token TOKEN_RIGHT_BRACE ''}'' 1 9,
                  had_error = False,
                  panic_mode = False,
                  reported = []\<rparr>)"
    by code_simp
  show ?thesis
    by (intro conjI f1 f2 f3 f4 f5 f6 f7 f8 f9)
qed

section \<open>Empty constructs in primary position\<close>

text \<open>
  C8 (as the code has it). Parsing \<open>()\<close> as a primary expression reports an error and
  yields no node, and parsing \<open>[]\<close> yields an array literal with no elements and no
  error. A primary position whose token is \<open>)\<close>, \<open>]\<close> or end-of-input yields no
  node, reports nothing and consumes nothing: the parser state is returned as it was.
  A primary position holding any other token that starts no primary expression yields no
  node and calls the error report with \<open>Expected expression\<close>; outside panic mode that
  sets \<open>had_error\<close> and \<open>panic_mode\<close> and writes the diagnostic.
\<close>

theorem primary_without_expression:
  "parser_parse_primary (parser_parse_expression 5) 5
     (parser_on
        [make_token TOKEN_LEFT_PAREN ''('' 1 2,
         make_token TOKEN_RIGHT_PAREN '')'' 1 3] 1 3) =
   Some (None,
     \<lparr>lexer = \<lparr>pending = [], end_line = 1, end_column = 3\<rparr>,
        current = make_token TOKEN_RIGHT_PAREN '')'' 1 3,
        previous = make_token TOKEN_LEFT_PAREN ''('' 1 2,
        had_error = True, panic_mode = True,
        reported = [(make_token TOKEN_LEFT_PAREN ''('' 1 2,
                     ''Expected expression after '('' @ [CHR 0x27])]\<rparr>)
   \<and>
   parser_parse_primary (parser_parse_expression 5) 5
     (parser_on
        [make_token TOKEN_LEFT_BRACKET ''['' 1 2,
         make_token TOKEN_RIGHT_BRACKET '']'' 1 3] 1 3) =
   Some (Some (AstNode (ArrayExpr []) 1 2),
     \<lparr>lexer = \<lparr>pending = [], end_line = 1, end_column = 3\<rparr>,
        current = make_token TOKEN_EOF [] 1 3,
        previous = make_token TOKEN_RIGHT_BRACKET '']'' 1 3,
        had_error = False, panic_mode = False, reported = []\<rparr>)
   \<and>
   (type (current p) \<in> silent_tokens \<longrightarrow> parser_parse_primary pe n p = Some (None, p))
   \<and>
   (type (current p) \<notin> primary_tokens \<and> type (current p) \<notin> silent_tokens \<longrightarrow>
      parser_parse_primary pe n p =
        Some (None, parser_error_at_current p ''Expected expression'') \<and>
      (\<not> panic_mode p \<longrightarrow>
         parser_error_at_current p ''Expected expression'' =
           p\<lparr>panic_mode := True, had_error := True,
              reported := reported p @ [(current p, ''Expected expression'')]\<rparr>))"
proof -
  have a: "parser_parse_primary (parser_parse_expression 5) 5
     (parser_on
        [make_token TOKEN_LEFT_PAREN ''('' 1 2,
         make_token TOKEN_RIGHT_PAREN '')'' 1 3] 1 3) =
   Some (None,
     \<lparr>lexer = \<lparr>pending = [], end_line = 1, end_column = 3\<rparr>,
        current = make_token TOKEN_RIGHT_PAREN '')'' 1 3,
        previous = make_token TOKEN_LEFT_PAREN ''('' 1 2,
        had_error = True, panic_mode = True,
        reported = [(make_token TOKEN_LEFT_PAREN ''('' 1 2,
                     ''Expected expression after '('' @ [CHR 0x27])]\<rparr>)"
    by code_simp
  have b: "parser_parse_primary (parser_parse_expression 5) 5
     (parser_on
        [make_token TOKEN_LEFT_BRACKET ''['' 1 2,
         make_token TOKEN_RIGHT_BRACKET '']'' 1 3] 1 3) =
   Some (Some (AstNode (ArrayExpr []) 1 2),
     \<lparr>lexer = \<lparr>pending = [], end_line = 1, end_column = 3\<rparr>,
        current = make_token TOKEN_EOF [] 1 3,
        previous = make_token TOKEN_RIGHT_BRACKET '']'' 1 3,
        had_error = False, panic_mode = False, reported = []\<rparr>)"
    by code_simp
  have c: "type (current p) \<in> silent_tokens \<longrightarrow> parser_parse_primary pe n p = Some (None, p)"
    by (simp add: parser_parse_primary_def silent_tokens_def)
  have d: "type (current p) \<notin> primary_tokens \<and> type (current p) \<notin> silent_tokens \<longrightarrow>
      parser_parse_primary pe n p =
        Some (None, parser_error_at_current p ''Expected expression'')"
    by (simp add: primary_no_token)
  have e: "\<not> panic_mode p \<longrightarrow>
         parser_error_at_current p ''Expected expression'' =
           p\<lparr>panic_mode := True, had_error := True,
              reported := reported p @ [(current p, ''Expected expression'')]\<rparr>"
    by (simp add: parser_error_at_current_def parser_error_at_def)
  from a b c d e show ?thesis by blast
qed

theorem primary_without_expression_witness:
  "type (current (parser_on [] 1 1)) \<in> silent_tokens \<and>
   parser_parse_primary (parser_parse_expression 5) 5 (parser_on [] 1 1) = Some (None, (parser_on [] 1 1)) \<and>
   had_error (parser_on [] 1 1) = False \<and> reported (parser_on [] 1 1) = [] \<and>
   type (current (parser_on
        [make_token TOKEN_RIGHT_BRACE ''}'' 1 2] 1 2)) \<notin> primary_tokens \<and>
   type (current (parser_on
        [make_token TOKEN_RIGHT_BRACE ''}'' 1 2] 1 2)) \<notin> silent_tokens \<and>
   \<not> panic_mode (parser_on
        [make_token TOKEN_RIGHT_BRACE ''}'' 1 2] 1 2) \<and>
   parser_parse_primary (parser_parse_expression 5) 5 (parser_on
        [make_token TOKEN_RIGHT_BRACE ''}'' 1 2] 1 2) =
     Some (None,
       \<lparr>lexer = \<lparr>pending = [], end_line = 1, end_column = 2\<rparr>,
          current = make_token TOKEN_RIGHT_BRACE ''}'' 1 2,
          previous = make_token TOKEN_EOF [] 0 0,
          had_error = True, panic_mode = True,
          reported = [(make_token TOKEN_RIGHT_BRACE ''}'' 1 2, ''Expected expression'')]\<rparr>)"
proof -
  have a: "type (current (parser_on [] 1 1)) \<in> silent_tokens"
    by code_simp
  have b: "had_error (parser_on [] 1 1) = False \<and> reported (parser_on [] 1 1) = []"
    by code_simp
  have c: "type (current (parser_on
        [make_token TOKEN_RIGHT_BRACE ''}'' 1 2] 1 2)) \<notin> primary_tokens \<and>
           type (current (parser_on
        [make_token TOKEN_RIGHT_BRACE ''}'' 1 2] 1 2)) \<notin> silent_tokens \<and>
           \<not> panic_mode (parser_on
        [make_token TOKEN_RIGHT_BRACE ''}'' 1 2] 1 2)"
    by code_simp
  have d: "(parser_on
        [make_token TOKEN_RIGHT_BRACE ''}'' 1 2] 1 2)\<lparr>panic_mode := True, had_error := True,
              reported := reported (parser_on
        [make_token TOKEN_RIGHT_BRACE ''}'' 1 2] 1 2) @
                [(current (parser_on
        [make_token TOKEN_RIGHT_BRACE ''}'' 1 2] 1 2), ''Expected expression'')]\<rparr> =
       \<lparr>lexer = \<lparr>pending = [], end_line = 1, end_column = 2\<rparr>,
          current = make_token TOKEN_RIGHT_BRACE ''}'' 1 2,
          previous = make_token TOKEN_EOF [] 0 0,
          had_error = True, panic_mode = True,
          reported = [(make_token TOKEN_RIGHT_BRACE ''}'' 1 2, ''Expected expression'')]\<rparr>"
    by code_simp
  show ?thesis
    using primary_without_expression[of "parser_on [] 1 1" "parser_parse_expression 5" 5]
          primary_without_expression[of "parser_on [make_token TOKEN_RIGHT_BRACE ''}'' 1 2] 1 2"
             "parser_parse_expression 5" 5]
          a b c d
    by simp
qed

text \<open>
  C8 as stated fails at end-of-input: the primary position holds no primary-starting
  token, no node is yielded, and yet no error is reported.
\<close>

theorem primary_at_end_of_input_is_silent:
  "parser_parse_primary (parser_parse_expression 5) 5 (parser_on [] 1 1) =
     Some (None,
       \<lparr>lexer = \<lparr>pending = [], end_line = 1, end_column = 1\<rparr>,
          current = make_token TOKEN_EOF [] 1 1,
          previous = make_token TOKEN_EOF [] 0 0,
          had_error = False, panic_mode = False, reported = []\<rparr>)"
  by code_simp

section \<open>The variables of a for loop\<close>




section \<open>An identifier at the start of a statement\<close>

text \<open>
  C10. Let a statement begin with an identifier that is followed by neither \<open>:\<close> nor
  \<open>=\<close>. Then \<open>parser_parse_statement\<close> returns exactly when
  \<open>parse_postfix_continue\<close>, started on the identifier node, returns, and it wraps
  that result in an expression statement. The result of \<open>parse_postfix_continue\<close> is
  a chain of calls, indexings and member accesses on the node it was given, and it stops
  at the first token that is not \<open>(\<close>, \<open>[\<close> or \<open>.\<close>. Turn by turn, on an
  expression \<open>expr\<close>:

    \<^item> at \<open>(\<close> it parses the arguments (expressions separated by commas, none if
      \<open>)\<close> follows at once), wants \<open>)\<close>, and goes on with the call of \<open>expr\<close> on
      these arguments;
    \<^item> at \<open>[\<close> it parses an expression, wants \<open>]\<close>, and goes on with the indexing of
      \<open>expr\<close> by that expression;
    \<^item> at \<open>.\<close> it wants an identifier, and goes on with the access to the member of
      \<open>expr\<close> of that name;
    \<^item> at any other token it returns \<open>expr\<close>, in the state it was called in: nothing is
      consumed.

  So, if the token after the identifier is none of \<open>:\<close>, \<open>=\<close>, \<open>(\<close>, \<open>[\<close>,
  \<open>.\<close> (a binary operator, say), the statement is the identifier alone, and that
  token is left as the current token. If the identifier is followed by an indexing, by a
  call with one argument or by a member access, and then by a token that is not \<open>(\<close>,
  \<open>[\<close> or \<open>.\<close>, the statement is that indexing, call or member access of the
  identifier, and again the token after it is left as the current token.

  A statement that begins with a token other than an identifier or a statement keyword,
  in contrast, is a full expression from \<open>parser_parse_expression\<close>, wrapped the same
  way; this expression goes through all the binary levels, from \<open>||\<close> down to the
  multiplicative operators, then the prefix operators, and only then a primary
  expression with its postfix chain.
\<close>

theorem identifier_statement_is_postfix_chain_only:
  "(type (current p) = TOKEN_IDENTIFIER \<and>
    type (current (parser_advance p)) \<notin> {TOKEN_COLON, TOKEN_EQUAL} \<longrightarrow>
      parser_parse_statement (Suc n) p =
        (case parse_postfix_continue (parser_parse_expression n) n (parser_advance p)
                (Some (AstNode (IdentifierExpr (lexeme (current p)))
                         (line (current p)) (column (current p)))) of
           None \<Rightarrow> None
         | Some (expr, q) \<Rightarrow>
             Some (Some (AstNode (ExprStmt expr)
                           (node_line (the expr)) (node_column (the expr))), q)))
   \<and>
   (parse_postfix_continue pe n p (Some e0) = Some (r, q) \<longrightarrow>
      (\<exists>e. r = Some e \<and> postfix_base e = postfix_base e0) \<and>
      type (current q) \<notin> {TOKEN_LEFT_PAREN, TOKEN_LEFT_BRACKET, TOKEN_DOT})
   \<and>
   (type (current p) = TOKEN_LEFT_PAREN \<longrightarrow>
      parse_postfix_continue pe (Suc n) p expr =
        (case (if type (current (parser_advance p)) = TOKEN_RIGHT_PAREN
               then Some ([], parser_advance p)
               else parse_call_arguments pe n (parser_advance p) []) of
           None \<Rightarrow> None
         | Some (args, q) \<Rightarrow>
             parse_postfix_continue pe n
               (if type (current q) = TOKEN_RIGHT_PAREN then parser_advance q
                else parser_error_at_current q ''Expected ')' after arguments'')
               (Some (AstNode (CallExpr expr args) (line (current q)) (column (current q))))))
   \<and>
   parse_call_arguments pe (Suc n) p args =
     (case pe p of
        None \<Rightarrow> None
      | Some (arg, q) \<Rightarrow>
          if type (current q) = TOKEN_COMMA
          then parse_call_arguments pe n (parser_advance q) (args @ [arg])
          else Some (args @ [arg], q))
   \<and>
   (type (current p) = TOKEN_LEFT_BRACKET \<longrightarrow>
      parse_postfix_continue pe (Suc n) p expr =
        (case pe (parser_advance p) of
           None \<Rightarrow> None
         | Some (index, q) \<Rightarrow>
             parse_postfix_continue pe n
               (if type (current q) = TOKEN_RIGHT_BRACKET then parser_advance q
                else parser_error_at_current q ''Expected ']' after index'')
               (Some (AstNode (IndexExpr expr index) (line (current q)) (column (current q))))))
   \<and>
   (type (current p) = TOKEN_DOT \<longrightarrow>
      parse_postfix_continue pe (Suc n) p expr =
        parse_postfix_continue pe n
          (if type (current (parser_advance p)) = TOKEN_IDENTIFIER
           then parser_advance (parser_advance p)
           else parser_error_at_current (parser_advance p)
                  (''Expected property name after '.'' @ [CHR 0x27]))
          (Some (AstNode (MemberExpr expr (lexeme (current (parser_advance p))))
                   (line (current (parser_advance p)))
                   (column (current (parser_advance p))))))
   \<and>
   (type (current p) \<notin> {TOKEN_LEFT_PAREN, TOKEN_LEFT_BRACKET, TOKEN_DOT} \<longrightarrow>
      parse_postfix_continue pe (Suc n) p expr = Some (expr, p))
   \<and>
   (type (current p) = TOKEN_IDENTIFIER \<and>
    type (current (parser_advance p)) \<notin>
      {TOKEN_COLON, TOKEN_EQUAL, TOKEN_LEFT_PAREN, TOKEN_LEFT_BRACKET, TOKEN_DOT} \<longrightarrow>
      parser_parse_statement (Suc (Suc n)) p =
        Some (Some (AstNode
                      (ExprStmt (Some (AstNode (IdentifierExpr (lexeme (current p)))
                                         (line (current p)) (column (current p)))))
                      (line (current p)) (column (current p))),
              parser_advance p))
   \<and>
   (type (current p) = TOKEN_IDENTIFIER \<and>
    type (current (parser_advance p)) = TOKEN_LEFT_BRACKET \<and>
    parser_parse_expression (n + 2) (parser_advance (parser_advance p)) = Some (index, q) \<and>
    type (current q) = TOKEN_RIGHT_BRACKET \<and>
    type (current (parser_advance q)) \<notin>
      {TOKEN_LEFT_PAREN, TOKEN_LEFT_BRACKET, TOKEN_DOT} \<longrightarrow>
      parser_parse_statement (n + 3) p =
        Some (Some (AstNode
                (ExprStmt (Some (AstNode
                   (IndexExpr (Some (AstNode (IdentifierExpr (lexeme (current p)))
                                      (line (current p)) (column (current p))))
                      index)
                   (line (current q)) (column (current q)))))
                (line (current q)) (column (current q))),
              parser_advance q))
   \<and>
   (type (current p) = TOKEN_IDENTIFIER \<and>
    type (current (parser_advance p)) = TOKEN_LEFT_PAREN \<and>
    type (current (parser_advance (parser_advance p))) \<noteq> TOKEN_RIGHT_PAREN \<and>
    parser_parse_expression (n + 2) (parser_advance (parser_advance p)) = Some (arg, q) \<and>
    type (current q) = TOKEN_RIGHT_PAREN \<and>
    type (current (parser_advance q)) \<notin>
      {TOKEN_LEFT_PAREN, TOKEN_LEFT_BRACKET, TOKEN_DOT} \<longrightarrow>
      parser_parse_statement (n + 3) p =
        Some (Some (AstNode
                (ExprStmt (Some (AstNode
                   (CallExpr (Some (AstNode (IdentifierExpr (lexeme (current p)))
                                     (line (current p)) (column (current p))))
                      [arg])
                   (line (current q)) (column (current q)))))
                (line (current q)) (column (current q))),
              parser_advance q))
   \<and>
   (type (current p) = TOKEN_IDENTIFIER \<and>
    type (current (parser_advance p)) = TOKEN_DOT \<and>
    type (current (parser_advance (parser_advance p))) = TOKEN_IDENTIFIER \<and>
    type (current (parser_advance (parser_advance (parser_advance p)))) \<notin>
      {TOKEN_LEFT_PAREN, TOKEN_LEFT_BRACKET, TOKEN_DOT} \<longrightarrow>
      parser_parse_statement (n + 3) p =
        Some (Some (AstNode
                (ExprStmt (Some (AstNode
                   (MemberExpr (Some (AstNode (IdentifierExpr (lexeme (current p)))
                                       (line (current p)) (column (current p))))
                      (lexeme (current (parser_advance (parser_advance p)))))
                   (line (current (parser_advance (parser_advance p))))
                   (column (current (parser_advance (parser_advance p)))))))
                (line (current (parser_advance (parser_advance p))))
                (column (current (parser_advance (parser_advance p))))),
              parser_advance (parser_advance (parser_advance p))))
   \<and>
   (type (current p) \<notin>
      {TOKEN_IDENTIFIER, TOKEN_IF, TOKEN_WHILE, TOKEN_FOR, TOKEN_LOOP, TOKEN_RETURN,
       TOKEN_BREAK, TOKEN_CONTINUE} \<longrightarrow>
      parser_parse_statement (Suc n) p =
        (case parser_parse_expression n p of
           None \<Rightarrow> None
         | Some (None, q) \<Rightarrow> Some (None, q)
         | Some (Some e, q) \<Rightarrow>
             Some (Some (AstNode (ExprStmt (Some e)) (node_line e) (node_column e)), q)))
   \<and>
   parser_parse_expression (Suc n) p = parse_logical_or (parser_parse_expression n) n p
   \<and>
   parse_logical_or pe n p =
     (case parse_logical_and pe n p of
        None \<Rightarrow> None | Some (left, q) \<Rightarrow> parse_logical_or_loop pe n q left)
   \<and>
   parse_logical_or_loop pe (Suc n) p left =
     binary_step logical_or_op (parse_logical_and pe n) (parse_logical_or_loop pe n) p left
   \<and>
   parse_logical_and pe n p =
     (case parse_equality pe n p of
        None \<Rightarrow> None | Some (left, q) \<Rightarrow> parse_logical_and_loop pe n q left)
   \<and>
   parse_logical_and_loop pe (Suc n) p left =
     binary_step logical_and_op (parse_equality pe n) (parse_logical_and_loop pe n) p left
   \<and>
   parse_equality pe n p =
     (case parse_comparison pe n p of
        None \<Rightarrow> None | Some (left, q) \<Rightarrow> parse_equality_loop pe n q left)
   \<and>
   parse_equality_loop pe (Suc n) p left =
     binary_step equality_op (parse_comparison pe n) (parse_equality_loop pe n) p left
   \<and>
   parse_comparison pe n p =
     (case parse_term pe n p of
        None \<Rightarrow> None | Some (left, q) \<Rightarrow> parse_comparison_loop pe n q left)
   \<and>
   parse_comparison_loop pe (Suc n) p left =
     binary_step comparison_op (parse_term pe n) (parse_comparison_loop pe n) p left
   \<and>
   parse_term pe n p =
     (case parse_factor pe n p of
        None \<Rightarrow> None | Some (left, q) \<Rightarrow> parse_term_loop pe n q left)
   \<and>
   parse_term_loop pe (Suc n) p left =
     binary_step additive_op (parse_factor pe n) (parse_term_loop pe n) p left
   \<and>
   parse_factor pe n p =
     (case parse_unary pe n p of
        None \<Rightarrow> None | Some (left, q) \<Rightarrow> parse_factor_loop pe n q left)
   \<and>
   parse_factor_loop pe (Suc n) p left =
     binary_step multiplicative_op (parse_unary pe n) (parse_factor_loop pe n) p left
   \<and>
   parse_unary pe (Suc n) p =
     (case unary_op (type (current p)) of
        None \<Rightarrow> parse_postfix pe n p
      | Some op \<Rightarrow>
          (case parse_unary pe n (parser_advance p) of
             None \<Rightarrow> None
           | Some (operand, q) \<Rightarrow>
               Some (Some (AstNode (UnaryExpr op operand)
                             (line (current p)) (column (current p))), q)))
   \<and>
   parse_postfix pe n p =
     (case parser_parse_primary pe n p of
        None \<Rightarrow> None | Some (expr, q) \<Rightarrow> parse_postfix_continue pe n q expr)"
proof -
  have n2: "n + 2 = Suc (Suc n)" and n3: "n + 3 = Suc (Suc (Suc n))"
    by simp_all
  have a: "parser_parse_statement (Suc n) p =
        (case parse_postfix_continue (parser_parse_expression n) n (parser_advance p)
                (Some (AstNode (IdentifierExpr (lexeme (current p)))
                         (line (current p)) (column (current p)))) of
           None \<Rightarrow> None
         | Some (expr, q) \<Rightarrow>
             Some (Some (AstNode (ExprStmt expr)
                           (node_line (the expr)) (node_column (the expr))), q))"
    if "type (current p) = TOKEN_IDENTIFIER"
       "type (current (parser_advance p)) \<notin> {TOKEN_COLON, TOKEN_EQUAL}"
    using that by (rule identifier_statement)
  have b: "(\<exists>e. r = Some e \<and> postfix_base e = postfix_base e0) \<and>
           type (current q) \<notin> {TOKEN_LEFT_PAREN, TOKEN_LEFT_BRACKET, TOKEN_DOT}"
    if "parse_postfix_continue pe n p (Some e0) = Some (r, q)"
    using that by (rule postfix_continue_chain)
  have c: "parser_parse_statement (Suc (Suc n)) p =
        Some (Some (AstNode
                      (ExprStmt (Some (AstNode (IdentifierExpr (lexeme (current p)))
                                         (line (current p)) (column (current p)))))
                      (line (current p)) (column (current p))),
              parser_advance p)"
    if "type (current p) = TOKEN_IDENTIFIER"
       "type (current (parser_advance p)) \<notin>
          {TOKEN_COLON, TOKEN_EQUAL, TOKEN_LEFT_PAREN, TOKEN_LEFT_BRACKET, TOKEN_DOT}"
    using that
    by (simp add: vc_simps string_dup_n_def ast_create_identifier_def ast_create_expr_stmt_def
             del: parser_parse_expression.simps)
  have d: "parser_parse_statement (Suc n) p =
        (case parser_parse_expression n p of
           None \<Rightarrow> None
         | Some (None, q) \<Rightarrow> Some (None, q)
         | Some (Some e, q) \<Rightarrow>
             Some (Some (AstNode (ExprStmt (Some e)) (node_line e) (node_column e)), q))"
    if "type (current p) \<notin>
      {TOKEN_IDENTIFIER, TOKEN_IF, TOKEN_WHILE, TOKEN_FOR, TOKEN_LOOP, TOKEN_RETURN,
       TOKEN_BREAK, TOKEN_CONTINUE}"
    using that by (rule fallback_statement)
  have i: "parser_parse_statement (n + 3) p =
        Some (Some (AstNode
                (ExprStmt (Some (AstNode
                   (IndexExpr (Some (AstNode (IdentifierExpr (lexeme (current p)))
                                      (line (current p)) (column (current p))))
                      index)
                   (line (current q)) (column (current q)))))
                (line (current q)) (column (current q))),
              parser_advance q)"
    if "type (current p) = TOKEN_IDENTIFIER"
       "type (current (parser_advance p)) = TOKEN_LEFT_BRACKET"
       "parser_parse_expression (n + 2) (parser_advance (parser_advance p)) = Some (index, q)"
       "type (current q) = TOKEN_RIGHT_BRACKET"
       "type (current (parser_advance q)) \<notin>
          {TOKEN_LEFT_PAREN, TOKEN_LEFT_BRACKET, TOKEN_DOT}"
    using that unfolding n2 n3 by (rule index_statement)
  have k: "parser_parse_statement (n + 3) p =
        Some (Some (AstNode
                (ExprStmt (Some (AstNode
                   (CallExpr (Some (AstNode (IdentifierExpr (lexeme (current p)))
                                     (line (current p)) (column (current p))))
                      [arg])
                   (line (current q)) (column (current q)))))
                (line (current q)) (column (current q))),
              parser_advance q)"
    if "type (current p) = TOKEN_IDENTIFIER"
       "type (current (parser_advance p)) = TOKEN_LEFT_PAREN"
       "type (current (parser_advance (parser_advance p))) \<noteq> TOKEN_RIGHT_PAREN"
       "parser_parse_expression (n + 2) (parser_advance (parser_advance p)) = Some (arg, q)"
       "type (current q) = TOKEN_RIGHT_PAREN"
       "type (current (parser_advance q)) \<notin>
          {TOKEN_LEFT_PAREN, TOKEN_LEFT_BRACKET, TOKEN_DOT}"
    using that unfolding n2 n3 by (rule call_statement)
  have m: "parser_parse_statement (n + 3) p =
        Some (Some (AstNode
                (ExprStmt (Some (AstNode
                   (MemberExpr (Some (AstNode (IdentifierExpr (lexeme (current p)))
                                       (line (current p)) (column (current p))))
                      (lexeme (current (parser_advance (parser_advance p)))))
                   (line (current (parser_advance (parser_advance p))))
                   (column (current (parser_advance (parser_advance p)))))))
                (line (current (parser_advance (parser_advance p))))
                (column (current (parser_advance (parser_advance p))))),
              parser_advance (parser_advance (parser_advance p)))"
    if "type (current p) = TOKEN_IDENTIFIER"
       "type (current (parser_advance p)) = TOKEN_DOT"
       "type (current (parser_advance (parser_advance p))) = TOKEN_IDENTIFIER"
       "type (current (parser_advance (parser_advance (parser_advance p)))) \<notin>
          {TOKEN_LEFT_PAREN, TOKEN_LEFT_BRACKET, TOKEN_DOT}"
    using that unfolding n3 by (rule member_statement)
  have s: "parse_postfix_continue pe (Suc n) p expr = Some (expr, p)"
    if "type (current p) \<notin> {TOKEN_LEFT_PAREN, TOKEN_LEFT_BRACKET, TOKEN_DOT}"
    using that by (rule postfix_continue_no_token)
  have chain1: "parser_parse_expression (Suc n) p =
                  parse_logical_or (parser_parse_expression n) n p"
    by (rule parser_parse_expression.simps)
  note turns = postfix_continue_call[of p pe n expr] call_arguments_step[of pe n p args]
    postfix_continue_index[of p pe n expr] postfix_continue_member[of p pe n expr]
  note chain2 = logical_or_entry[of pe n p] logical_or_loop_step[of pe n p left]
    logical_and_entry[of pe n p] logical_and_loop_step[of pe n p left]
    equality_entry[of pe n p] equality_loop_step[of pe n p left]
    comparison_entry[of pe n p] comparison_loop_step[of pe n p left]
  note chain3 = term_entry[of pe n p] term_loop_step[of pe n p left]
    factor_entry[of pe n p] factor_loop_step[of pe n p left]
    unary_step[of pe n p] postfix_entry[of pe n p]
  show ?thesis
    apply (intro conjI impI)
    subgoal by (rule a) simp_all
    subgoal by (rule b[THEN conjunct1])
    subgoal by (rule b[THEN conjunct2])
    subgoal by (rule turns(1))
    subgoal by (rule turns(2))
    subgoal by (rule turns(3))
    subgoal by (rule turns(4))
    subgoal by (rule s)
    subgoal by (rule c) simp_all
    subgoal by (rule i) simp_all
    subgoal by (rule k) simp_all
    subgoal by (rule m) simp_all
    subgoal by (rule d)
    subgoal by (rule chain1)
    subgoal by (rule chain2(1))
    subgoal by (rule chain2(2))
    subgoal by (rule chain2(3))
    subgoal by (rule chain2(4))
    subgoal by (rule chain2(5))
    subgoal by (rule chain2(6))
    subgoal by (rule chain2(7))
    subgoal by (rule chain2(8))
    subgoal by (rule chain3(1))
    subgoal by (rule chain3(2))
    subgoal by (rule chain3(3))
    subgoal by (rule chain3(4))
    subgoal by (rule chain3(5))
    subgoal by (rule chain3(6))
    done
qed

theorem identifier_statement_is_postfix_chain_only_witness:
  "type (current input_a_plus_b) = TOKEN_IDENTIFIER \<and>
   type (current (parser_advance input_a_plus_b)) \<notin> {TOKEN_COLON, TOKEN_EQUAL,
     TOKEN_LEFT_PAREN, TOKEN_LEFT_BRACKET, TOKEN_DOT} \<and>
   parser_parse_statement 2 input_a_plus_b =
     Some
       (Some (AstNode (ExprStmt (Some (AstNode (IdentifierExpr ''a'') 1 2))) 1 2),
        \<lparr>lexer =
                  \<lparr>pending = [make_token TOKEN_IDENTIFIER ''b'' 1 6],
                          end_line = 1,
                          end_column = 6\<rparr>,
                current = make_token TOKEN_PLUS ''+'' 1 4,
                previous = make_token TOKEN_IDENTIFIER ''a'' 1 2,
                had_error = False,
                panic_mode = False,
                reported = []\<rparr>) \<and>
   type (current (parser_advance input_a_plus_b)) \<notin> {TOKEN_LEFT_PAREN, TOKEN_LEFT_BRACKET,
     TOKEN_DOT} \<and>
   parse_postfix_continue (parser_parse_expression 1) 1 (parser_advance input_a_plus_b)
     (Some (AstNode (IdentifierExpr ''a'') 1 2)) =
     Some
       (Some (AstNode (IdentifierExpr ''a'') 1 2),
        \<lparr>lexer =
                  \<lparr>pending = [make_token TOKEN_IDENTIFIER ''b'' 1 6],
                          end_line = 1,
                          end_column = 6\<rparr>,
                current = make_token TOKEN_PLUS ''+'' 1 4,
                previous = make_token TOKEN_IDENTIFIER ''a'' 1 2,
                had_error = False,
                panic_mode = False,
                reported = []\<rparr>) \<and>
   type (current input_a_index_0_plus_b) = TOKEN_IDENTIFIER \<and>
   type (current (parser_advance input_a_index_0_plus_b)) = TOKEN_LEFT_BRACKET \<and>
   parser_parse_expression 3 (parser_advance (parser_advance input_a_index_0_plus_b)) =
     Some (Some (AstNode (LiteralExpr (LIT_INT 0)) 1 4), (advance_by 3 input_a_index_0_plus_b)) \<and>
   type (current (advance_by 3 input_a_index_0_plus_b)) = TOKEN_RIGHT_BRACKET \<and>
   type (current (parser_advance (advance_by 3 input_a_index_0_plus_b))) \<notin>
     {TOKEN_LEFT_PAREN, TOKEN_LEFT_BRACKET, TOKEN_DOT} \<and>
   parser_parse_statement 4 input_a_index_0_plus_b =
     Some
       (Some
          (AstNode
             (ExprStmt
                (Some
                   (AstNode
                      (IndexExpr (Some (AstNode (IdentifierExpr ''a'') 1 2))
                         (Some (AstNode (LiteralExpr (LIT_INT 0)) 1 4)))
                      1 5)))
             1 5),
        \<lparr>lexer =
                  \<lparr>pending = [make_token TOKEN_IDENTIFIER ''b'' 1 9],
                          end_line = 1,
                          end_column = 9\<rparr>,
                current = make_token TOKEN_PLUS ''+'' 1 7,
                previous = make_token TOKEN_RIGHT_BRACKET '']'' 1 5,
                had_error = False,
                panic_mode = False,
                reported = []\<rparr>) \<and>
   type (current (parser_advance input_a_index_0_plus_b)) = TOKEN_LEFT_BRACKET \<and>
   parse_postfix_continue (parser_parse_expression 3) 3 (parser_advance input_a_index_0_plus_b)
     (Some (AstNode (IdentifierExpr ''a'') 1 2)) =
     Some
       (Some
          (AstNode
             (IndexExpr (Some (AstNode (IdentifierExpr ''a'') 1 2))
                (Some (AstNode (LiteralExpr (LIT_INT 0)) 1 4)))
             1 5),
        \<lparr>lexer =
                  \<lparr>pending = [make_token TOKEN_IDENTIFIER ''b'' 1 9],
                          end_line = 1,
                          end_column = 9\<rparr>,
                current = make_token TOKEN_PLUS ''+'' 1 7,
                previous = make_token TOKEN_RIGHT_BRACKET '']'' 1 5,
                had_error = False,
                panic_mode = False,
                reported = []\<rparr>) \<and>
   type (current input_f_of_x_times_2) = TOKEN_IDENTIFIER \<and>
   type (current (parser_advance input_f_of_x_times_2)) = TOKEN_LEFT_PAREN \<and>
   type (current (parser_advance (parser_advance input_f_of_x_times_2))) \<noteq>
     TOKEN_RIGHT_PAREN \<and>
   parser_parse_expression 3 (parser_advance (parser_advance input_f_of_x_times_2)) =
     Some (Some (AstNode (IdentifierExpr ''x'') 1 4), (advance_by 3 input_f_of_x_times_2)) \<and>
   type (current (advance_by 3 input_f_of_x_times_2)) = TOKEN_RIGHT_PAREN \<and>
   type (current (parser_advance (advance_by 3 input_f_of_x_times_2))) \<notin> {TOKEN_LEFT_PAREN,
     TOKEN_LEFT_BRACKET, TOKEN_DOT} \<and>
   parser_parse_statement 4 input_f_of_x_times_2 =
     Some
       (Some
          (AstNode
             (ExprStmt
                (Some
                   (AstNode
                      (CallExpr (Some (AstNode (IdentifierExpr ''f'') 1 2))
                         [Some (AstNode (IdentifierExpr ''x'') 1 4)])
                      1 5)))
             1 5),
        \<lparr>lexer =
                  \<lparr>pending = [make_token TOKEN_INT ''2'' 1 9],
                          end_line = 1,
                          end_column = 9\<rparr>,
                current = make_token TOKEN_STAR ''*'' 1 7,
                previous = make_token TOKEN_RIGHT_PAREN '')'' 1 5,
                had_error = False,
                panic_mode = False,
                reported = []\<rparr>) \<and>
   type (current (parser_advance input_f_of_x_times_2)) = TOKEN_LEFT_PAREN \<and>
   parse_postfix_continue (parser_parse_expression 3) 3 (parser_advance input_f_of_x_times_2)
     (Some (AstNode (IdentifierExpr ''f'') 1 2)) =
     Some
       (Some
          (AstNode
             (CallExpr (Some (AstNode (IdentifierExpr ''f'') 1 2))
                [Some (AstNode (IdentifierExpr ''x'') 1 4)])
             1 5),
        \<lparr>lexer =
                  \<lparr>pending = [make_token TOKEN_INT ''2'' 1 9],
                          end_line = 1,
                          end_column = 9\<rparr>,
                current = make_token TOKEN_STAR ''*'' 1 7,
                previous = make_token TOKEN_RIGHT_PAREN '')'' 1 5,
                had_error = False,
                panic_mode = False,
                reported = []\<rparr>) \<and>
   type (current input_a_dot_m_minus_1) = TOKEN_IDENTIFIER \<and>
   type (current (parser_advance input_a_dot_m_minus_1)) = TOKEN_DOT \<and>
   type (current (parser_advance (parser_advance input_a_dot_m_minus_1))) = TOKEN_IDENTIFIER \<and>
   type (current (parser_advance (parser_advance (parser_advance input_a_dot_m_minus_1))))
     \<notin> {TOKEN_LEFT_PAREN, TOKEN_LEFT_BRACKET, TOKEN_DOT} \<and>
   parser_parse_statement 4 input_a_dot_m_minus_1 =
     Some
       (Some
          (AstNode
             (ExprStmt
                (Some (AstNode (MemberExpr (Some (AstNode (IdentifierExpr ''a'') 1 2)) ''m'') 1 4)))
             1 4),
        \<lparr>lexer =
                  \<lparr>pending = [make_token TOKEN_INT ''1'' 1 8],
                          end_line = 1,
                          end_column = 8\<rparr>,
                current = make_token TOKEN_MINUS ''-'' 1 6,
                previous = make_token TOKEN_IDENTIFIER ''m'' 1 4,
                had_error = False,
                panic_mode = False,
                reported = []\<rparr>) \<and>
   type (current (parser_advance input_a_dot_m_minus_1)) = TOKEN_DOT \<and>
   parse_postfix_continue (parser_parse_expression 3) 3 (parser_advance input_a_dot_m_minus_1)
     (Some (AstNode (IdentifierExpr ''a'') 1 2)) =
     Some
       (Some (AstNode (MemberExpr (Some (AstNode (IdentifierExpr ''a'') 1 2)) ''m'') 1 4),
        \<lparr>lexer =
                  \<lparr>pending = [make_token TOKEN_INT ''1'' 1 8],
                          end_line = 1,
                          end_column = 8\<rparr>,
                current = make_token TOKEN_MINUS ''-'' 1 6,
                previous = make_token TOKEN_IDENTIFIER ''m'' 1 4,
                had_error = False,
                panic_mode = False,
                reported = []\<rparr>) \<and>
   type (current input_chain_plus_1) = TOKEN_IDENTIFIER \<and>
   type (current (parser_advance input_chain_plus_1)) \<notin> {TOKEN_COLON, TOKEN_EQUAL} \<and>
   parser_parse_statement 6 input_chain_plus_1 =
     Some
       (Some
          (AstNode
             (ExprStmt
                (Some
                   (AstNode
                      (IndexExpr
                         (Some
                            (AstNode
                               (CallExpr
                                  (Some
                                     (AstNode
                                        (MemberExpr (Some (AstNode (IdentifierExpr ''a'') 1 2))
                                           ''b'')
                                        1 4))
                                  [Some (AstNode (IdentifierExpr ''x'') 1 6)])
                               1 7))
                         (Some (AstNode (LiteralExpr (LIT_INT 0)) 1 9)))
                      1 10)))
             1 10),
        \<lparr>lexer =
                  \<lparr>pending = [make_token TOKEN_INT ''1'' 1 14],
                          end_line = 1,
                          end_column = 14\<rparr>,
                current = make_token TOKEN_PLUS ''+'' 1 12,
                previous = make_token TOKEN_RIGHT_BRACKET '']'' 1 10,
                had_error = False,
                panic_mode = False,
                reported = []\<rparr>) \<and>
   type (current input_1_plus_b) \<notin> {TOKEN_IDENTIFIER, TOKEN_IF, TOKEN_WHILE, TOKEN_FOR,
     TOKEN_LOOP, TOKEN_RETURN, TOKEN_BREAK, TOKEN_CONTINUE} \<and>
   parser_parse_statement 5 input_1_plus_b =
     Some
       (Some
          (AstNode
             (ExprStmt
                (Some
                   (AstNode
                      (BinaryExpr OP_ADD (Some (AstNode (LiteralExpr (LIT_INT 1)) 1 2))
                         (Some (AstNode (IdentifierExpr ''b'') 1 6)))
                      1 4)))
             1 4),
        \<lparr>lexer = \<lparr>pending = [], end_line = 1, end_column = 6\<rparr>,
                current = make_token TOKEN_EOF [] 1 6,
                previous = make_token TOKEN_IDENTIFIER ''b'' 1 6,
                had_error = False,
                panic_mode = False,
                reported = []\<rparr>) \<and>
   parse_postfix_continue (parser_parse_expression 5) 5 (parser_advance input_chain_plus_1)
     (Some (AstNode (IdentifierExpr ''a'') 1 2)) =
     Some
       (Some
          (AstNode
             (IndexExpr
                (Some
                   (AstNode
                      (CallExpr
                         (Some
                            (AstNode
                               (MemberExpr (Some (AstNode (IdentifierExpr ''a'') 1 2)) ''b'') 1 4))
                         [Some (AstNode (IdentifierExpr ''x'') 1 6)])
                      1 7))
                (Some (AstNode (LiteralExpr (LIT_INT 0)) 1 9)))
             1 10),
        (advance_by 9 input_chain_plus_1)) \<and>
   postfix_base
     (AstNode
        (IndexExpr
           (Some
              (AstNode
                 (CallExpr
                    (Some
                       (AstNode (MemberExpr (Some (AstNode (IdentifierExpr ''a'') 1 2)) ''b'') 1
                          4))
                    [Some (AstNode (IdentifierExpr ''x'') 1 6)])
                 1 7))
           (Some (AstNode (LiteralExpr (LIT_INT 0)) 1 9)))
        1 10) =
     (AstNode (IdentifierExpr ''a'') 1 2) \<and>
   type (current (advance_by 9 input_chain_plus_1)) \<notin> {TOKEN_LEFT_PAREN,
     TOKEN_LEFT_BRACKET, TOKEN_DOT}"
proof -
  have ar: "Suc 0 = 1" "Suc 1 = 2" "Suc 2 = 3" "Suc 3 = 4" "Suc 4 = 5" "Suc 5 = 6"
    "(1::nat) + 2 = 3" "(1::nat) + 3 = 4"
    by simp_all
  have h1:
    "type (current input_a_plus_b) = TOKEN_IDENTIFIER \<and>
     type (current (parser_advance input_a_plus_b)) \<notin> {TOKEN_COLON, TOKEN_EQUAL,
       TOKEN_LEFT_PAREN, TOKEN_LEFT_BRACKET, TOKEN_DOT}"
    by code_simp
  have v1:
    "Some
       (Some
          (AstNode
             (ExprStmt
                (Some
                   (AstNode (IdentifierExpr (lexeme (current input_a_plus_b)))
                      (line (current input_a_plus_b)) (column (current input_a_plus_b)))))
             (line (current input_a_plus_b)) (column (current input_a_plus_b))),
        (parser_advance input_a_plus_b)) =
       Some
         (Some (AstNode (ExprStmt (Some (AstNode (IdentifierExpr ''a'') 1 2))) 1 2),
          \<lparr>lexer =
                    \<lparr>pending = [make_token TOKEN_IDENTIFIER ''b'' 1 6],
                            end_line = 1,
                            end_column = 6\<rparr>,
                  current = make_token TOKEN_PLUS ''+'' 1 4,
                  previous = make_token TOKEN_IDENTIFIER ''a'' 1 2,
                  had_error = False,
                  panic_mode = False,
                  reported = []\<rparr>)"
    by code_simp
  have t1:
    "parser_parse_statement 2 input_a_plus_b =
       Some
         (Some
            (AstNode
               (ExprStmt
                  (Some
                     (AstNode (IdentifierExpr (lexeme (current input_a_plus_b)))
                        (line (current input_a_plus_b)) (column (current input_a_plus_b)))))
               (line (current input_a_plus_b)) (column (current input_a_plus_b))),
          (parser_advance input_a_plus_b))"
    using identifier_statement_is_postfix_chain_only
      [where n = 0
         and p = input_a_plus_b,
       unfolded ar,
       THEN conjunct2, THEN conjunct2, THEN conjunct2, THEN conjunct2,
       THEN conjunct2, THEN conjunct2, THEN conjunct2, THEN conjunct1]
      h1
    by blast
  have h2:
    "type (current (parser_advance input_a_plus_b)) \<notin> {TOKEN_LEFT_PAREN,
       TOKEN_LEFT_BRACKET, TOKEN_DOT}"
    by code_simp
  have v2:
    "Some (Some (AstNode (IdentifierExpr ''a'') 1 2), (parser_advance input_a_plus_b)) =
       Some
         (Some (AstNode (IdentifierExpr ''a'') 1 2),
          \<lparr>lexer =
                    \<lparr>pending = [make_token TOKEN_IDENTIFIER ''b'' 1 6],
                            end_line = 1,
                            end_column = 6\<rparr>,
                  current = make_token TOKEN_PLUS ''+'' 1 4,
                  previous = make_token TOKEN_IDENTIFIER ''a'' 1 2,
                  had_error = False,
                  panic_mode = False,
                  reported = []\<rparr>)"
    by code_simp
  have t2:
    "parse_postfix_continue (parser_parse_expression 1) 1 (parser_advance input_a_plus_b)
       (Some (AstNode (IdentifierExpr ''a'') 1 2)) =
       Some (Some (AstNode (IdentifierExpr ''a'') 1 2), (parser_advance input_a_plus_b))"
    using identifier_statement_is_postfix_chain_only
      [where pe = "parser_parse_expression 1"
         and n = 0
         and p = "(parser_advance input_a_plus_b)"
         and expr = "Some (AstNode (IdentifierExpr ''a'') 1 2)",
       unfolded ar,
       THEN conjunct2, THEN conjunct2, THEN conjunct2, THEN conjunct2,
       THEN conjunct2, THEN conjunct2, THEN conjunct1]
      h2
    by blast
  have h3:
    "type (current input_a_index_0_plus_b) = TOKEN_IDENTIFIER \<and>
     type (current (parser_advance input_a_index_0_plus_b)) = TOKEN_LEFT_BRACKET \<and>
     parser_parse_expression 3 (parser_advance (parser_advance input_a_index_0_plus_b)) =
       Some (Some (AstNode (LiteralExpr (LIT_INT 0)) 1 4), (advance_by 3 input_a_index_0_plus_b)) \<and>
     type (current (advance_by 3 input_a_index_0_plus_b)) = TOKEN_RIGHT_BRACKET \<and>
     type (current (parser_advance (advance_by 3 input_a_index_0_plus_b))) \<notin>
       {TOKEN_LEFT_PAREN, TOKEN_LEFT_BRACKET, TOKEN_DOT}"
    by code_simp
  have v3:
    "Some
       (Some
          (AstNode
             (ExprStmt
                (Some
                   (AstNode
                      (IndexExpr
                         (Some
                            (AstNode (IdentifierExpr (lexeme (current input_a_index_0_plus_b)))
                               (line (current input_a_index_0_plus_b))
                               (column (current input_a_index_0_plus_b))))
                         (Some (AstNode (LiteralExpr (LIT_INT 0)) 1 4)))
                      (line (current (advance_by 3 input_a_index_0_plus_b)))
                      (column (current (advance_by 3 input_a_index_0_plus_b))))))
             (line (current (advance_by 3 input_a_index_0_plus_b)))
             (column (current (advance_by 3 input_a_index_0_plus_b)))),
        (parser_advance (advance_by 3 input_a_index_0_plus_b))) =
       Some
         (Some
            (AstNode
               (ExprStmt
                  (Some
                     (AstNode
                        (IndexExpr (Some (AstNode (IdentifierExpr ''a'') 1 2))
                           (Some (AstNode (LiteralExpr (LIT_INT 0)) 1 4)))
                        1 5)))
               1 5),
          \<lparr>lexer =
                    \<lparr>pending = [make_token TOKEN_IDENTIFIER ''b'' 1 9],
                            end_line = 1,
                            end_column = 9\<rparr>,
                  current = make_token TOKEN_PLUS ''+'' 1 7,
                  previous = make_token TOKEN_RIGHT_BRACKET '']'' 1 5,
                  had_error = False,
                  panic_mode = False,
                  reported = []\<rparr>)"
    by code_simp
  have t3:
    "parser_parse_statement 4 input_a_index_0_plus_b =
       Some
         (Some
            (AstNode
               (ExprStmt
                  (Some
                     (AstNode
                        (IndexExpr
                           (Some
                              (AstNode (IdentifierExpr (lexeme (current input_a_index_0_plus_b)))
                                 (line (current input_a_index_0_plus_b))
                                 (column (current input_a_index_0_plus_b))))
                           (Some (AstNode (LiteralExpr (LIT_INT 0)) 1 4)))
                        (line (current (advance_by 3 input_a_index_0_plus_b)))
                        (column (current (advance_by 3 input_a_index_0_plus_b))))))
               (line (current (advance_by 3 input_a_index_0_plus_b)))
               (column (current (advance_by 3 input_a_index_0_plus_b)))),
          (parser_advance (advance_by 3 input_a_index_0_plus_b)))"
    using identifier_statement_is_postfix_chain_only
      [where n = 1
         and p = input_a_index_0_plus_b
         and index = "Some (AstNode (LiteralExpr (LIT_INT 0)) 1 4)"
         and q = "(advance_by 3 input_a_index_0_plus_b)",
       unfolded ar,
       THEN conjunct2, THEN conjunct2, THEN conjunct2, THEN conjunct2,
       THEN conjunct2, THEN conjunct2, THEN conjunct2, THEN conjunct2,
       THEN conjunct1]
      h3
    by blast
  have h4:
    "type (current (parser_advance input_a_index_0_plus_b)) = TOKEN_LEFT_BRACKET"
    by code_simp
  have v4:
    "(case (parser_parse_expression 3) (parser_advance (parser_advance input_a_index_0_plus_b))
        of None \<Rightarrow> None | Some (index, q) \<Rightarrow> parse_postfix_continue
        (parser_parse_expression 3) 2
        (if type (current q) =
           TOKEN_RIGHT_BRACKET then parser_advance q else parser_error_at_current q
             ''Expected ']' after index'')
        (Some
           (AstNode (IndexExpr (Some (AstNode (IdentifierExpr ''a'') 1 2)) index)
              (line (current q)) (column (current q))))) =
       Some
         (Some
            (AstNode
               (IndexExpr (Some (AstNode (IdentifierExpr ''a'') 1 2))
                  (Some (AstNode (LiteralExpr (LIT_INT 0)) 1 4)))
               1 5),
          \<lparr>lexer =
                    \<lparr>pending = [make_token TOKEN_IDENTIFIER ''b'' 1 9],
                            end_line = 1,
                            end_column = 9\<rparr>,
                  current = make_token TOKEN_PLUS ''+'' 1 7,
                  previous = make_token TOKEN_RIGHT_BRACKET '']'' 1 5,
                  had_error = False,
                  panic_mode = False,
                  reported = []\<rparr>)"
    by code_simp
  have t4:
    "parse_postfix_continue (parser_parse_expression 3) 3
       (parser_advance input_a_index_0_plus_b) (Some (AstNode (IdentifierExpr ''a'') 1 2)) =
       (case (parser_parse_expression 3) (parser_advance (parser_advance input_a_index_0_plus_b))
          of None \<Rightarrow> None | Some (index, q) \<Rightarrow> parse_postfix_continue
          (parser_parse_expression 3) 2
          (if type (current q) =
             TOKEN_RIGHT_BRACKET then parser_advance q else parser_error_at_current q
               ''Expected ']' after index'')
          (Some
             (AstNode (IndexExpr (Some (AstNode (IdentifierExpr ''a'') 1 2)) index)
                (line (current q)) (column (current q)))))"
    using identifier_statement_is_postfix_chain_only
      [where pe = "parser_parse_expression 3"
         and n = 2
         and p = "(parser_advance input_a_index_0_plus_b)"
         and expr = "Some (AstNode (IdentifierExpr ''a'') 1 2)",
       unfolded ar,
       THEN conjunct2, THEN conjunct2, THEN conjunct2, THEN conjunct2,
       THEN conjunct1]
      h4
    by blast
  have h5:
    "type (current input_f_of_x_times_2) = TOKEN_IDENTIFIER \<and>
     type (current (parser_advance input_f_of_x_times_2)) = TOKEN_LEFT_PAREN \<and>
     type (current (parser_advance (parser_advance input_f_of_x_times_2))) \<noteq>
       TOKEN_RIGHT_PAREN \<and>
     parser_parse_expression 3 (parser_advance (parser_advance input_f_of_x_times_2)) =
       Some (Some (AstNode (IdentifierExpr ''x'') 1 4), (advance_by 3 input_f_of_x_times_2)) \<and>
     type (current (advance_by 3 input_f_of_x_times_2)) = TOKEN_RIGHT_PAREN \<and>
     type (current (parser_advance (advance_by 3 input_f_of_x_times_2))) \<notin>
       {TOKEN_LEFT_PAREN, TOKEN_LEFT_BRACKET, TOKEN_DOT}"
    by code_simp
  have v5:
    "Some
       (Some
          (AstNode
             (ExprStmt
                (Some
                   (AstNode
                      (CallExpr
                         (Some
                            (AstNode (IdentifierExpr (lexeme (current input_f_of_x_times_2)))
                               (line (current input_f_of_x_times_2))
                               (column (current input_f_of_x_times_2))))
                         [Some (AstNode (IdentifierExpr ''x'') 1 4)])
                      (line (current (advance_by 3 input_f_of_x_times_2)))
                      (column (current (advance_by 3 input_f_of_x_times_2))))))
             (line (current (advance_by 3 input_f_of_x_times_2)))
             (column (current (advance_by 3 input_f_of_x_times_2)))),
        (parser_advance (advance_by 3 input_f_of_x_times_2))) =
       Some
         (Some
            (AstNode
               (ExprStmt
                  (Some
                     (AstNode
                        (CallExpr (Some (AstNode (IdentifierExpr ''f'') 1 2))
                           [Some (AstNode (IdentifierExpr ''x'') 1 4)])
                        1 5)))
               1 5),
          \<lparr>lexer =
                    \<lparr>pending = [make_token TOKEN_INT ''2'' 1 9],
                            end_line = 1,
                            end_column = 9\<rparr>,
                  current = make_token TOKEN_STAR ''*'' 1 7,
                  previous = make_token TOKEN_RIGHT_PAREN '')'' 1 5,
                  had_error = False,
                  panic_mode = False,
                  reported = []\<rparr>)"
    by code_simp
  have t5:
    "parser_parse_statement 4 input_f_of_x_times_2 =
       Some
         (Some
            (AstNode
               (ExprStmt
                  (Some
                     (AstNode
                        (CallExpr
                           (Some
                              (AstNode (IdentifierExpr (lexeme (current input_f_of_x_times_2)))
                                 (line (current input_f_of_x_times_2))
                                 (column (current input_f_of_x_times_2))))
                           [Some (AstNode (IdentifierExpr ''x'') 1 4)])
                        (line (current (advance_by 3 input_f_of_x_times_2)))
                        (column (current (advance_by 3 input_f_of_x_times_2))))))
               (line (current (advance_by 3 input_f_of_x_times_2)))
               (column (current (advance_by 3 input_f_of_x_times_2)))),
          (parser_advance (advance_by 3 input_f_of_x_times_2)))"
    using identifier_statement_is_postfix_chain_only
      [where n = 1
         and p = input_f_of_x_times_2
         and arg = "Some (AstNode (IdentifierExpr ''x'') 1 4)"
         and q = "(advance_by 3 input_f_of_x_times_2)",
       unfolded ar,
       THEN conjunct2, THEN conjunct2, THEN conjunct2, THEN conjunct2,
       THEN conjunct2, THEN conjunct2, THEN conjunct2, THEN conjunct2,
       THEN conjunct2, THEN conjunct1]
      h5
    by blast
  have h6:
    "type (current (parser_advance input_f_of_x_times_2)) = TOKEN_LEFT_PAREN"
    by code_simp
  have v6:
    "(case
        (if type (current (parser_advance (parser_advance input_f_of_x_times_2))) =
           TOKEN_RIGHT_PAREN then Some
             ([], (parser_advance (parser_advance input_f_of_x_times_2))) else
             parse_call_arguments (parser_parse_expression 3) 2
             (parser_advance (parser_advance input_f_of_x_times_2)) [])
        of None \<Rightarrow> None | Some (args, q) \<Rightarrow> parse_postfix_continue
        (parser_parse_expression 3) 2
        (if type (current q) =
           TOKEN_RIGHT_PAREN then parser_advance q else parser_error_at_current q
             ''Expected ')' after arguments'')
        (Some
           (AstNode (CallExpr (Some (AstNode (IdentifierExpr ''f'') 1 2)) args)
              (line (current q)) (column (current q))))) =
       Some
         (Some
            (AstNode
               (CallExpr (Some (AstNode (IdentifierExpr ''f'') 1 2))
                  [Some (AstNode (IdentifierExpr ''x'') 1 4)])
               1 5),
          \<lparr>lexer =
                    \<lparr>pending = [make_token TOKEN_INT ''2'' 1 9],
                            end_line = 1,
                            end_column = 9\<rparr>,
                  current = make_token TOKEN_STAR ''*'' 1 7,
                  previous = make_token TOKEN_RIGHT_PAREN '')'' 1 5,
                  had_error = False,
                  panic_mode = False,
                  reported = []\<rparr>)"
    by code_simp
  have t6:
    "parse_postfix_continue (parser_parse_expression 3) 3 (parser_advance input_f_of_x_times_2)
       (Some (AstNode (IdentifierExpr ''f'') 1 2)) =
       (case
          (if type (current (parser_advance (parser_advance input_f_of_x_times_2))) =
             TOKEN_RIGHT_PAREN then Some
               ([], (parser_advance (parser_advance input_f_of_x_times_2))) else
               parse_call_arguments (parser_parse_expression 3) 2
               (parser_advance (parser_advance input_f_of_x_times_2)) [])
          of None \<Rightarrow> None | Some (args, q) \<Rightarrow> parse_postfix_continue
          (parser_parse_expression 3) 2
          (if type (current q) =
             TOKEN_RIGHT_PAREN then parser_advance q else parser_error_at_current q
               ''Expected ')' after arguments'')
          (Some
             (AstNode (CallExpr (Some (AstNode (IdentifierExpr ''f'') 1 2)) args)
                (line (current q)) (column (current q)))))"
    using identifier_statement_is_postfix_chain_only
      [where pe = "parser_parse_expression 3"
         and n = 2
         and p = "(parser_advance input_f_of_x_times_2)"
         and expr = "Some (AstNode (IdentifierExpr ''f'') 1 2)",
       unfolded ar,
       THEN conjunct2, THEN conjunct2, THEN conjunct1]
      h6
    by blast
  have h7:
    "type (current input_a_dot_m_minus_1) = TOKEN_IDENTIFIER \<and>
     type (current (parser_advance input_a_dot_m_minus_1)) = TOKEN_DOT \<and>
     type (current (parser_advance (parser_advance input_a_dot_m_minus_1))) = TOKEN_IDENTIFIER \<and>
     type (current (parser_advance (parser_advance (parser_advance input_a_dot_m_minus_1))))
       \<notin> {TOKEN_LEFT_PAREN, TOKEN_LEFT_BRACKET, TOKEN_DOT}"
    by code_simp
  have v7:
    "Some
       (Some
          (AstNode
             (ExprStmt
                (Some
                   (AstNode
                      (MemberExpr
                         (Some
                            (AstNode (IdentifierExpr (lexeme (current input_a_dot_m_minus_1)))
                               (line (current input_a_dot_m_minus_1))
                               (column (current input_a_dot_m_minus_1))))
                         (lexeme
                            (current (parser_advance (parser_advance input_a_dot_m_minus_1)))))
                      (line (current (parser_advance (parser_advance input_a_dot_m_minus_1))))
                      (column (current (parser_advance (parser_advance input_a_dot_m_minus_1)))))))
             (line (current (parser_advance (parser_advance input_a_dot_m_minus_1))))
             (column (current (parser_advance (parser_advance input_a_dot_m_minus_1))))),
        (parser_advance (parser_advance (parser_advance input_a_dot_m_minus_1)))) =
       Some
         (Some
            (AstNode
               (ExprStmt
                  (Some
                     (AstNode (MemberExpr (Some (AstNode (IdentifierExpr ''a'') 1 2)) ''m'') 1 4)))
               1 4),
          \<lparr>lexer =
                    \<lparr>pending = [make_token TOKEN_INT ''1'' 1 8],
                            end_line = 1,
                            end_column = 8\<rparr>,
                  current = make_token TOKEN_MINUS ''-'' 1 6,
                  previous = make_token TOKEN_IDENTIFIER ''m'' 1 4,
                  had_error = False,
                  panic_mode = False,
                  reported = []\<rparr>)"
    by code_simp
  have t7:
    "parser_parse_statement 4 input_a_dot_m_minus_1 =
       Some
         (Some
            (AstNode
               (ExprStmt
                  (Some
                     (AstNode
                        (MemberExpr
                           (Some
                              (AstNode (IdentifierExpr (lexeme (current input_a_dot_m_minus_1)))
                                 (line (current input_a_dot_m_minus_1))
                                 (column (current input_a_dot_m_minus_1))))
                           (lexeme
                              (current (parser_advance (parser_advance input_a_dot_m_minus_1)))))
                        (line (current (parser_advance (parser_advance input_a_dot_m_minus_1))))
                        (column (current (parser_advance (parser_advance input_a_dot_m_minus_1)))))))
               (line (current (parser_advance (parser_advance input_a_dot_m_minus_1))))
               (column (current (parser_advance (parser_advance input_a_dot_m_minus_1))))),
          (parser_advance (parser_advance (parser_advance input_a_dot_m_minus_1))))"
    using identifier_statement_is_postfix_chain_only
      [where n = 1
         and p = input_a_dot_m_minus_1,
       unfolded ar,
       THEN conjunct2, THEN conjunct2, THEN conjunct2, THEN conjunct2,
       THEN conjunct2, THEN conjunct2, THEN conjunct2, THEN conjunct2,
       THEN conjunct2, THEN conjunct2, THEN conjunct1]
      h7
    by blast
  have h8:
    "type (current (parser_advance input_a_dot_m_minus_1)) = TOKEN_DOT"
    by code_simp
  have v8:
    "parse_postfix_continue (parser_parse_expression 3) 2
       (if type (current (parser_advance (parser_advance input_a_dot_m_minus_1))) =
          TOKEN_IDENTIFIER then
            (parser_advance (parser_advance (parser_advance input_a_dot_m_minus_1))) else
            parser_error_at_current (parser_advance (parser_advance input_a_dot_m_minus_1))
            (''Expected property name after '.'' @ [CHR 0x27]))
       (Some
          (AstNode
             (MemberExpr (Some (AstNode (IdentifierExpr ''a'') 1 2))
                (lexeme (current (parser_advance (parser_advance input_a_dot_m_minus_1)))))
             (line (current (parser_advance (parser_advance input_a_dot_m_minus_1))))
             (column (current (parser_advance (parser_advance input_a_dot_m_minus_1)))))) =
       Some
         (Some (AstNode (MemberExpr (Some (AstNode (IdentifierExpr ''a'') 1 2)) ''m'') 1 4),
          \<lparr>lexer =
                    \<lparr>pending = [make_token TOKEN_INT ''1'' 1 8],
                            end_line = 1,
                            end_column = 8\<rparr>,
                  current = make_token TOKEN_MINUS ''-'' 1 6,
                  previous = make_token TOKEN_IDENTIFIER ''m'' 1 4,
                  had_error = False,
                  panic_mode = False,
                  reported = []\<rparr>)"
    by code_simp
  have t8:
    "parse_postfix_continue (parser_parse_expression 3) 3 (parser_advance input_a_dot_m_minus_1)
       (Some (AstNode (IdentifierExpr ''a'') 1 2)) =
       parse_postfix_continue (parser_parse_expression 3) 2
         (if type (current (parser_advance (parser_advance input_a_dot_m_minus_1))) =
            TOKEN_IDENTIFIER then
              (parser_advance (parser_advance (parser_advance input_a_dot_m_minus_1))) else
              parser_error_at_current (parser_advance (parser_advance input_a_dot_m_minus_1))
              (''Expected property name after '.'' @ [CHR 0x27]))
         (Some
            (AstNode
               (MemberExpr (Some (AstNode (IdentifierExpr ''a'') 1 2))
                  (lexeme (current (parser_advance (parser_advance input_a_dot_m_minus_1)))))
               (line (current (parser_advance (parser_advance input_a_dot_m_minus_1))))
               (column (current (parser_advance (parser_advance input_a_dot_m_minus_1))))))"
    using identifier_statement_is_postfix_chain_only
      [where pe = "parser_parse_expression 3"
         and n = 2
         and p = "(parser_advance input_a_dot_m_minus_1)"
         and expr = "Some (AstNode (IdentifierExpr ''a'') 1 2)",
       unfolded ar,
       THEN conjunct2, THEN conjunct2, THEN conjunct2, THEN conjunct2,
       THEN conjunct2, THEN conjunct1]
      h8
    by blast
  have h9:
    "type (current input_chain_plus_1) = TOKEN_IDENTIFIER \<and>
     type (current (parser_advance input_chain_plus_1)) \<notin> {TOKEN_COLON, TOKEN_EQUAL}"
    by code_simp
  have v9:
    "(case parse_postfix_continue (parser_parse_expression 5) 5
        (parser_advance input_chain_plus_1)
        (Some
           (AstNode (IdentifierExpr (lexeme (current input_chain_plus_1)))
              (line (current input_chain_plus_1)) (column (current input_chain_plus_1))))
        of None \<Rightarrow> None | Some (expr, q) \<Rightarrow> Some
        (Some (AstNode (ExprStmt expr) (node_line (the expr)) (node_column (the expr))), q)) =
       Some
         (Some
            (AstNode
               (ExprStmt
                  (Some
                     (AstNode
                        (IndexExpr
                           (Some
                              (AstNode
                                 (CallExpr
                                    (Some
                                       (AstNode
                                          (MemberExpr (Some (AstNode (IdentifierExpr ''a'') 1 2))
                                             ''b'')
                                          1 4))
                                    [Some (AstNode (IdentifierExpr ''x'') 1 6)])
                                 1 7))
                           (Some (AstNode (LiteralExpr (LIT_INT 0)) 1 9)))
                        1 10)))
               1 10),
          \<lparr>lexer =
                    \<lparr>pending = [make_token TOKEN_INT ''1'' 1 14],
                            end_line = 1,
                            end_column = 14\<rparr>,
                  current = make_token TOKEN_PLUS ''+'' 1 12,
                  previous = make_token TOKEN_RIGHT_BRACKET '']'' 1 10,
                  had_error = False,
                  panic_mode = False,
                  reported = []\<rparr>)"
    by code_simp
  have t9:
    "parser_parse_statement 6 input_chain_plus_1 =
       (case parse_postfix_continue (parser_parse_expression 5) 5
          (parser_advance input_chain_plus_1)
          (Some
             (AstNode (IdentifierExpr (lexeme (current input_chain_plus_1)))
                (line (current input_chain_plus_1)) (column (current input_chain_plus_1))))
          of None \<Rightarrow> None | Some (expr, q) \<Rightarrow> Some
          (Some (AstNode (ExprStmt expr) (node_line (the expr)) (node_column (the expr))), q))"
    using identifier_statement_is_postfix_chain_only
      [where n = 5
         and p = input_chain_plus_1,
       unfolded ar,
       THEN conjunct1]
      h9
    by blast
  have h10:
    "type (current input_1_plus_b) \<notin> {TOKEN_IDENTIFIER, TOKEN_IF, TOKEN_WHILE, TOKEN_FOR,
       TOKEN_LOOP, TOKEN_RETURN, TOKEN_BREAK, TOKEN_CONTINUE}"
    by code_simp
  have v10:
    "(case parser_parse_expression 4 input_1_plus_b of None \<Rightarrow> None | Some (None, q)
        \<Rightarrow> Some (None, q) | Some (Some e, q) \<Rightarrow> Some
        (Some (AstNode (ExprStmt (Some e)) (node_line e) (node_column e)), q)) =
       Some
         (Some
            (AstNode
               (ExprStmt
                  (Some
                     (AstNode
                        (BinaryExpr OP_ADD (Some (AstNode (LiteralExpr (LIT_INT 1)) 1 2))
                           (Some (AstNode (IdentifierExpr ''b'') 1 6)))
                        1 4)))
               1 4),
          \<lparr>lexer = \<lparr>pending = [], end_line = 1, end_column = 6\<rparr>,
                  current = make_token TOKEN_EOF [] 1 6,
                  previous = make_token TOKEN_IDENTIFIER ''b'' 1 6,
                  had_error = False,
                  panic_mode = False,
                  reported = []\<rparr>)"
    by code_simp
  have t10:
    "parser_parse_statement 5 input_1_plus_b =
       (case parser_parse_expression 4 input_1_plus_b of None \<Rightarrow> None | Some (None, q)
          \<Rightarrow> Some (None, q) | Some (Some e, q) \<Rightarrow> Some
          (Some (AstNode (ExprStmt (Some e)) (node_line e) (node_column e)), q))"
    using identifier_statement_is_postfix_chain_only
      [where n = 4
         and p = input_1_plus_b,
       unfolded ar,
       THEN conjunct2, THEN conjunct2, THEN conjunct2, THEN conjunct2,
       THEN conjunct2, THEN conjunct2, THEN conjunct2, THEN conjunct2,
       THEN conjunct2, THEN conjunct2, THEN conjunct2, THEN conjunct1]
      h10
    by blast
  have hc:
    "parse_postfix_continue (parser_parse_expression 5) 5 (parser_advance input_chain_plus_1)
       (Some (AstNode (IdentifierExpr ''a'') 1 2)) =
       Some
         (Some
            (AstNode
               (IndexExpr
                  (Some
                     (AstNode
                        (CallExpr
                           (Some
                              (AstNode
                                 (MemberExpr (Some (AstNode (IdentifierExpr ''a'') 1 2)) ''b'') 1 4))
                           [Some (AstNode (IdentifierExpr ''x'') 1 6)])
                        1 7))
                  (Some (AstNode (LiteralExpr (LIT_INT 0)) 1 9)))
               1 10),
          (advance_by 9 input_chain_plus_1))"
    by code_simp
  have tc:
    "postfix_base
       (AstNode
          (IndexExpr
             (Some
                (AstNode
                   (CallExpr
                      (Some
                         (AstNode (MemberExpr (Some (AstNode (IdentifierExpr ''a'') 1 2)) ''b'')
                            1 4))
                      [Some (AstNode (IdentifierExpr ''x'') 1 6)])
                   1 7))
             (Some (AstNode (LiteralExpr (LIT_INT 0)) 1 9)))
          1 10) =
       (AstNode (IdentifierExpr ''a'') 1 2) \<and>
     type (current (advance_by 9 input_chain_plus_1)) \<notin> {TOKEN_LEFT_PAREN,
       TOKEN_LEFT_BRACKET, TOKEN_DOT}"
    using identifier_statement_is_postfix_chain_only
      [where pe = "parser_parse_expression 5"
         and n = 5
         and p = "(parser_advance input_chain_plus_1)"
         and ?e0.0 = "AstNode (IdentifierExpr ''a'') 1 2"
         and r =
               "Some
                 (AstNode (IndexExpr (Some (AstNode (CallExpr (Some (AstNode (MemberExpr (Some (AstNode (IdentifierExpr ''a'') 1 2)) ''b'') 1 4)) [Some (AstNode (IdentifierExpr ''x'') 1 6)]) 1 7)) (Some (AstNode (LiteralExpr (LIT_INT 0)) 1 9))) 1 10)"
         and q = "(advance_by 9 input_chain_plus_1)",
       THEN conjunct2, THEN conjunct1]
      hc
    by simp
  show ?thesis
    using h1 t1[unfolded v1] h2 t2[unfolded v2] h3 t3[unfolded v3] h4 t4[unfolded v4] h5 t5[unfolded v5] h6 t6[unfolded v6] h7 t7[unfolded v7] h8 t8[unfolded v8] h9 t9[unfolded v9] h10 t10[unfolded v10] hc tc
    by blast
qed

end
